theory Spec2Isabelle
  imports Main "HOL-Library.Word" "HOL-Library.Log_Nat"
begin

unbundle bit_operations_syntax

section \<open>Housekeeping module (housekeeping.c)\<close>

type_synonym u32 = "32 word"

text \<open>
  \<^verbatim>\<open>static const int HOUSEKEEPING_BASE_SIZE = 0x30;\<close> is the number of bytes that
  \<^verbatim>\<open>hk_Init\<close> asks \<^verbatim>\<open>cmn_Map\<close> to map, starting at the base address.
\<close>

definition HOUSEKEEPING_BASE_ADDR :: nat where
  "HOUSEKEEPING_BASE_ADDR = 0x40000000"

definition HOUSEKEEPING_BASE_SIZE :: nat where
  "HOUSEKEEPING_BASE_SIZE = 0x30"

text \<open>
  \<^verbatim>\<open>housekeeping_control_t\<close>: the members in declaration order, each with its size in
  bytes (\<^verbatim>\<open>uint32_t\<close> is four bytes).
\<close>

definition housekeeping_control_members :: "(string \<times> nat) list" where
  "housekeeping_control_members =
     [(''id'', 4), (''dna_part1'', 4), (''dna_part2'', 4), (''reserved_1'', 4),
      (''ex_cd_p'', 4), (''ex_cd_n'', 4), (''ex_co_p'', 4), (''ex_co_n'', 4),
      (''ex_ci_p'', 4), (''ex_ci_n'', 4), (''reserved_2'', 4), (''reserved_3'', 4),
      (''led_control'', 4)]"

text \<open>
  The layout of a C struct whose members all have the same size and alignment: every
  member starts where the previous one ends. The result lists each member with its byte
  offset and its size.
\<close>

fun struct_layout :: "nat \<Rightarrow> (string \<times> nat) list \<Rightarrow> (string \<times> nat \<times> nat) list" where
  "struct_layout off [] = []"
| "struct_layout off ((name, sz) # ms) = (name, off, sz) # struct_layout (off + sz) ms"

definition housekeeping_control_layout :: "(string \<times> nat \<times> nat) list" where
  "housekeeping_control_layout = struct_layout 0 housekeeping_control_members"

text \<open>A member lies within the mapped window when its last byte does.\<close>

definition within_window :: "string \<times> nat \<times> nat \<Rightarrow> bool" where
  "within_window m = (case m of (name, off, sz) \<Rightarrow> off + sz \<le> HOUSEKEEPING_BASE_SIZE)"

text \<open>The register block itself, as the program reads and writes it.\<close>

record housekeeping_control =
  id' :: u32
  dna_part1 :: u32
  dna_part2 :: u32
  reserved_1 :: u32
  ex_cd_p :: u32
  ex_cd_n :: u32
  ex_co_p :: u32
  ex_co_n :: u32
  ex_ci_p :: u32
  ex_ci_n :: u32
  reserved_2 :: u32
  reserved_3 :: u32
  led_control :: u32

definition LED_CONTROL_MASK :: u32 where
  "LED_CONTROL_MASK = 0xFF"

text \<open>
  \<^verbatim>\<open>hk_SetLedBits\<close>. The helper \<^verbatim>\<open>cmn_SetBits(field, bits, mask)\<close> and the error code
  \<^verbatim>\<open>RP_EMRO\<close> are declared outside this file, so both are parameters: the helper maps the
  current value of the register, the bits and the mask to its return code and the new
  value of the register. \<^verbatim>\<open>hk\<close> is taken to be mapped (after \<^verbatim>\<open>hk_Init\<close>).
\<close>

definition hk_SetLedBits ::
  "(u32 \<Rightarrow> u32 \<Rightarrow> u32 \<Rightarrow> int \<times> u32) \<Rightarrow> int \<Rightarrow> u32 \<Rightarrow> housekeeping_control
     \<Rightarrow> int \<times> housekeeping_control" where
  "hk_SetLedBits cmn_SetBits RP_EMRO bits hk =
     (if bits = 0x1 then (RP_EMRO, hk)
      else (case cmn_SetBits (led_control hk) bits LED_CONTROL_MASK of
              (rc, v) \<Rightarrow> (rc, hk\<lparr>led_control := v\<rparr>)))"



section \<open>RadioBox module (fpga_rb.c): the arithmetic of C's double\<close>

text \<open>
  A \<^verbatim>\<open>double\<close> is modelled by the rational number it holds. Every arithmetic operation
  computes the exact result and rounds it to the nearest number with a 53-bit significand,
  ties to even, as IEEE 754 binary64 does in its default rounding mode. The exponent is
  not bounded: overflow to infinity, subnormal numbers and NaN are outside the model, and
  so is division by zero (HOL's \<open>x / 0\<close> is 0, the C result is an infinity or NaN).
\<close>

type_synonym double = rat
type_synonym u8 = "8 word"
type_synonym u16 = "16 word"
type_synonym u64 = "64 word"

text \<open>Rounding to the nearest integer, ties to the even one.\<close>

definition rnd_even :: "rat \<Rightarrow> int" where
  "rnd_even x =
     (let f = \<lfloor>x\<rfloor>; d = x - of_int f
      in if d < 1 / 2 then f else if 1 / 2 < d then f + 1 else if even f then f else f + 1)"

text \<open>
  The binary exponent of a non-zero rational: the \<open>e\<close> with \<open>2 ^ e \<le> \<bar>x\<bar> < 2 ^ (e + 1)\<close>,
  found from the bit lengths of numerator and denominator.
\<close>

definition ilog2 :: "rat \<Rightarrow> int" where
  "ilog2 x =
     (case quotient_of \<bar>x\<bar> of (n, d) \<Rightarrow>
        let k = bitlen n - bitlen d
        in if 2 powi k \<le> \<bar>x\<bar> then k else k - 1)"

text \<open>Rounding to binary64: the unit in the last place of \<open>x\<close> is \<open>2 ^ (ilog2 x - 52)\<close>.\<close>

definition rnd :: "rat \<Rightarrow> double" where
  "rnd x =
     (if x = 0 then 0
      else let u = 2 powi (ilog2 x - 52) in of_int (rnd_even (x / u)) * u)"

definition dadd :: "double \<Rightarrow> double \<Rightarrow> double" where
  "dadd x y = rnd (x + y)"

definition dsub :: "double \<Rightarrow> double \<Rightarrow> double" where
  "dsub x y = rnd (x - y)"

definition dmul :: "double \<Rightarrow> double \<Rightarrow> double" where
  "dmul x y = rnd (x * y)"

definition ddiv :: "double \<Rightarrow> double \<Rightarrow> double" where
  "ddiv x y = rnd (x / y)"

text \<open>Conversion of an integer (\<^verbatim>\<open>int\<close>, \<^verbatim>\<open>int64_t\<close>, \<^verbatim>\<open>uint64_t\<close>) to \<^verbatim>\<open>double\<close>.\<close>

definition d_of_int :: "int \<Rightarrow> double" where
  "d_of_int n = rnd (of_int n)"

text \<open>
  Conversion of a \<^verbatim>\<open>double\<close> to an integer type truncates towards zero. Where the
  truncated value does not fit the target type, C leaves the result undefined; the model
  wraps it into the type.
\<close>

definition dtrunc :: "double \<Rightarrow> int" where
  "dtrunc x = (if 0 \<le> x then \<lfloor>x\<rfloor> else \<lceil>x\<rceil>)"

definition d2u32 :: "double \<Rightarrow> 32 word" where
  "d2u32 x = word_of_int (dtrunc x)"

definition d2u64 :: "double \<Rightarrow> u64" where
  "d2u64 x = word_of_int (dtrunc x)"

definition d2i64 :: "double \<Rightarrow> u64" where
  "d2i64 x = word_of_int (dtrunc x)"

text \<open>\<^verbatim>\<open>floor()\<close> of math.h: the result is an integer, held in a \<^verbatim>\<open>double\<close>.\<close>

definition dfloor :: "double \<Rightarrow> double" where
  "dfloor x = of_int \<lfloor>x\<rfloor>"

text \<open>\<^verbatim>\<open>fabs()\<close> is exact.\<close>

definition dfabs :: "double \<Rightarrow> double" where
  "dfabs x = \<bar>x\<bar>"

section \<open>RadioBox module: the mapped registers\<close>

text \<open>
  The members of \<^verbatim>\<open>fpga_rb_reg_mem_t\<close> that fpga_rb.c touches; member \<^verbatim>\<open>m\<close> is \<open>reg_m\<close>.
  The structure is declared outside this file, so a register is named, not located.
\<close>

datatype reg =
    reg_ctrl | reg_status | reg_version | reg_pwr_ctrl | reg_src_con_pnt | reg_src_con_pnt2
  | reg_tx_muxin_src | reg_tx_muxin_gain | reg_tx_muxin_ofs
  | reg_rx_muxin_src | reg_rx_muxin_gain | reg_rx_muxin_ofs
  | reg_tx_mod_osc_inc_lo | reg_tx_mod_osc_inc_hi | reg_tx_mod_osc_ofs_lo | reg_tx_mod_osc_ofs_hi
  | reg_tx_car_osc_inc_lo | reg_tx_car_osc_inc_hi | reg_tx_car_osc_ofs_lo | reg_tx_car_osc_ofs_hi
  | reg_tx_car_osc_inc_scnr_lo | reg_tx_car_osc_inc_scnr_hi
  | reg_rx_mod_osc_inc_lo | reg_rx_mod_osc_inc_hi | reg_rx_mod_osc_ofs_lo | reg_rx_mod_osc_ofs_hi
  | reg_rx_car_osc_inc_lo | reg_rx_car_osc_inc_hi | reg_rx_car_osc_ofs_lo | reg_rx_car_osc_ofs_hi
  | reg_rx_car_osc_inc_scnr_lo | reg_rx_car_osc_inc_scnr_hi
  | reg_tx_mod_qmix_gain | reg_tx_mod_qmix_ofs_lo | reg_tx_mod_qmix_ofs_hi
  | reg_tx_amp_rf_gain | reg_tx_amp_rf_ofs
  | reg_rx_mod_ssb_am_gain | reg_rx_mod_amenv_gain | reg_rx_mod_fm_gain | reg_rx_mod_pm_gain
  | reg_rfout1_gain | reg_rfout1_ofs | reg_rfout2_gain | reg_rfout2_ofs
  | reg_rx_car_calc_weaver_inc_lo | reg_rx_car_calc_weaver_inc_hi
  | reg_rx_amenv_filtvar | reg_rx_afc_cordic_mag

type_synonym regs = "reg \<Rightarrow> u32"

text \<open>
  The pointer \<^verbatim>\<open>g_fpga_rb_reg_mem\<close> together with what it points to: \<open>Null\<close> before the
  registers are mapped, \<open>Mapped m\<close> with the register contents \<open>m\<close> afterwards. An access
  through the null pointer is undefined in C (on the target, a segmentation fault); the
  model records it as the state \<open>Fault\<close>, which no later statement leaves.
\<close>

datatype mem = Null | Mapped regs | Fault

text \<open>\<^verbatim>\<open>g_fpga_rb_reg_mem->r = v;\<close>\<close>

definition wr :: "reg \<Rightarrow> u32 \<Rightarrow> mem \<Rightarrow> mem" where
  "wr r v s = (case s of Mapped m \<Rightarrow> Mapped (m(r := v)) | _ \<Rightarrow> Fault)"

text \<open>\<^verbatim>\<open>g_fpga_rb_reg_mem->r &= x;\<close> and \<^verbatim>\<open>|=\<close>: a read followed by a write.\<close>

definition modify :: "reg \<Rightarrow> (u32 \<Rightarrow> u32) \<Rightarrow> mem \<Rightarrow> mem" where
  "modify r f s = (case s of Mapped m \<Rightarrow> Mapped (m(r := f (m r))) | _ \<Rightarrow> Fault)"

text \<open>A read of register \<open>r\<close> whose value \<open>v\<close> the statements \<open>k v\<close> go on to use.\<close>

definition reading :: "reg \<Rightarrow> (u32 \<Rightarrow> mem \<Rightarrow> mem) \<Rightarrow> mem \<Rightarrow> mem" where
  "reading r k s = (case s of Mapped m \<Rightarrow> k (m r) s | _ \<Rightarrow> Fault)"

text \<open>A read that yields a value to the caller: nothing when the pointer is not valid.\<close>

definition rd :: "mem \<Rightarrow> reg \<Rightarrow> u32 option" where
  "rd s r = (case s of Mapped m \<Rightarrow> Some (m r) | _ \<Rightarrow> None)"

text \<open>Statements in sequence.\<close>

fun seq :: "('s \<Rightarrow> 's) list \<Rightarrow> 's \<Rightarrow> 's" where
  "seq [] s = s"
| "seq (f # fs) s = seq fs (f s)"

text \<open>
  A C \<^verbatim>\<open>switch\<close> whose cases all end in \<^verbatim>\<open>break\<close>: the branch of the first label equal to
  the value, the \<^verbatim>\<open>default\<close> branch when there is none. (The labels of one \<^verbatim>\<open>switch\<close> are
  distinct in C, so their order does not matter.)
\<close>

fun switch :: "int \<Rightarrow> (int \<times> 'a) list \<Rightarrow> 'a \<Rightarrow> 'a" where
  "switch x [] dflt = dflt"
| "switch x ((l, b) # cs) dflt = (if x = l then b else switch x cs dflt)"

text \<open>A register file with every register 0, for the examples.\<close>

definition zero_regs :: regs where
  "zero_regs r = 0"

section \<open>RadioBox module: the register setters and getters\<close>

text \<open>
  C's \<^verbatim>\<open>int\<close> is modelled by the integer it holds; none of the \<^verbatim>\<open>int\<close> computations below
  can overflow for arguments within the ranges the callers use. A conversion to
  \<^verbatim>\<open>uint32_t\<close> is \<open>word_of_int\<close>. The calibrated oscillator frequency
  \<^verbatim>\<open>g_rp_main_calib_params.base_osc125mhz_realhz\<close> is the argument \<open>base\<close>.
\<close>

definition fpga_rb_set_tx_modtyp :: "int \<Rightarrow> mem \<Rightarrow> mem" where
  "fpga_rb_set_tx_modtyp tx_modtyp =
     (let tx = tx_modtyp AND 0xff
      in reading reg_pwr_ctrl (\<lambda>pwr_ctrl.
           let masked = pwr_ctrl AND 0xffff00ff
           in seq [wr reg_pwr_ctrl masked,
                   wr reg_pwr_ctrl (masked OR word_of_int (push_bit 8 tx))]))"

definition fpga_rb_set_tx_muxin_gain :: "int \<Rightarrow> int \<Rightarrow> mem \<Rightarrow> mem" where
  "fpga_rb_set_tx_muxin_gain tx_muxin_gain tx_muxin_ofs =
     (let tx_muxin_gain = (if 100 < tx_muxin_gain then 100 else tx_muxin_gain)
      in seq
        [if tx_muxin_gain \<le> 0 then wr reg_tx_muxin_gain 0
         else if tx_muxin_gain < 80 then
           (let bitfield = d2u32 (dadd (1 / 2)
                  (ddiv (dmul (d_of_int tx_muxin_gain) (d_of_int 0xffff)) 80))
            in wr reg_tx_muxin_gain (0xffff AND bitfield))
         else
           (let p = dmul (d_of_int (tx_muxin_gain - 80)) (ddiv 7 20);
                bitfield = d2u32 (dadd (1 / 2) p)
            in wr reg_tx_muxin_gain (push_bit 16 bitfield OR 0xffff)),
         wr reg_tx_muxin_ofs (word_of_int (tx_muxin_ofs AND 0xffff))])"

definition fpga_rb_set_tx_mod_osc_qrg__4mod_ssbweaver_am_fm_pm ::
  "double \<Rightarrow> double \<Rightarrow> mem \<Rightarrow> mem" where
  "fpga_rb_set_tx_mod_osc_qrg__4mod_ssbweaver_am_fm_pm base tx_mod_osc_qrg =
     (let qrg = dmul (2 ^ 48) (ddiv tx_mod_osc_qrg base);
          qrg = (if 0 < qrg then dadd qrg (1 / 2)
                 else if qrg < 0 then dsub qrg (- (1 / 2)) else qrg);
          bitfield = d2i64 qrg;
          bf_hi = (ucast (signed_drop_bit 32 bitfield) :: u32);
          bf_lo = (ucast (bitfield AND 0xffffffff) :: u32)
      in seq [wr reg_tx_mod_osc_inc_lo bf_lo, wr reg_tx_mod_osc_inc_hi bf_hi,
              wr reg_tx_mod_osc_ofs_lo 0, wr reg_tx_mod_osc_ofs_hi 0])"

definition fpga_rb_set_tx_mod_qmix_gain_ofs__4mod_cw_ssbweaver_am ::
  "double \<Rightarrow> int \<Rightarrow> mem \<Rightarrow> mem" where
  "fpga_rb_set_tx_mod_qmix_gain_ofs__4mod_cw_ssbweaver_am tx_mod_qmix_grade isOffset =
     (let gain = (if isOffset \<noteq> 0 then dmul (d_of_int 0x7fff) (ddiv tx_mod_qmix_grade 100)
                  else dmul (d_of_int 0xffff) (ddiv tx_mod_qmix_grade 100));
          ofs = (if isOffset \<noteq> 0
                 then dsub (d_of_int (2 ^ 47 - 1))
                        (dmul (d_of_int (2 ^ 46 - 1)) (ddiv tx_mod_qmix_grade 100))
                 else 0)
      in seq [wr reg_tx_mod_qmix_gain (d2u32 gain AND 0xffff),
              wr reg_tx_mod_qmix_ofs_lo (ucast (d2u64 ofs AND 0xffffffff)),
              wr reg_tx_mod_qmix_ofs_hi (ucast (drop_bit 32 (d2u64 ofs)))])"

definition fpga_rb_set_tx_mod_qmix_gain_ofs__4mod_fm ::
  "double \<Rightarrow> double \<Rightarrow> double \<Rightarrow> mem \<Rightarrow> mem" where
  "fpga_rb_set_tx_mod_qmix_gain_ofs__4mod_fm base tx_car_osc_qrg tx_mod_osc_mag =
     (let gain = dmul (d_of_int 0xffff)
                   (ddiv (dmul (d_of_int (2 ^ 14)) tx_mod_osc_mag) base);
          ofs = dmul (2 ^ 48) (ddiv tx_car_osc_qrg base)
      in seq [wr reg_tx_mod_qmix_gain (d2u32 gain AND 0xffff),
              wr reg_tx_mod_qmix_ofs_lo (ucast (d2u64 ofs AND 0xffffffff)),
              wr reg_tx_mod_qmix_ofs_hi (ucast (drop_bit 32 (d2u64 ofs)))])"

definition fpga_rb_set_tx_mod_qmix_gain_ofs__4mod_pm ::
  "double \<Rightarrow> double \<Rightarrow> mem \<Rightarrow> mem" where
  "fpga_rb_set_tx_mod_qmix_gain_ofs__4mod_pm tx_car_osc_qrg tx_mod_osc_mag =
     (let gain = dmul (d_of_int 0xffff) (ddiv tx_mod_osc_mag 180)
      in seq [wr reg_tx_mod_qmix_gain (d2u32 gain AND 0xffff),
              wr reg_tx_mod_qmix_ofs_lo 0,
              wr reg_tx_mod_qmix_ofs_hi 0])"

definition fpga_rb_set_tx_car_osc_qrg__4mod_cw_ssb_am_pm ::
  "double \<Rightarrow> double \<Rightarrow> mem \<Rightarrow> mem" where
  "fpga_rb_set_tx_car_osc_qrg__4mod_cw_ssb_am_pm base tx_car_osc_qrg =
     (let qrg = dmul (2 ^ 48) (ddiv tx_car_osc_qrg base);
          qrg = (if 0 < qrg then dadd qrg (1 / 2)
                 else if qrg < 0 then dsub qrg (- (1 / 2)) else qrg);
          bitfield = d2i64 qrg;
          bf_hi = (ucast (signed_drop_bit 32 bitfield) :: u32);
          bf_lo = (ucast (bitfield AND 0xffffffff) :: u32)
      in seq [wr reg_tx_car_osc_inc_lo bf_lo, wr reg_tx_car_osc_inc_hi bf_hi,
              wr reg_tx_car_osc_ofs_lo 0, wr reg_tx_car_osc_ofs_hi 0])"

definition fpga_rb_get_tx_car_osc_qrg :: "double \<Rightarrow> mem \<Rightarrow> double option" where
  "fpga_rb_get_tx_car_osc_qrg base s =
     (case s of
        Mapped m \<Rightarrow>
          (let bitfield = (ucast (m reg_tx_car_osc_inc_lo) :: u64);
               bitfield = bitfield OR push_bit 32 (ucast (m reg_tx_car_osc_inc_hi));
               tx_car_osc_qrg = dmul base (ddiv (d_of_int (sint bitfield)) (2 ^ 48))
           in Some (dfloor (dadd tx_car_osc_qrg (1 / 2))))
      | _ \<Rightarrow> None)"

text \<open>
  The sweep increment. \<^verbatim>\<open>pow()\<close> of math.h is the parameter \<open>pow\<close>: its rounding is not
  fixed by the C standard.
\<close>

definition fpga_rb_set_tx_car_osc_qrg_inc__4mod_cw_ssb_am_pm ::
  "(double \<Rightarrow> double \<Rightarrow> double) \<Rightarrow> double \<Rightarrow> int \<Rightarrow> mem \<Rightarrow> mem" where
  "fpga_rb_set_tx_car_osc_qrg_inc__4mod_cw_ssb_am_pm pow base tx_car_osc_qrg_inc =
     (let maxDev = 10000; dynamic = 3;
          rngctrlr = ddiv (d_of_int (tx_car_osc_qrg_inc - 50)) 50
      in if dfabs rngctrlr < rnd (1 / 10)
         then seq [wr reg_tx_car_osc_inc_scnr_lo 0, wr reg_tx_car_osc_inc_scnr_hi 0]
         else
           (let neg = (rngctrlr < 0);
                rngctrlr = (if neg then - rngctrlr else rngctrlr);
                rngctrlr = dmul rngctrlr dynamic;
                rngctrlr = dsub rngctrlr dynamic;
                hzPerSec = dmul maxDev (pow 10 rngctrlr);
                bitfield = d2i64 (ddiv (dmul hzPerSec (ddiv (d_of_int (2 ^ 48)) base)) 200000);
                bitfield = (if neg then NOT bitfield else bitfield);
                bf_hi = (ucast (signed_drop_bit 32 bitfield) :: u32);
                bf_lo = (ucast (bitfield AND 0xffffffff) :: u32)
            in seq [wr reg_tx_car_osc_inc_scnr_lo bf_lo, wr reg_tx_car_osc_inc_scnr_hi bf_hi]))"

definition fpga_rb_set_tx_amp_rf_gain_ofs__4mod_all :: "double \<Rightarrow> double \<Rightarrow> mem \<Rightarrow> mem" where
  "fpga_rb_set_tx_amp_rf_gain_ofs__4mod_all tx_amp_rf_gain tx_amp_rf_ofs =
     (let gain = dmul (d_of_int 0x7fff) (ddiv tx_amp_rf_gain 2048);
          ofs = dmul (d_of_int 0x7fff) (ddiv tx_amp_rf_ofs 2048)
      in seq [wr reg_tx_amp_rf_gain (d2u32 gain AND 0xffff),
              wr reg_tx_amp_rf_ofs (d2u32 ofs AND 0xffff)])"

definition fpga_rb_set_rx_modtyp :: "int \<Rightarrow> mem \<Rightarrow> mem" where
  "fpga_rb_set_rx_modtyp rx_modtyp =
     (let rx = rx_modtyp AND 0xff
      in reading reg_pwr_ctrl (\<lambda>pwr_ctrl.
           let masked = pwr_ctrl AND 0xffffff00
           in seq [wr reg_pwr_ctrl masked,
                   wr reg_pwr_ctrl (masked OR word_of_int rx)]))"

definition fpga_rb_set_rx_muxin_gain :: "int \<Rightarrow> int \<Rightarrow> mem \<Rightarrow> mem" where
  "fpga_rb_set_rx_muxin_gain rx_muxin_gain rx_muxin_ofs =
     (let rx_muxin_gain = (if 100 < rx_muxin_gain then 100 else rx_muxin_gain)
      in seq
        [if rx_muxin_gain \<le> 0 then wr reg_rx_muxin_gain 0
         else if rx_muxin_gain < 80 then
           (let bitfield = d2u32 (dadd (1 / 2)
                  (ddiv (dmul (d_of_int rx_muxin_gain) (d_of_int 0xffff)) 80))
            in wr reg_rx_muxin_gain (0xffff AND bitfield))
         else
           (let p = dmul (d_of_int (rx_muxin_gain - 80)) (ddiv 5 20);
                bitfield = d2u32 (dadd (1 / 2) p)
            in wr reg_rx_muxin_gain (push_bit 16 bitfield OR 0xffff)),
         wr reg_rx_muxin_ofs (word_of_int (rx_muxin_ofs AND 0xffff))])"

definition fpga_rb_set_rx_car_osc_qrg__4mod_ssb_am_fm_pm ::
  "double \<Rightarrow> double \<Rightarrow> mem \<Rightarrow> mem" where
  "fpga_rb_set_rx_car_osc_qrg__4mod_ssb_am_fm_pm base rx_car_osc_qrg =
     (let qrg = dmul (2 ^ 48) (ddiv rx_car_osc_qrg base);
          qrg = (if 0 < qrg then dadd qrg (1 / 2)
                 else if qrg < 0 then dsub qrg (- (1 / 2)) else qrg);
          bitfield = d2i64 qrg;
          bf_hi = (ucast (signed_drop_bit 32 bitfield) :: u32);
          bf_lo = (ucast (bitfield AND 0xffffffff) :: u32)
      in seq [wr reg_rx_car_osc_inc_lo bf_lo, wr reg_rx_car_osc_inc_hi bf_hi,
              wr reg_rx_car_osc_ofs_lo 0, wr reg_rx_car_osc_ofs_hi 0])"

definition fpga_rb_get_rx_car_osc_qrg :: "double \<Rightarrow> mem \<Rightarrow> double option" where
  "fpga_rb_get_rx_car_osc_qrg base s =
     (case s of
        Mapped m \<Rightarrow>
          (let bitfield = (ucast (m reg_rx_car_osc_inc_lo) :: u64);
               bitfield = bitfield OR push_bit 32 (ucast (m reg_rx_car_osc_inc_hi));
               rx_car_osc_qrg = dmul base (ddiv (d_of_int (sint bitfield)) (2 ^ 48))
           in Some (dfloor (dadd rx_car_osc_qrg (1 / 2))))
      | _ \<Rightarrow> None)"

definition fpga_rb_set_rx_car_osc_qrg_inc__4mod_ssb_am_fm_pm ::
  "(double \<Rightarrow> double \<Rightarrow> double) \<Rightarrow> double \<Rightarrow> int \<Rightarrow> mem \<Rightarrow> mem" where
  "fpga_rb_set_rx_car_osc_qrg_inc__4mod_ssb_am_fm_pm pow base rx_car_osc_qrg_inc =
     (let maxDev = 10000; dynamic = 3;
          rngctrlr = ddiv (d_of_int (rx_car_osc_qrg_inc - 50)) 50
      in if dfabs rngctrlr < rnd (1 / 10)
         then seq [wr reg_rx_car_osc_inc_scnr_lo 0, wr reg_rx_car_osc_inc_scnr_hi 0]
         else
           (let neg = (rngctrlr < 0);
                rngctrlr = (if neg then - rngctrlr else rngctrlr);
                rngctrlr = dmul rngctrlr dynamic;
                rngctrlr = dsub rngctrlr dynamic;
                hzPerSec = dmul maxDev (pow 10 rngctrlr);
                bitfield = d2i64 (ddiv (ddiv (dmul hzPerSec (d_of_int (2 ^ 48))) base) 200000);
                bitfield = (if neg then NOT bitfield else bitfield);
                bf_hi = (ucast (signed_drop_bit 32 bitfield) :: u32);
                bf_lo = (ucast (bitfield AND 0xffffffff) :: u32)
            in seq [wr reg_rx_car_osc_inc_scnr_lo bf_lo, wr reg_rx_car_osc_inc_scnr_hi bf_hi]))"

definition fpga_rb_set_rx_mod_osc_qrg__4mod_ssbweaver_am ::
  "double \<Rightarrow> double \<Rightarrow> mem \<Rightarrow> mem" where
  "fpga_rb_set_rx_mod_osc_qrg__4mod_ssbweaver_am base rx_mod_osc_qrg =
     (let qrg = dmul (2 ^ 48) (ddiv rx_mod_osc_qrg base);
          qrg = (if 0 < qrg then dadd qrg (1 / 2)
                 else if qrg < 0 then dsub qrg (- (1 / 2)) else qrg);
          bitfield = d2i64 qrg;
          bf_hi = (ucast (signed_drop_bit 32 bitfield) :: u32);
          bf_lo = (ucast (bitfield AND 0xffffffff) :: u32)
      in seq [wr reg_rx_mod_osc_inc_lo bf_lo, wr reg_rx_mod_osc_inc_hi bf_hi,
              wr reg_rx_mod_osc_ofs_lo 0, wr reg_rx_mod_osc_ofs_hi 0])"

definition fpga_rb_set_rx_calc_afc_weaver__4mod_am_fm_pm ::
  "double \<Rightarrow> double \<Rightarrow> mem \<Rightarrow> mem" where
  "fpga_rb_set_rx_calc_afc_weaver__4mod_am_fm_pm base rx_weaver_qrg =
     (let qrg = dmul (2 ^ 48) (ddiv rx_weaver_qrg base);
          qrg = (if 0 < qrg then dadd qrg (1 / 2)
                 else if qrg < 0 then dsub qrg (- (1 / 2)) else qrg);
          qrg = dmul qrg (- 625);
          bitfield = d2i64 qrg;
          bf_hi = (ucast (signed_drop_bit 32 bitfield) :: u32);
          bf_lo = (ucast (bitfield AND 0xffffffff) :: u32)
      in seq [wr reg_rx_car_calc_weaver_inc_lo bf_lo, wr reg_rx_car_calc_weaver_inc_hi bf_hi])"

definition fpga_rb_set_rx_amenv_filtvar :: "int \<Rightarrow> mem \<Rightarrow> mem" where
  "fpga_rb_set_rx_amenv_filtvar rx_amenv_filtvar =
     (let rx_amenv_filtvar =
            (if rx_amenv_filtvar < 0 then 0
             else if 2 < rx_amenv_filtvar then 2 else rx_amenv_filtvar)
      in wr reg_rx_amenv_filtvar (word_of_int rx_amenv_filtvar AND 0x0003))"

definition fpga_rb_set_rx_mod_ssb_am_gain__4mod_ssb_am :: "double \<Rightarrow> mem \<Rightarrow> mem" where
  "fpga_rb_set_rx_mod_ssb_am_gain__4mod_ssb_am rx_mod_ssb_am_gain =
     (let gain = dmul (dmul (d_of_int 0xffff) (1 / 2)) (ddiv rx_mod_ssb_am_gain 100)
      in wr reg_rx_mod_ssb_am_gain (d2u32 gain AND 0xffff))"

definition fpga_rb_set_rx_mod_amenv_gain__4mod_amenv :: "double \<Rightarrow> mem \<Rightarrow> mem" where
  "fpga_rb_set_rx_mod_amenv_gain__4mod_amenv rx_mod_amenv_gain =
     (let gain = dmul (d_of_int 0xffff) (ddiv rx_mod_amenv_gain 100)
      in wr reg_rx_mod_amenv_gain (d2u32 gain AND 0xffff))"

definition fpga_rb_set_rx_mod_fm_gain__4mod_fm :: "double \<Rightarrow> mem \<Rightarrow> mem" where
  "fpga_rb_set_rx_mod_fm_gain__4mod_fm rx_mod_fm_gain =
     (let gain = dmul (d_of_int 0xffff) (ddiv rx_mod_fm_gain 100)
      in wr reg_rx_mod_fm_gain (d2u32 gain AND 0xffff))"

definition fpga_rb_set_rx_mod_pm_gain__4mod_pm :: "double \<Rightarrow> mem \<Rightarrow> mem" where
  "fpga_rb_set_rx_mod_pm_gain__4mod_pm rx_mod_pm_gain =
     (let gain = dmul (d_of_int 0xffff) (ddiv rx_mod_pm_gain 100)
      in wr reg_rx_mod_pm_gain (d2u32 gain AND 0xffff))"

definition fpga_rb_set_rfout1_gain_ofs :: "double \<Rightarrow> u16 \<Rightarrow> mem \<Rightarrow> mem" where
  "fpga_rb_set_rfout1_gain_ofs rfout1_gain rfout1_ofs =
     (let rfout1_gain = (if rfout1_gain = 0 then 1 else rfout1_gain);
          gain = dmul (d_of_int 0x0100) rfout1_gain
      in seq [wr reg_rfout1_gain (d2u32 gain AND 0xffff),
              wr reg_rfout1_ofs (ucast rfout1_ofs)])"

definition fpga_rb_set_rfout2_gain_ofs :: "double \<Rightarrow> u16 \<Rightarrow> mem \<Rightarrow> mem" where
  "fpga_rb_set_rfout2_gain_ofs rfout2_gain rfout2_ofs =
     (let rfout2_gain = (if rfout2_gain = 0 then 1 else rfout2_gain);
          gain = dmul (d_of_int 0x0100) rfout2_gain
      in seq [wr reg_rfout2_gain (d2u32 gain AND 0xffff),
              wr reg_rfout2_ofs (ucast rfout2_ofs)])"

definition fpga_rb_get_ovrdrv :: "mem \<Rightarrow> u16 option" where
  "fpga_rb_get_ovrdrv s =
     (case s of
        Mapped m \<Rightarrow> Some (ucast (drop_bit 0x16 (m reg_status AND 0x00C00000)))
      | _ \<Rightarrow> None)"

section \<open>RadioBox module: the ADC offset calibration\<close>

definition prepare_rx_measurement :: "int \<Rightarrow> mem \<Rightarrow> mem" where
  "prepare_rx_measurement inputLine =
     seq [wr reg_ctrl 0x00000001,
          wr reg_pwr_ctrl 0x00000007,
          wr reg_src_con_pnt 0x00000000,
          wr reg_rx_car_osc_inc_lo 0x3e2d6238,
          wr reg_rx_car_osc_inc_hi 0x00000005,
          wr reg_rx_muxin_src (word_of_int inputLine),
          wr reg_rx_muxin_gain 0x00001fff]"

definition finish_rx_measurement :: "mem \<Rightarrow> mem" where
  "finish_rx_measurement =
     seq [wr reg_rx_muxin_ofs 0x00000000,
          wr reg_rx_muxin_src 0,
          wr reg_rx_car_osc_inc_lo 0,
          wr reg_rx_car_osc_inc_hi 0,
          wr reg_pwr_ctrl 0x00000000,
          wr reg_ctrl 0]"

text \<open>
  \<^verbatim>\<open>rx_afc_cordic_mag\<close> is driven by the FPGA. What the program reads there is the
  parameter \<open>cordic\<close>: the magnitude the detector shows for the contents of the offset
  register and of the gain register, at the read \<open>iter\<close> of the loop. This is the
  deterministic hardware noise of the specification.
\<close>

type_synonym cordic = "u32 \<Rightarrow> u32 \<Rightarrow> nat \<Rightarrow> u32"

text \<open>The loop \<^verbatim>\<open>for (iter = 8; iter; --iter) sumreg += ((mag + 16) >> 5);\<close>\<close>

fun sum_mag :: "(nat \<Rightarrow> u32) \<Rightarrow> nat \<Rightarrow> u32 \<Rightarrow> u32" where
  "sum_mag mag 0 sumreg = sumreg"
| "sum_mag mag (Suc n) sumreg = sum_mag mag n (sumreg + drop_bit 5 (mag (Suc n) + 16))"

text \<open>
  \<^verbatim>\<open>test_rx_measurement\<close>; \<open>adc_offset_val\<close> is the value of the \<^verbatim>\<open>int16_t\<close> argument. The
  delays (\<^verbatim>\<open>nanosleep\<close>) have no counterpart in the model.
\<close>

definition test_rx_measurement :: "cordic \<Rightarrow> int \<Rightarrow> int \<Rightarrow> mem \<Rightarrow> u32 \<times> mem" where
  "test_rx_measurement cordic adc_offset_val reduction s =
     (let ofs = (word_of_int adc_offset_val :: u32);
          gain = (drop_bit (nat reduction) 0x0000ffff :: u32);
          s = seq [wr reg_rx_muxin_ofs ofs, wr reg_rx_muxin_gain gain] s
      in (sum_mag (cordic ofs gain) 8 0, s))"

text \<open>
  The loop of \<^verbatim>\<open>rp_minimize_noise\<close>, \<^verbatim>\<open>for (i = 15; i > 0; --i)\<close>, from \<open>i\<close> downwards.
  \<^verbatim>\<open>min_ofs_value\<close> and the two candidates are \<^verbatim>\<open>uint16_t\<close>.
\<close>

fun minimize_loop :: "cordic \<Rightarrow> nat \<Rightarrow> u16 \<times> mem \<Rightarrow> u16 \<times> mem" where
  "minimize_loop cordic 0 (min_ofs_value, s) = (min_ofs_value, s)"
| "minimize_loop cordic (Suc j) (min_ofs_value, s) =
     (let i = Suc j;
          reduction = (if int i - 11 < 0 then 0 else int i - 11);
          test_ofs_lo = min_ofs_value OR push_bit (i - 1) 1;
          test_ofs_hi = min_ofs_value OR push_bit (i - 1) 3;
          (test_sig_lo, s) = test_rx_measurement cordic (uint test_ofs_lo - 0x8000) reduction s;
          (test_sig_hi, s) = test_rx_measurement cordic (uint test_ofs_hi - 0x8000) reduction s;
          min_ofs_value = (if test_sig_hi < test_sig_lo then min_ofs_value OR push_bit i 1
                           else min_ofs_value)
      in minimize_loop cordic j (min_ofs_value, s))"

text \<open>\<^verbatim>\<open>rp_minimize_noise\<close>: the result is the value of the \<^verbatim>\<open>int16_t\<close> it returns.\<close>

definition rp_minimize_noise :: "cordic \<Rightarrow> mem \<Rightarrow> int \<times> mem" where
  "rp_minimize_noise cordic s =
     (let (min_ofs_value, s) = minimize_loop cordic 15 (0x0000, s);
          test_ofs_lo = min_ofs_value;
          test_ofs_hi = min_ofs_value OR 1;
          (test_sig_lo, s) = test_rx_measurement cordic (uint test_ofs_lo - 0x8000) 0 s;
          (test_sig_hi, s) = test_rx_measurement cordic (uint test_ofs_hi - 0x8000) 0 s;
          min_ofs_value = (if test_sig_hi < test_sig_lo then test_ofs_hi else min_ofs_value)
      in (sint (word_of_int (uint min_ofs_value - 0x8000) :: u16), s))"

text \<open>
  \<^verbatim>\<open>rp_measure_calib_params\<close>. The calibration parameters \<open>'c\<close> and
  \<^verbatim>\<open>calib_set_ADC_offset\<close>, which stores into them, are declared outside this file.
\<close>

definition rp_measure_calib_params ::
  "('c \<Rightarrow> int \<Rightarrow> int \<Rightarrow> 'c) \<Rightarrow> cordic \<Rightarrow> 'c \<times> mem \<Rightarrow> 'c \<times> mem" where
  "rp_measure_calib_params calib_set_ADC_offset cordic =
     seq (map (\<lambda>inputLine (calib_params, s).
                let s = prepare_rx_measurement inputLine s;
                    (thisOfsValue, s) = rp_minimize_noise cordic s
                in (calib_set_ADC_offset calib_params inputLine thisOfsValue, s))
            [0x20, 0x21, 0x18, 0x10, 0x11, 0x19]
          @ [\<lambda>(calib_params, s). (calib_params, finish_rx_measurement s)])"

section \<open>RadioBox module: fpga_rb_set_ctrl and fpga_rb_get_ctrl\<close>

text \<open>
  The enumerators of \<^verbatim>\<open>RB_MODSRC_...\<close>, \<^verbatim>\<open>RB_TX_MODTYP_...\<close> and \<^verbatim>\<open>RB_RX_MODTYP_...\<close> are
  declared outside this file. Their numbering is the parameter \<open>E\<close> of the functions that
  use them.
\<close>

datatype rb_enum =
    RB_MODSRC_NONE | RB_MODSRC_MOD_OSC | RB_MODSRC_RF_IN1 | RB_MODSRC_RF_IN2
  | RB_MODSRC_EXP_AI0 | RB_MODSRC_EXP_AI1 | RB_MODSRC_EXP_AI2 | RB_MODSRC_EXP_AI3
  | RB_MODSRC_AC97_LINEOUT_L | RB_MODSRC_AC97_LINEOUT_R
  | RB_TX_MODTYP_USB | RB_TX_MODTYP_LSB | RB_TX_MODTYP_AM | RB_TX_MODTYP_FM | RB_TX_MODTYP_PM
  | RB_RX_MODTYP_USB | RB_RX_MODTYP_LSB | RB_RX_MODTYP_AMSYNC_USB | RB_RX_MODTYP_AMSYNC_LSB
  | RB_RX_MODTYP_FM | RB_RX_MODTYP_PM | RB_RX_MODTYP_AMENV

type_synonym enums = "rb_enum \<Rightarrow> int"

text \<open>\<^verbatim>\<open>const int ssb_weaver_osc_qrg = 1700.0;\<close>\<close>

definition ssb_weaver_osc_qrg :: int where
  "ssb_weaver_osc_qrg = 1700"

text \<open>
  \<^verbatim>\<open>fpga_rb_get_ctrl\<close>: the three results it stores through its pointer arguments, or
  nothing when a register read faults.
\<close>

definition fpga_rb_get_ctrl ::
  "enums \<Rightarrow> double \<Rightarrow> int \<Rightarrow> int \<Rightarrow> mem \<Rightarrow> (double \<times> double \<times> u16) option" where
  "fpga_rb_get_ctrl E base tx_modtyp rx_modtyp s =
     (case fpga_rb_get_tx_car_osc_qrg base s of
        None \<Rightarrow> None
      | Some loc_RD_tx_car_osc_qrg \<Rightarrow>
          (let loc_RD_tx_car_osc_qrg =
                 switch tx_modtyp
                   [(E RB_TX_MODTYP_USB, dsub loc_RD_tx_car_osc_qrg (d_of_int ssb_weaver_osc_qrg)),
                    (E RB_TX_MODTYP_LSB, dadd loc_RD_tx_car_osc_qrg (d_of_int ssb_weaver_osc_qrg))]
                   loc_RD_tx_car_osc_qrg
           in case fpga_rb_get_rx_car_osc_qrg base s of
                None \<Rightarrow> None
              | Some loc_RD_rx_car_osc_qrg \<Rightarrow>
                  (let loc_RD_rx_car_osc_qrg =
                         switch rx_modtyp
                           [(E RB_RX_MODTYP_USB,
                               dsub loc_RD_rx_car_osc_qrg (d_of_int ssb_weaver_osc_qrg)),
                            (E RB_RX_MODTYP_AMSYNC_USB,
                               dsub loc_RD_rx_car_osc_qrg (d_of_int ssb_weaver_osc_qrg)),
                            (E RB_TX_MODTYP_LSB,
                               dadd loc_RD_rx_car_osc_qrg (d_of_int ssb_weaver_osc_qrg)),
                            (E RB_RX_MODTYP_AMSYNC_LSB,
                               dadd loc_RD_rx_car_osc_qrg (d_of_int ssb_weaver_osc_qrg))]
                           loc_RD_rx_car_osc_qrg
                   in case fpga_rb_get_ovrdrv s of
                        None \<Rightarrow> None
                      | Some loc_RD_ovrdrv \<Rightarrow>
                          Some (loc_RD_tx_car_osc_qrg, loc_RD_rx_car_osc_qrg, loc_RD_ovrdrv))))"

text \<open>
  The functions and data that fpga_rb.c uses and that are declared outside it: the
  calibration parameters \<open>'c\<close> of \<^verbatim>\<open>g_rp_main_calib_params\<close> with their member
  \<^verbatim>\<open>base_osc125mhz_realhz\<close>, \<^verbatim>\<open>calib_get_ADC_offset\<close> and \<^verbatim>\<open>calib_set_ADC_offset\<close>,
  \<^verbatim>\<open>get_compensation_factor\<close>, and \<^verbatim>\<open>pow\<close> of math.h.
\<close>

record 'c rb_extern =
  base_osc125mhz_realhz :: "'c \<Rightarrow> double"
  calib_get_ADC_offset :: "'c \<Rightarrow> int \<Rightarrow> int"
  calib_set_ADC_offset :: "'c \<Rightarrow> int \<Rightarrow> int \<Rightarrow> 'c"
  get_compensation_factor :: "double \<Rightarrow> int \<Rightarrow> double"
  math_pow :: "double \<Rightarrow> double \<Rightarrow> double"

text \<open>
  The global variables, and the \<^verbatim>\<open>static\<close> variables of \<^verbatim>\<open>fpga_rb_set_ctrl\<close>, which keep
  their values from one call to the next and start at 0.
\<close>

record 'c rb_globals =
  g_fpga_rb_reg_mem :: mem
  g_rp_main_calib_params :: 'c
  tx_car_osc_qrg_old :: double
  rx_car_osc_qrg_old :: double
  src_con_pnt_old :: u32
  src_con_pnt2_old :: u32
  term_rfout1_old :: int
  term_rfout2_old :: int

definition on_regs :: "(mem \<Rightarrow> mem) \<Rightarrow> 'c rb_globals \<Rightarrow> 'c rb_globals" where
  "on_regs f G = G\<lparr>g_fpga_rb_reg_mem := f (g_fpga_rb_reg_mem G)\<rparr>"

text \<open>The arguments of \<^verbatim>\<open>fpga_rb_set_ctrl\<close>, by their names.\<close>

record set_ctrl_args =
  rb_run :: int
  tx_modsrc :: int
  tx_modtyp :: int
  rx_modtyp :: int
  src_con_pnt :: int
  src_con_pnt2 :: int
  rx_muxin_src :: int
  tx_car_osc_qrg :: double
  rx_car_osc_qrg :: double
  tx_mod_osc_qrg :: double
  tx_muxin_gain :: int
  rx_muxin_gain :: int
  tx_qrg_sel :: int
  rx_qrg_sel :: int
  tx_amp_rf_gain :: int
  tx_mod_osc_mag :: int
  term_rfout1 :: int
  term_rfout2 :: int
  qrg_inc :: int

definition skip :: "mem \<Rightarrow> mem" where
  "skip s = s"

text \<open>\<^verbatim>\<open>adc_auto_ofs\<close>, as the \<^verbatim>\<open>#if 1\<close> sets it.\<close>

definition adc_auto_ofs :: u32 where
  "adc_auto_ofs = 0x01000000"

text \<open>
  The statement that recurs in \<^verbatim>\<open>fpga_rb_set_ctrl\<close>:
  \<^verbatim>\<open>if (!(status & 0x00000100)) { ctrl &= ~0x00001000; ctrl |= 0x00001000; }\<close>
\<close>

definition tx_mod_resync :: "mem \<Rightarrow> mem" where
  "tx_mod_resync =
     reading reg_status (\<lambda>status.
       if status AND 0x00000100 = 0
       then seq [modify reg_ctrl (\<lambda>c. c AND NOT 0x00001000),
                 modify reg_ctrl (\<lambda>c. c OR 0x00001000)]
       else skip)"

text \<open>The body of the loop over \<^verbatim>\<open>rfout_i\<close>: the frequency for one connection point.\<close>

definition rfout_frequency :: "set_ctrl_args \<Rightarrow> u8 \<Rightarrow> double" where
  "rfout_frequency a rfout_con_pnt =
     (if 0x04 \<le> rfout_con_pnt \<and> rfout_con_pnt \<le> 0x17 then d_of_int ssb_weaver_osc_qrg
      else if 0x18 \<le> rfout_con_pnt \<and> rfout_con_pnt \<le> 0x1f then tx_car_osc_qrg a
      else if 0x20 \<le> rfout_con_pnt \<and> rfout_con_pnt \<le> 0x21 then rx_car_osc_qrg a
      else if 0x22 \<le> rfout_con_pnt \<and> rfout_con_pnt \<le> 0x41 then d_of_int ssb_weaver_osc_qrg
      else if 0x48 \<le> rfout_con_pnt \<and> rfout_con_pnt \<le> 0x50 then d_of_int ssb_weaver_osc_qrg
      else 0)"

text \<open>
  \<^verbatim>\<open>fpga_rb_set_ctrl\<close>, cut into its parts. First the condition of the "RF Out x Gain
  settings" block: one of the six parameters differs from its cached value.
\<close>

definition rfout_changed :: "set_ctrl_args \<Rightarrow> 'c rb_globals \<Rightarrow> bool" where
  "rfout_changed a G \<longleftrightarrow>
     src_con_pnt_old G \<noteq> word_of_int (src_con_pnt a) \<or>
     src_con_pnt2_old G \<noteq> word_of_int (src_con_pnt2 a) \<or>
     term_rfout1_old G \<noteq> term_rfout1 a \<or>
     term_rfout2_old G \<noteq> term_rfout2 a \<or>
     tx_car_osc_qrg_old G \<noteq> tx_car_osc_qrg a \<or>
     rx_car_osc_qrg_old G \<noteq> rx_car_osc_qrg a"

text \<open>The block itself: the assignments to the cache, then the register writes.\<close>

definition set_ctrl_rfout :: "'c rb_extern \<Rightarrow> set_ctrl_args \<Rightarrow> 'c rb_globals \<Rightarrow> 'c rb_globals" where
  "set_ctrl_rfout X a G =
     (let G = G\<lparr>tx_car_osc_qrg_old := tx_car_osc_qrg a,
                rx_car_osc_qrg_old := rx_car_osc_qrg a,
                src_con_pnt_old := word_of_int (src_con_pnt a),
                term_rfout1_old := term_rfout1 a,
                term_rfout2_old := term_rfout2 a\<rparr>;
          rfout_con_pnt0 = (ucast (drop_bit 16 ((word_of_int (src_con_pnt a) :: u32) AND 0x00ff0000)) :: u8);
          rfout_con_pnt1 = (ucast (drop_bit 24 ((word_of_int (src_con_pnt a) :: u32) AND 0xff000000)) :: u8);
          rfout_frequency0 = rfout_frequency a rfout_con_pnt0;
          rfout_frequency1 = rfout_frequency a rfout_con_pnt1;
          rfout1_amp_gain =
            (if term_rfout1 a \<noteq> 0
             then get_compensation_factor X rfout_frequency0 (if term_rfout1 a = 0x01 then 1 else 0)
             else 1);
          rfout2_amp_gain =
            (if term_rfout2 a \<noteq> 0
             then get_compensation_factor X rfout_frequency1 (if term_rfout2 a = 0x01 then 1 else 0)
             else 1)
      in on_regs
           (seq [fpga_rb_set_rfout1_gain_ofs rfout1_amp_gain 0,
                 fpga_rb_set_rfout2_gain_ofs rfout2_amp_gain 0,
                 wr reg_src_con_pnt (word_of_int (src_con_pnt a)),
                 wr reg_src_con_pnt2 (word_of_int (src_con_pnt2 a))]) G)"

text \<open>\<^verbatim>\<open>switch (tx_modsrc)\<close>; \<open>adc\<close> is \<^verbatim>\<open>calib_get_ADC_offset(&g_rp_main_calib_params, .)\<close>.\<close>

definition set_ctrl_tx_modsrc ::
  "enums \<Rightarrow> (double \<Rightarrow> double \<Rightarrow> double) \<Rightarrow> double \<Rightarrow> (int \<Rightarrow> int) \<Rightarrow> set_ctrl_args \<Rightarrow> int
     \<Rightarrow> mem \<Rightarrow> mem" where
  "set_ctrl_tx_modsrc E pow base adc a tx_car_osc_qrg_inc =
     (let none =
            seq [fpga_rb_set_tx_muxin_gain 0 0x0000,
                 wr reg_tx_muxin_src 0x00000000,
                 if tx_car_osc_qrg_inc = 50
                 then fpga_rb_set_tx_car_osc_qrg__4mod_cw_ssb_am_pm base (tx_car_osc_qrg a)
                 else skip,
                 fpga_rb_set_tx_car_osc_qrg_inc__4mod_cw_ssb_am_pm pow base tx_car_osc_qrg_inc,
                 fpga_rb_set_tx_mod_qmix_gain_ofs__4mod_cw_ssbweaver_am 0 1,
                 reading reg_status (\<lambda>status.
                   if status AND 0x00000100 = 0
                   then seq [modify reg_ctrl (\<lambda>c. c AND NOT 0x00001000),
                             modify reg_ctrl (\<lambda>c. c OR 0x00001000),
                             modify reg_ctrl (\<lambda>c. c OR adc_auto_ofs)]
                   else skip)]
      in switch (tx_modsrc a)
           [(E RB_MODSRC_NONE, none),
            (E RB_MODSRC_MOD_OSC,
               seq [fpga_rb_set_tx_muxin_gain 0 0x0000,
                    wr reg_tx_muxin_src 0x00000000]),
            (E RB_MODSRC_RF_IN1,
               seq [fpga_rb_set_tx_muxin_gain (tx_muxin_gain a) (adc 0x20),
                    wr reg_tx_muxin_src 0x00000020,
                    modify reg_ctrl (\<lambda>c. c OR adc_auto_ofs)]),
            (E RB_MODSRC_RF_IN2,
               seq [fpga_rb_set_tx_muxin_gain (tx_muxin_gain a) (adc 0x21),
                    wr reg_tx_muxin_src 0x00000021,
                    modify reg_ctrl (\<lambda>c. c OR adc_auto_ofs)]),
            (E RB_MODSRC_EXP_AI0,
               seq [fpga_rb_set_tx_muxin_gain (tx_muxin_gain a) (adc 0x10),
                    wr reg_tx_muxin_src 0x00000010,
                    modify reg_ctrl (\<lambda>c. c OR adc_auto_ofs)]),
            (E RB_MODSRC_EXP_AI1,
               seq [fpga_rb_set_tx_muxin_gain (tx_muxin_gain a) (adc 0x18),
                    wr reg_tx_muxin_src 0x00000018,
                    modify reg_ctrl (\<lambda>c. c OR adc_auto_ofs)]),
            (E RB_MODSRC_EXP_AI2,
               seq [fpga_rb_set_tx_muxin_gain (tx_muxin_gain a) (adc 0x11),
                    wr reg_tx_muxin_src 0x00000011,
                    modify reg_ctrl (\<lambda>c. c OR adc_auto_ofs)]),
            (E RB_MODSRC_EXP_AI3,
               seq [fpga_rb_set_tx_muxin_gain (tx_muxin_gain a) (adc 0x19),
                    wr reg_tx_muxin_src 0x00000019,
                    modify reg_ctrl (\<lambda>c. c OR adc_auto_ofs)]),
            (E RB_MODSRC_AC97_LINEOUT_L,
               seq [fpga_rb_set_tx_muxin_gain (tx_muxin_gain a) 0,
                    wr reg_tx_muxin_src 0x00000030]),
            (E RB_MODSRC_AC97_LINEOUT_R,
               seq [fpga_rb_set_tx_muxin_gain (tx_muxin_gain a) 0,
                    wr reg_tx_muxin_src 0x00000031])]
           none)"

text \<open>\<^verbatim>\<open>switch (tx_modtyp)\<close>, entered when \<^verbatim>\<open>tx_modsrc != RB_MODSRC_NONE\<close>.\<close>

definition set_ctrl_tx_modtyp ::
  "enums \<Rightarrow> (double \<Rightarrow> double \<Rightarrow> double) \<Rightarrow> double \<Rightarrow> set_ctrl_args \<Rightarrow> int \<Rightarrow> mem \<Rightarrow> mem" where
  "set_ctrl_tx_modtyp E pow base a tx_car_osc_qrg_inc =
     (let mod_osc =
            (if tx_modsrc a = E RB_MODSRC_MOD_OSC
             then fpga_rb_set_tx_mod_osc_qrg__4mod_ssbweaver_am_fm_pm base (tx_mod_osc_qrg a)
             else seq [fpga_rb_set_tx_mod_osc_qrg__4mod_ssbweaver_am_fm_pm base 0,
                       tx_mod_resync])
      in switch (tx_modtyp a)
           [(E RB_TX_MODTYP_USB,
               seq [modify reg_ctrl (\<lambda>c. c AND NOT 0x00007076),
                    fpga_rb_set_tx_amp_rf_gain_ofs__4mod_all
                      (dmul (d_of_int (tx_amp_rf_gain a)) (3 / 2)) 0,
                    if tx_car_osc_qrg_inc = 50
                    then fpga_rb_set_tx_car_osc_qrg__4mod_cw_ssb_am_pm base
                           (dadd (tx_car_osc_qrg a) (d_of_int ssb_weaver_osc_qrg))
                    else skip,
                    fpga_rb_set_tx_car_osc_qrg_inc__4mod_cw_ssb_am_pm pow base tx_car_osc_qrg_inc,
                    fpga_rb_set_tx_mod_osc_qrg__4mod_ssbweaver_am_fm_pm base
                      (d_of_int ssb_weaver_osc_qrg),
                    fpga_rb_set_tx_mod_qmix_gain_ofs__4mod_cw_ssbweaver_am
                      (d_of_int (tx_mod_osc_mag a)) 0]),
            (E RB_TX_MODTYP_LSB,
               seq [modify reg_ctrl (\<lambda>c. c AND NOT 0x00007076),
                    fpga_rb_set_tx_amp_rf_gain_ofs__4mod_all
                      (dmul (d_of_int (tx_amp_rf_gain a)) (3 / 2)) 0,
                    if tx_car_osc_qrg_inc = 50
                    then fpga_rb_set_tx_car_osc_qrg__4mod_cw_ssb_am_pm base
                           (dsub (tx_car_osc_qrg a) (d_of_int ssb_weaver_osc_qrg))
                    else skip,
                    fpga_rb_set_tx_car_osc_qrg_inc__4mod_cw_ssb_am_pm pow base tx_car_osc_qrg_inc,
                    fpga_rb_set_tx_mod_osc_qrg__4mod_ssbweaver_am_fm_pm base
                      (d_of_int (- ssb_weaver_osc_qrg)),
                    fpga_rb_set_tx_mod_qmix_gain_ofs__4mod_cw_ssbweaver_am
                      (d_of_int (tx_mod_osc_mag a)) 0]),
            (E RB_TX_MODTYP_AM,
               seq [modify reg_ctrl (\<lambda>c. c AND NOT 0x00007076),
                    fpga_rb_set_tx_amp_rf_gain_ofs__4mod_all (d_of_int (tx_amp_rf_gain a)) 0,
                    if tx_car_osc_qrg_inc = 50
                    then fpga_rb_set_tx_car_osc_qrg__4mod_cw_ssb_am_pm base (tx_car_osc_qrg a)
                    else skip,
                    fpga_rb_set_tx_car_osc_qrg_inc__4mod_cw_ssb_am_pm pow base tx_car_osc_qrg_inc,
                    mod_osc,
                    fpga_rb_set_tx_mod_qmix_gain_ofs__4mod_cw_ssbweaver_am
                      (d_of_int (tx_mod_osc_mag a)) 1]),
            (E RB_TX_MODTYP_FM,
               seq [modify reg_ctrl (\<lambda>c. c AND NOT 0x00007056),
                    fpga_rb_set_tx_amp_rf_gain_ofs__4mod_all (d_of_int (tx_amp_rf_gain a)) 0,
                    mod_osc,
                    fpga_rb_set_tx_mod_qmix_gain_ofs__4mod_fm base (tx_car_osc_qrg a)
                      (d_of_int (tx_mod_osc_mag a)),
                    modify reg_ctrl (\<lambda>c. c OR 0x00000020)]),
            (E RB_TX_MODTYP_PM,
               seq [modify reg_ctrl (\<lambda>c. c AND NOT 0x00007036),
                    fpga_rb_set_tx_amp_rf_gain_ofs__4mod_all (d_of_int (tx_amp_rf_gain a)) 0,
                    if tx_car_osc_qrg_inc = 50
                    then fpga_rb_set_tx_car_osc_qrg__4mod_cw_ssb_am_pm base (tx_car_osc_qrg a)
                    else skip,
                    fpga_rb_set_tx_car_osc_qrg_inc__4mod_cw_ssb_am_pm pow base tx_car_osc_qrg_inc,
                    mod_osc,
                    fpga_rb_set_tx_mod_qmix_gain_ofs__4mod_pm (tx_car_osc_qrg a)
                      (d_of_int (tx_mod_osc_mag a)),
                    modify reg_ctrl (\<lambda>c. c OR 0x00000040)])]
           (seq [fpga_rb_set_tx_amp_rf_gain_ofs__4mod_all (d_of_int (tx_amp_rf_gain a)) 0,
                 if tx_car_osc_qrg_inc = 50
                 then fpga_rb_set_tx_car_osc_qrg__4mod_cw_ssb_am_pm base (tx_car_osc_qrg a)
                 else skip,
                 fpga_rb_set_tx_car_osc_qrg_inc__4mod_cw_ssb_am_pm pow base tx_car_osc_qrg_inc,
                 fpga_rb_set_tx_mod_osc_qrg__4mod_ssbweaver_am_fm_pm base 0,
                 tx_mod_resync]))"

text \<open>\<^verbatim>\<open>switch (rx_muxin_src)\<close>\<close>

definition set_ctrl_rx_muxin_src :: "enums \<Rightarrow> (int \<Rightarrow> int) \<Rightarrow> set_ctrl_args \<Rightarrow> mem \<Rightarrow> mem" where
  "set_ctrl_rx_muxin_src E adc a =
     (let none =
            seq [fpga_rb_set_rx_muxin_gain (rx_muxin_gain a) 0x0000,
                 wr reg_rx_muxin_src 0x00000000]
      in switch (rx_muxin_src a)
           [(E RB_MODSRC_NONE, none),
            (E RB_MODSRC_RF_IN1,
               seq [fpga_rb_set_rx_muxin_gain (rx_muxin_gain a) (adc 0x20),
                    wr reg_rx_muxin_src 0x00000020,
                    modify reg_ctrl (\<lambda>c. c OR adc_auto_ofs)]),
            (E RB_MODSRC_RF_IN2,
               seq [fpga_rb_set_rx_muxin_gain (rx_muxin_gain a) (adc 0x21),
                    wr reg_rx_muxin_src 0x00000021,
                    modify reg_ctrl (\<lambda>c. c OR adc_auto_ofs)]),
            (E RB_MODSRC_EXP_AI0,
               seq [fpga_rb_set_rx_muxin_gain (rx_muxin_gain a) (adc 0x10),
                    wr reg_rx_muxin_src 0x00000010,
                    modify reg_ctrl (\<lambda>c. c OR adc_auto_ofs)]),
            (E RB_MODSRC_EXP_AI1,
               seq [fpga_rb_set_rx_muxin_gain (rx_muxin_gain a) (adc 0x18),
                    wr reg_rx_muxin_src 0x00000018,
                    modify reg_ctrl (\<lambda>c. c OR adc_auto_ofs)]),
            (E RB_MODSRC_EXP_AI2,
               seq [fpga_rb_set_rx_muxin_gain (rx_muxin_gain a) (adc 0x11),
                    wr reg_rx_muxin_src 0x00000011,
                    modify reg_ctrl (\<lambda>c. c OR adc_auto_ofs)]),
            (E RB_MODSRC_EXP_AI3,
               seq [fpga_rb_set_rx_muxin_gain (rx_muxin_gain a) (adc 0x19),
                    wr reg_rx_muxin_src 0x00000019,
                    modify reg_ctrl (\<lambda>c. c OR adc_auto_ofs)]),
            (E RB_MODSRC_AC97_LINEOUT_L,
               seq [fpga_rb_set_rx_muxin_gain (rx_muxin_gain a) 0,
                    wr reg_rx_muxin_src 0x00000030]),
            (E RB_MODSRC_AC97_LINEOUT_R,
               seq [fpga_rb_set_rx_muxin_gain (rx_muxin_gain a) 0,
                    wr reg_rx_muxin_src 0x00000031])]
           none)"

text \<open>\<^verbatim>\<open>switch (rx_modtyp & 0x0f)\<close>\<close>

definition set_ctrl_rx_modtyp ::
  "enums \<Rightarrow> (double \<Rightarrow> double \<Rightarrow> double) \<Rightarrow> double \<Rightarrow> set_ctrl_args \<Rightarrow> int \<Rightarrow> mem \<Rightarrow> mem" where
  "set_ctrl_rx_modtyp E pow base a rx_car_osc_qrg_inc =
     switch (rx_modtyp a AND 0x0f)
       [(E RB_RX_MODTYP_USB,
           seq [modify reg_ctrl (\<lambda>c. c AND NOT 0x10760000),
                if rx_car_osc_qrg_inc = 50
                then fpga_rb_set_rx_car_osc_qrg__4mod_ssb_am_fm_pm base
                       (dadd (rx_car_osc_qrg a) (d_of_int ssb_weaver_osc_qrg))
                else skip,
                fpga_rb_set_rx_car_osc_qrg_inc__4mod_ssb_am_fm_pm pow base rx_car_osc_qrg_inc,
                fpga_rb_set_rx_mod_osc_qrg__4mod_ssbweaver_am base (d_of_int ssb_weaver_osc_qrg)]),
        (E RB_RX_MODTYP_LSB,
           seq [modify reg_ctrl (\<lambda>c. c AND NOT 0x10760000),
                if rx_car_osc_qrg_inc = 50
                then fpga_rb_set_rx_car_osc_qrg__4mod_ssb_am_fm_pm base
                       (dsub (rx_car_osc_qrg a) (d_of_int ssb_weaver_osc_qrg))
                else skip,
                fpga_rb_set_rx_car_osc_qrg_inc__4mod_ssb_am_fm_pm pow base rx_car_osc_qrg_inc,
                fpga_rb_set_rx_mod_osc_qrg__4mod_ssbweaver_am base
                  (d_of_int (- ssb_weaver_osc_qrg))]),
        (E RB_RX_MODTYP_AMSYNC_USB,
           seq [modify reg_ctrl (\<lambda>c. c AND NOT 0x10560000),
                modify reg_ctrl (\<lambda>c. c OR 0x00200000),
                if rx_car_osc_qrg_inc = 50
                then fpga_rb_set_rx_car_osc_qrg__4mod_ssb_am_fm_pm base
                       (dadd (rx_car_osc_qrg a) (d_of_int ssb_weaver_osc_qrg))
                else skip,
                fpga_rb_set_rx_car_osc_qrg_inc__4mod_ssb_am_fm_pm pow base rx_car_osc_qrg_inc,
                fpga_rb_set_rx_mod_osc_qrg__4mod_ssbweaver_am base (d_of_int ssb_weaver_osc_qrg),
                fpga_rb_set_rx_calc_afc_weaver__4mod_am_fm_pm base (d_of_int ssb_weaver_osc_qrg)]),
        (E RB_RX_MODTYP_AMSYNC_LSB,
           seq [modify reg_ctrl (\<lambda>c. c AND NOT 0x10560000),
                modify reg_ctrl (\<lambda>c. c OR 0x00200000),
                if rx_car_osc_qrg_inc = 50
                then fpga_rb_set_rx_car_osc_qrg__4mod_ssb_am_fm_pm base
                       (dsub (rx_car_osc_qrg a) (d_of_int ssb_weaver_osc_qrg))
                else skip,
                fpga_rb_set_rx_car_osc_qrg_inc__4mod_ssb_am_fm_pm pow base rx_car_osc_qrg_inc,
                fpga_rb_set_rx_mod_osc_qrg__4mod_ssbweaver_am base
                  (d_of_int (- ssb_weaver_osc_qrg)),
                fpga_rb_set_rx_calc_afc_weaver__4mod_am_fm_pm base
                  (d_of_int (- ssb_weaver_osc_qrg))]),
        (E RB_RX_MODTYP_FM,
           seq [modify reg_ctrl (\<lambda>c. c AND NOT 0x10560000),
                modify reg_ctrl (\<lambda>c. c OR 0x00200000),
                if rx_car_osc_qrg_inc = 50
                then fpga_rb_set_rx_car_osc_qrg__4mod_ssb_am_fm_pm base (rx_car_osc_qrg a)
                else skip,
                fpga_rb_set_rx_car_osc_qrg_inc__4mod_ssb_am_fm_pm pow base rx_car_osc_qrg_inc,
                fpga_rb_set_rx_calc_afc_weaver__4mod_am_fm_pm base 0]),
        (E RB_RX_MODTYP_PM,
           seq [modify reg_ctrl (\<lambda>c. c AND NOT 0x10560000),
                modify reg_ctrl (\<lambda>c. c OR 0x00200000),
                if rx_car_osc_qrg_inc = 50
                then fpga_rb_set_rx_car_osc_qrg__4mod_ssb_am_fm_pm base (rx_car_osc_qrg a)
                else skip,
                fpga_rb_set_rx_car_osc_qrg_inc__4mod_ssb_am_fm_pm pow base rx_car_osc_qrg_inc,
                fpga_rb_set_rx_calc_afc_weaver__4mod_am_fm_pm base 0]),
        (E RB_RX_MODTYP_AMENV,
           seq [modify reg_ctrl (\<lambda>c. c AND NOT 0x10560000),
                modify reg_ctrl (\<lambda>c. c OR 0x00200000),
                if rx_car_osc_qrg_inc = 50
                then fpga_rb_set_rx_car_osc_qrg__4mod_ssb_am_fm_pm base (rx_car_osc_qrg a)
                else skip,
                fpga_rb_set_rx_car_osc_qrg_inc__4mod_ssb_am_fm_pm pow base rx_car_osc_qrg_inc,
                fpga_rb_set_rx_calc_afc_weaver__4mod_am_fm_pm base 0,
                fpga_rb_set_rx_amenv_filtvar (drop_bit 4 (rx_modtyp a))])]
       (seq [fpga_rb_set_rx_car_osc_qrg__4mod_ssb_am_fm_pm base 0,
             fpga_rb_set_rx_car_osc_qrg_inc__4mod_ssb_am_fm_pm pow base 50])"

text \<open>The two branches of \<^verbatim>\<open>if (rb_run)\<close>.\<close>

definition set_ctrl_run ::
  "enums \<Rightarrow> (double \<Rightarrow> double \<Rightarrow> double) \<Rightarrow> double \<Rightarrow> (int \<Rightarrow> int) \<Rightarrow> set_ctrl_args
     \<Rightarrow> int \<Rightarrow> int \<Rightarrow> mem \<Rightarrow> mem" where
  "set_ctrl_run E pow base adc a tx_car_osc_qrg_inc rx_car_osc_qrg_inc =
     seq [fpga_rb_set_rx_mod_ssb_am_gain__4mod_ssb_am 100,
          fpga_rb_set_rx_mod_amenv_gain__4mod_amenv 100,
          fpga_rb_set_rx_mod_fm_gain__4mod_fm 100,
          fpga_rb_set_rx_mod_pm_gain__4mod_pm 100,
          set_ctrl_tx_modsrc E pow base adc a tx_car_osc_qrg_inc,
          if tx_modsrc a \<noteq> E RB_MODSRC_NONE
          then seq [fpga_rb_set_tx_modtyp (tx_modtyp a),
                    set_ctrl_tx_modtyp E pow base a tx_car_osc_qrg_inc]
          else skip,
          set_ctrl_rx_muxin_src E adc a,
          fpga_rb_set_rx_modtyp (rx_modtyp a AND 0x0f),
          set_ctrl_rx_modtyp E pow base a rx_car_osc_qrg_inc]"

definition set_ctrl_stop :: "(double \<Rightarrow> double \<Rightarrow> double) \<Rightarrow> double \<Rightarrow> mem \<Rightarrow> mem" where
  "set_ctrl_stop pow base =
     seq [modify reg_ctrl (\<lambda>c. c AND NOT 0x10767076),
          wr reg_tx_muxin_src 0x00000000,
          fpga_rb_set_tx_amp_rf_gain_ofs__4mod_all 0 0,
          fpga_rb_set_tx_car_osc_qrg_inc__4mod_cw_ssb_am_pm pow base 50,
          fpga_rb_set_tx_mod_osc_qrg__4mod_ssbweaver_am_fm_pm base 0,
          fpga_rb_set_tx_mod_qmix_gain_ofs__4mod_fm base 0 0,
          wr reg_rx_muxin_src 0,
          fpga_rb_set_rx_car_osc_qrg_inc__4mod_ssb_am_fm_pm pow base 50,
          fpga_rb_set_rx_calc_afc_weaver__4mod_am_fm_pm base 0,
          fpga_rb_set_rx_mod_osc_qrg__4mod_ssbweaver_am base 0]"

definition fpga_rb_set_ctrl ::
  "enums \<Rightarrow> 'c rb_extern \<Rightarrow> set_ctrl_args \<Rightarrow> 'c rb_globals \<Rightarrow> 'c rb_globals" where
  "fpga_rb_set_ctrl E X a G =
     (let base = base_osc125mhz_realhz X (g_rp_main_calib_params G);
          adc = calib_get_ADC_offset X (g_rp_main_calib_params G);
          tx_car_osc_qrg_inc = (if tx_qrg_sel a \<noteq> 0 then qrg_inc a else 50);
          rx_car_osc_qrg_inc = (if rx_qrg_sel a \<noteq> 0 then qrg_inc a else 50);
          G = (if rfout_changed a G then set_ctrl_rfout X a G else G)
      in on_regs
           (if rb_run a \<noteq> 0
            then set_ctrl_run E (math_pow X) base adc a tx_car_osc_qrg_inc rx_car_osc_qrg_inc
            else set_ctrl_stop (math_pow X) base) G)"

section \<open>RadioBox module: enabling, the version check and the parameter update\<close>

definition fpga_rb_enable :: "int \<Rightarrow> mem \<Rightarrow> mem" where
  "fpga_rb_enable enable s =
     (case s of
        Null \<Rightarrow> s
      | _ \<Rightarrow>
          (if enable \<noteq> 0
           then seq [wr reg_ctrl 0x00000001,
                     wr reg_src_con_pnt 0x301C0000,
                     wr reg_tx_muxin_gain 0x00007FFF,
                     wr reg_tx_amp_rf_gain 0x00000C80,
                     wr reg_tx_amp_rf_ofs 0]
           else seq [wr reg_src_con_pnt 0x00000000,
                     wr reg_tx_muxin_gain 0x00000000,
                     wr reg_tx_amp_rf_gain 0,
                     wr reg_rx_muxin_src 0x00000000,
                     wr reg_ctrl 0x00000000]) s)"

definition fpga_rb_reset :: "mem \<Rightarrow> mem" where
  "fpga_rb_reset s =
     (case s of
        Null \<Rightarrow> s
      | _ \<Rightarrow>
          seq [wr reg_tx_mod_osc_inc_lo 0, wr reg_tx_mod_osc_inc_hi 0,
               wr reg_tx_mod_osc_ofs_lo 0, wr reg_tx_mod_osc_ofs_hi 0,
               wr reg_tx_car_osc_inc_lo 0, wr reg_tx_car_osc_inc_hi 0,
               wr reg_tx_car_osc_ofs_lo 0, wr reg_tx_car_osc_ofs_hi 0,
               wr reg_rx_mod_osc_inc_lo 0, wr reg_rx_mod_osc_inc_hi 0,
               wr reg_rx_mod_osc_ofs_lo 0, wr reg_rx_mod_osc_ofs_hi 0,
               wr reg_rx_car_osc_inc_lo 0, wr reg_rx_car_osc_inc_hi 0,
               wr reg_rx_car_osc_ofs_lo 0, wr reg_rx_car_osc_ofs_hi 0,
               wr reg_ctrl 0x10101011,
               wr reg_ctrl 0x10161017,
               wr reg_ctrl 0x10101011,
               wr reg_ctrl 0x00000001] s)"

text \<open>
  The loop of \<^verbatim>\<open>fpga_get_version\<close>, \<^verbatim>\<open>for (pos = 28; pos >= 0; pos -= 4)\<close>, with \<open>k\<close>
  digits still to check: \<^verbatim>\<open>pos\<close> is \<open>4 * (k - 1)\<close>.
\<close>

fun version_digits :: "u32 \<Rightarrow> nat \<Rightarrow> u32" where
  "version_digits version 0 = version"
| "version_digits version (Suc k) =
     (if 0x9 < (drop_bit (4 * k) version AND 0xf) then - 3
      else version_digits version k)"

text \<open>
  \<^verbatim>\<open>fpga_get_version\<close> returns a \<^verbatim>\<open>uint32_t\<close>: \<^verbatim>\<open>return -1;\<close> returns \<open>0xFFFFFFFF\<close>. There
  is no result where the program has already faulted.
\<close>

definition fpga_get_version :: "mem \<Rightarrow> u32 option" where
  "fpga_get_version s =
     (case s of
        Null \<Rightarrow> Some (- 1)
      | Mapped m \<Rightarrow>
          (let version = m reg_version
           in if version < 0x12010101 \<or> 0x29123299 < version then Some (- 2)
              else Some (version_digits version 8))
      | Fault \<Rightarrow> None)"

definition fpga_rb_calib ::
  "'c rb_extern \<Rightarrow> cordic \<Rightarrow> int \<Rightarrow> int \<Rightarrow> 'c rb_globals \<Rightarrow> 'c rb_globals" where
  "fpga_rb_calib X cordic calib enabled G =
     (let G = (if 0 < calib
               then (case rp_measure_calib_params (calib_set_ADC_offset X) cordic
                            (g_rp_main_calib_params G, g_fpga_rb_reg_mem G) of
                       (c, s) \<Rightarrow> G\<lparr>g_rp_main_calib_params := c, g_fpga_rb_reg_mem := s\<rparr>)
               else G)
      in on_regs (fpga_rb_enable enabled) G)"

text \<open>
  The parameter tables. \<^verbatim>\<open>pb\<close> is indexed by the enumerators \<^verbatim>\<open>RB_RUN\<close>, ...; of an entry
  only \<^verbatim>\<open>value\<close> is read. \<^verbatim>\<open>pn\<close> is a list of entries that ends at the first entry whose
  \<^verbatim>\<open>name\<close> is null; the model keeps the entries before it.
\<close>

datatype rb_params_enum =
    RB_RUN | RB_TX_MODSRC | RB_TX_MODTYP | RB_RX_MODTYP
  | RB_LED_CON_SRC_PNT | RB_RFOUT1_CON_SRC_PNT | RB_RFOUT2_CON_SRC_PNT | RB_RX_MUXIN_SRC
  | RB_TX_CAR_OSC_QRG | RB_RX_CAR_OSC_QRG | RB_TX_MOD_OSC_QRG
  | RB_TX_MUXIN_GAIN | RB_RX_MUXIN_GAIN | RB_TX_QRG_SEL | RB_RX_QRG_SEL
  | RB_TX_AMP_RF_GAIN | RB_TX_MOD_OSC_MAG | RB_RFOUT1_TERM | RB_RFOUT2_TERM
  | RB_QRG_INC | RB_AC97_LOL | RB_AC97_LOR

record rb_app_params_t =
  name :: string
  "value" :: double
  fpga_update :: int

text \<open>
  \<^verbatim>\<open>fpga_rb_get_fpga_params(pb, p_pn)\<close>. \<^verbatim>\<open>rb_update_param\<close> is declared outside this
  file. The loop over \<^verbatim>\<open>pn\<close> keeps the last values of the three names it looks for.
\<close>

definition fpga_rb_get_fpga_params ::
  "enums \<Rightarrow> 'c rb_extern
     \<Rightarrow> (rb_app_params_t list \<Rightarrow> string \<Rightarrow> double \<Rightarrow> rb_app_params_t list)
     \<Rightarrow> (rb_params_enum \<Rightarrow> double) option
     \<Rightarrow> rb_app_params_t list option option \<Rightarrow> 'c rb_globals
     \<Rightarrow> int option \<times> rb_app_params_t list option option" where
  "fpga_rb_get_fpga_params E X rb_update_param pb p_pn G =
     (case (g_fpga_rb_reg_mem G, pb, p_pn) of
        (Fault, _, _) \<Rightarrow> (None, p_pn)
      | (Null, _, _) \<Rightarrow> (Some (- 1), p_pn)
      | (Mapped m, None, _) \<Rightarrow> (Some (- 1), p_pn)
      | (Mapped m, Some pb, None) \<Rightarrow> (Some (- 1), p_pn)
      | (Mapped m, Some pb, Some None) \<Rightarrow> (Some (- 2), p_pn)
      | (Mapped m, Some pb, Some (Some pn)) \<Rightarrow>
          (case foldl
                  (\<lambda>(loc_tx_modtyp, loc_rx_modtyp, loc_qrg_inc) p.
                     if name p = ''tx_modtyp_s'' then (dtrunc (value p), loc_rx_modtyp, loc_qrg_inc)
                     else if name p = ''rx_modtyp_s'' then (loc_tx_modtyp, dtrunc (value p), loc_qrg_inc)
                     else if name p = ''qrg_inc_s'' then (loc_tx_modtyp, loc_rx_modtyp, dtrunc (value p))
                     else (loc_tx_modtyp, loc_rx_modtyp, loc_qrg_inc))
                  (dtrunc (pb RB_TX_MODTYP), dtrunc (pb RB_RX_MODTYP), dtrunc (pb RB_QRG_INC)) pn of
             (loc_tx_modtyp, loc_rx_modtyp, loc_qrg_inc) \<Rightarrow>
               (case fpga_rb_get_ctrl E (base_osc125mhz_realhz X (g_rp_main_calib_params G))
                       loc_tx_modtyp loc_rx_modtyp (g_fpga_rb_reg_mem G) of
                  None \<Rightarrow> (None, p_pn)
                | Some (loc_RD_tx_car_osc_qrg, loc_RD_rx_car_osc_qrg, loc_RD_ovrdrv) \<Rightarrow>
                    (let pn = (if loc_qrg_inc \<noteq> 50
                               then rb_update_param
                                      (rb_update_param pn ''tx_car_osc_qrg_f'' loc_RD_tx_car_osc_qrg)
                                      ''rx_car_osc_qrg_f'' loc_RD_rx_car_osc_qrg
                               else pn);
                         pn = rb_update_param pn ''ovrdrv_s'' (d_of_int (uint loc_RD_ovrdrv))
                     in (Some 1, Some (Some pn))))))"

text \<open>The local variables of \<^verbatim>\<open>fpga_rb_update_all_params\<close>.\<close>

record update_locals =
  loc_rb_run :: int
  loc_rb_calib :: int
  loc_tx_modsrc :: int
  loc_tx_modtyp :: int
  loc_rx_modtyp :: int
  loc_led_csp :: int
  loc_rfout1_csp :: int
  loc_rfout2_csp :: int
  loc_rx_muxin_src :: int
  loc_tx_car_osc_qrg :: double
  loc_rx_car_osc_qrg :: double
  loc_tx_mod_osc_qrg :: double
  loc_tx_amp_rf_gain :: int
  loc_tx_mod_osc_mag :: int
  loc_tx_muxin_gain :: int
  loc_rx_muxin_gain :: int
  loc_tx_qrg_sel :: int
  loc_rx_qrg_sel :: int
  loc_rfout1_term :: int
  loc_rfout2_term :: int
  loc_qrg_inc :: int
  loc_ac97_lil :: int
  loc_ac97_lir :: int

text \<open>"Get current parameters from the worker": the locals as read from \<^verbatim>\<open>pb\<close>.\<close>

definition locals_of_pb :: "(rb_params_enum \<Rightarrow> double) \<Rightarrow> update_locals" where
  "locals_of_pb pb =
     \<lparr>loc_rb_run = dtrunc (pb RB_RUN),
      loc_rb_calib = 0,
      loc_tx_modsrc = dtrunc (pb RB_TX_MODSRC),
      loc_tx_modtyp = dtrunc (pb RB_TX_MODTYP),
      loc_rx_modtyp = dtrunc (pb RB_RX_MODTYP),
      loc_led_csp = dtrunc (pb RB_LED_CON_SRC_PNT),
      loc_rfout1_csp = dtrunc (pb RB_RFOUT1_CON_SRC_PNT),
      loc_rfout2_csp = dtrunc (pb RB_RFOUT2_CON_SRC_PNT),
      loc_rx_muxin_src = dtrunc (pb RB_RX_MUXIN_SRC),
      loc_tx_car_osc_qrg = pb RB_TX_CAR_OSC_QRG,
      loc_rx_car_osc_qrg = pb RB_RX_CAR_OSC_QRG,
      loc_tx_mod_osc_qrg = pb RB_TX_MOD_OSC_QRG,
      loc_tx_amp_rf_gain = dtrunc (pb RB_TX_AMP_RF_GAIN),
      loc_tx_mod_osc_mag = dtrunc (pb RB_TX_MOD_OSC_MAG),
      loc_tx_muxin_gain = dtrunc (pb RB_TX_MUXIN_GAIN),
      loc_rx_muxin_gain = dtrunc (pb RB_RX_MUXIN_GAIN),
      loc_tx_qrg_sel = dtrunc (pb RB_TX_QRG_SEL),
      loc_rx_qrg_sel = dtrunc (pb RB_RX_QRG_SEL),
      loc_rfout1_term = dtrunc (pb RB_RFOUT1_TERM),
      loc_rfout2_term = dtrunc (pb RB_RFOUT2_TERM),
      loc_qrg_inc = dtrunc (pb RB_QRG_INC),
      loc_ac97_lil = dtrunc (pb RB_AC97_LOL),
      loc_ac97_lir = dtrunc (pb RB_AC97_LOR)\<rparr>"

text \<open>
  One round of the loop over \<^verbatim>\<open>pn\<close>: the entry as the round leaves it, the locals and
  the globals.
\<close>

definition update_one ::
  "'c rb_extern \<Rightarrow> cordic \<Rightarrow> rb_app_params_t \<Rightarrow> update_locals \<times> 'c rb_globals
     \<Rightarrow> rb_app_params_t \<times> update_locals \<times> 'c rb_globals" where
  "update_one X cordic p LG =
     (case LG of (L, G) \<Rightarrow>
        if fpga_update p AND 0x80 = 0 then (p, L, G)
        else
          (let p = p\<lparr>fpga_update := fpga_update p AND NOT 0x80\<rparr>;
               v = dtrunc (value p)
           in if name p = ''rb_run'' then
                (p, L\<lparr>loc_rb_run := v\<rparr>, on_regs (fpga_rb_enable v) G)
              else if name p = ''rb_calib'' then
                (p\<lparr>value := 0\<rparr>, L\<lparr>loc_rb_calib := v\<rparr>, fpga_rb_calib X cordic v (loc_rb_run L) G)
              else if name p = ''tx_modsrc_s'' then (p, L\<lparr>loc_tx_modsrc := v\<rparr>, G)
              else if name p = ''tx_modtyp_s'' then (p, L\<lparr>loc_tx_modtyp := v\<rparr>, G)
              else if name p = ''rx_modtyp_s'' then (p, L\<lparr>loc_rx_modtyp := v\<rparr>, G)
              else if name p = ''rbled_csp_s'' then (p, L\<lparr>loc_led_csp := v\<rparr>, G)
              else if name p = ''rfout1_csp_s'' then (p, L\<lparr>loc_rfout1_csp := v\<rparr>, G)
              else if name p = ''rfout2_csp_s'' then (p, L\<lparr>loc_rfout2_csp := v\<rparr>, G)
              else if name p = ''rx_muxin_src_s'' then (p, L\<lparr>loc_rx_muxin_src := v\<rparr>, G)
              else if name p = ''tx_car_osc_qrg_f'' then (p, L\<lparr>loc_tx_car_osc_qrg := value p\<rparr>, G)
              else if name p = ''rx_car_osc_qrg_f'' then (p, L\<lparr>loc_rx_car_osc_qrg := value p\<rparr>, G)
              else if name p = ''tx_mod_osc_qrg_f'' then (p, L\<lparr>loc_tx_mod_osc_qrg := value p\<rparr>, G)
              else if name p = ''tx_amp_rf_gain_s'' then (p, L\<lparr>loc_tx_amp_rf_gain := v\<rparr>, G)
              else if name p = ''tx_mod_osc_mag_s'' then (p, L\<lparr>loc_tx_mod_osc_mag := v\<rparr>, G)
              else if name p = ''tx_muxin_gain_s'' then (p, L\<lparr>loc_tx_muxin_gain := v\<rparr>, G)
              else if name p = ''rx_muxin_gain_s'' then (p, L\<lparr>loc_rx_muxin_gain := v\<rparr>, G)
              else if name p = ''tx_qrg_sel_s'' then (p, L\<lparr>loc_tx_qrg_sel := v\<rparr>, G)
              else if name p = ''rx_qrg_sel_s'' then (p, L\<lparr>loc_rx_qrg_sel := v\<rparr>, G)
              else if name p = ''rfout1_term_s'' then (p, L\<lparr>loc_rfout1_term := v\<rparr>, G)
              else if name p = ''rfout2_term_s'' then (p, L\<lparr>loc_rfout2_term := v\<rparr>, G)
              else if name p = ''qrg_inc_s'' then (p, L\<lparr>loc_qrg_inc := v\<rparr>, G)
              else if name p = ''ac97_lil_s'' then (p, L\<lparr>loc_ac97_lil := v\<rparr>, G)
              else if name p = ''ac97_lir_s'' then (p, L\<lparr>loc_ac97_lir := v\<rparr>, G)
              else (p, L, G)))"

text \<open>The loop \<^verbatim>\<open>for (idx = 0; pn[idx].name; idx++)\<close>.\<close>

fun update_loop ::
  "'c rb_extern \<Rightarrow> cordic \<Rightarrow> rb_app_params_t list \<Rightarrow> update_locals \<times> 'c rb_globals
     \<Rightarrow> rb_app_params_t list \<times> update_locals \<times> 'c rb_globals" where
  "update_loop X cordic [] LG = ([], LG)"
| "update_loop X cordic (p # pn) LG =
     (case update_one X cordic p LG of
        (p', LG') \<Rightarrow> (case update_loop X cordic pn LG' of (pn', LG'') \<Rightarrow> (p' # pn', LG'')))"

text \<open>The arguments that \<^verbatim>\<open>fpga_rb_update_all_params\<close> passes to \<^verbatim>\<open>fpga_rb_set_ctrl\<close>.\<close>

definition set_ctrl_args_of :: "update_locals \<Rightarrow> set_ctrl_args" where
  "set_ctrl_args_of L =
     \<lparr>rb_run = loc_rb_run L,
      tx_modsrc = loc_tx_modsrc L,
      tx_modtyp = loc_tx_modtyp L,
      rx_modtyp = loc_rx_modtyp L,
      src_con_pnt =
        sint (word_of_int
          (push_bit 0x18 (loc_rfout2_csp L AND 0xff) OR push_bit 0x10 (loc_rfout1_csp L AND 0xff)
           OR (loc_led_csp L AND 0xff)) :: u32),
      src_con_pnt2 =
        push_bit 0x08 (loc_ac97_lir L AND 0xff) OR push_bit 0x00 (loc_ac97_lil L AND 0xff),
      rx_muxin_src = loc_rx_muxin_src L,
      tx_car_osc_qrg = loc_tx_car_osc_qrg L,
      rx_car_osc_qrg = loc_rx_car_osc_qrg L,
      tx_mod_osc_qrg = loc_tx_mod_osc_qrg L,
      tx_muxin_gain = loc_tx_muxin_gain L,
      rx_muxin_gain = loc_rx_muxin_gain L,
      tx_qrg_sel = loc_tx_qrg_sel L,
      rx_qrg_sel = loc_rx_qrg_sel L,
      tx_amp_rf_gain = loc_tx_amp_rf_gain L,
      tx_mod_osc_mag = loc_tx_mod_osc_mag L,
      term_rfout1 = loc_rfout1_term L,
      term_rfout2 = loc_rfout2_term L,
      qrg_inc = loc_qrg_inc L\<rparr>"

text \<open>
  \<^verbatim>\<open>fpga_rb_update_all_params(pb, p_pn)\<close>. A null \<^verbatim>\<open>pb\<close> or \<^verbatim>\<open>p_pn\<close> is \<open>None\<close>, and so is
  a null \<^verbatim>\<open>*p_pn\<close> inside \<^verbatim>\<open>p_pn\<close>. The result is the return value (none where the
  program has faulted), the list that \<^verbatim>\<open>*p_pn\<close> points to afterwards, and the globals.
\<close>

definition fpga_rb_update_all_params ::
  "enums \<Rightarrow> 'c rb_extern \<Rightarrow> cordic \<Rightarrow> (rb_params_enum \<Rightarrow> double) option
     \<Rightarrow> rb_app_params_t list option option \<Rightarrow> 'c rb_globals
     \<Rightarrow> int option \<times> rb_app_params_t list option option \<times> 'c rb_globals" where
  "fpga_rb_update_all_params E X cordic pb p_pn G =
     (case (g_fpga_rb_reg_mem G, pb, p_pn) of
        (Fault, _, _) \<Rightarrow> (None, p_pn, G)
      | (Null, _, _) \<Rightarrow> (Some (- 1), p_pn, G)
      | (Mapped m, None, _) \<Rightarrow> (Some (- 1), p_pn, G)
      | (Mapped m, Some pb, None) \<Rightarrow> (Some (- 1), p_pn, G)
      | (Mapped m, Some pb, Some None) \<Rightarrow> (Some (- 2), p_pn, G)
      | (Mapped m, Some pb, Some (Some pn)) \<Rightarrow>
          (case update_loop X cordic pn (locals_of_pb pb, G) of
             (pn, L, G) \<Rightarrow>
               (let G = (if loc_rb_run L \<noteq> 0 then fpga_rb_set_ctrl E X (set_ctrl_args_of L) G
                         else G)
                in (if g_fpga_rb_reg_mem G = Fault then None else Some 0, Some (Some pn), G))))"

section \<open>The specification's formulas\<close>

text \<open>
  Rounding to the nearest integer with ties away from zero: the symmetric rounding of the
  specification.
\<close>

definition round_half_away :: "rat \<Rightarrow> int" where
  "round_half_away x = (if 0 \<le> x then \<lfloor>x + 1 / 2\<rfloor> else \<lceil>x - 1 / 2\<rceil>)"

text \<open>
  The specification's frequency-to-register conversion:
  \<open>register = round (freq / base_osc_hz * 2 ^ 48)\<close>.
\<close>

definition spec_dds_inc :: "rat \<Rightarrow> rat \<Rightarrow> int" where
  "spec_dds_inc freq base_osc_hz = round_half_away (freq / base_osc_hz * 2 ^ 48)"

text \<open>
  The two register words that the frequency setters compute from \<open>base\<close> and the
  frequency: the low and the high word of the \<^verbatim>\<open>int64_t bitfield\<close>. This is the
  computation that the five setters share, word for word.
\<close>

definition dds_bits :: "double \<Rightarrow> double \<Rightarrow> u32 \<times> u32" where
  "dds_bits base f =
     (let qrg = dmul (2 ^ 48) (ddiv f base);
          qrg = (if 0 < qrg then dadd qrg (1 / 2)
                 else if qrg < 0 then dsub qrg (- (1 / 2)) else qrg);
          bitfield = d2i64 qrg
      in (ucast (bitfield AND 0xffffffff), ucast (signed_drop_bit 32 bitfield)))"

text \<open>
  The signed value of a register pair, as \<^verbatim>\<open>fpga_rb_get_tx_car_osc_qrg\<close> assembles it.
\<close>

definition inc_value :: "u32 \<times> u32 \<Rightarrow> int" where
  "inc_value p = (case p of (lo, hi) \<Rightarrow> sint ((ucast lo :: u64) OR push_bit 32 (ucast hi)))"

text \<open>
  The booster field that \<^verbatim>\<open>fpga_rb_set_tx_muxin_gain\<close> computes for a gain of \<open>80 + n\<close>
  percent agrees with the rounded \<open>n * 7 / 20\<close>.
\<close>

definition tx_boost_agrees :: "int \<Rightarrow> bool" where
  "tx_boost_agrees n \<longleftrightarrow>
     dtrunc (dadd (1 / 2) (dmul (d_of_int n) (ddiv 7 20))) = round_half_away (of_int n * 7 / 20)"

text \<open>
  The successive approximation of the specification. \<open>meas ofs reduction\<close> is the
  accumulated magnitude measured for the signed offset \<open>ofs\<close> at a reduction level. Step
  \<open>i\<close> compares the two candidates \<open>min_ofs_value | (0b01 << (i - 1))\<close> and
  \<open>min_ofs_value | (0b11 << (i - 1))\<close>, each shifted to a signed offset, and sets bit \<open>i\<close>
  exactly when the high candidate measures strictly smaller.
\<close>

definition reduction_at :: "nat \<Rightarrow> int" where
  "reduction_at i = (if int i - 11 < 0 then 0 else int i - 11)"

definition sar_step :: "(int \<Rightarrow> int \<Rightarrow> u32) \<Rightarrow> u16 \<Rightarrow> nat \<Rightarrow> u16" where
  "sar_step meas min_ofs_value i =
     (let lo = min_ofs_value OR push_bit (i - 1) 1;
          hi = min_ofs_value OR push_bit (i - 1) 3
      in if meas (uint hi - 0x8000) (reduction_at i) < meas (uint lo - 0x8000) (reduction_at i)
         then set_bit i min_ofs_value else min_ofs_value)"

text \<open>
  The 15 steps from bit 15 down to bit 1, the final decision between \<open>min_ofs_value\<close> and
  \<open>min_ofs_value | 1\<close> at reduction 0, and the shift to a signed offset.
\<close>

definition sar_search :: "(int \<Rightarrow> int \<Rightarrow> u32) \<Rightarrow> int" where
  "sar_search meas =
     (let min_ofs_value =
            foldl (sar_step meas) 0 [15, 14, 13, 12, 11, 10, 9, 8, 7, 6, 5, 4, 3, 2, 1];
          winner = (if meas (uint (min_ofs_value OR 1) - 0x8000) 0
                        < meas (uint min_ofs_value - 0x8000) 0
                    then min_ofs_value OR 1 else min_ofs_value)
      in uint winner - 0x8000)"

text \<open>
  The measurement function that \<^verbatim>\<open>test_rx_measurement\<close> realises on mapped registers: the
  eight rounded readings of the CORDIC magnitude, summed.
\<close>

definition measured :: "cordic \<Rightarrow> int \<Rightarrow> int \<Rightarrow> u32" where
  "measured cordic adc_offset_val reduction =
     sum_mag (cordic (word_of_int adc_offset_val) (drop_bit (nat reduction) 0x0000ffff)) 8 0"

text \<open>
  Values for the examples: a numbering of the enumerators, external functions (a base
  oscillator of exactly 125 MHz, no ADC offsets, no gain compensation), a silent detector,
  and the globals with all \<^verbatim>\<open>static\<close> variables at their initial value 0.
\<close>

fun example_enums :: enums where
  "example_enums RB_MODSRC_NONE = 0"
| "example_enums RB_MODSRC_RF_IN1 = 1"
| "example_enums RB_MODSRC_RF_IN2 = 2"
| "example_enums RB_MODSRC_EXP_AI0 = 4"
| "example_enums RB_MODSRC_EXP_AI1 = 5"
| "example_enums RB_MODSRC_EXP_AI2 = 6"
| "example_enums RB_MODSRC_EXP_AI3 = 7"
| "example_enums RB_MODSRC_MOD_OSC = 15"
| "example_enums RB_MODSRC_AC97_LINEOUT_L = 24"
| "example_enums RB_MODSRC_AC97_LINEOUT_R = 25"
| "example_enums RB_TX_MODTYP_USB = 2"
| "example_enums RB_TX_MODTYP_LSB = 3"
| "example_enums RB_TX_MODTYP_AM = 4"
| "example_enums RB_TX_MODTYP_FM = 7"
| "example_enums RB_TX_MODTYP_PM = 8"
| "example_enums RB_RX_MODTYP_USB = 2"
| "example_enums RB_RX_MODTYP_LSB = 3"
| "example_enums RB_RX_MODTYP_AMENV = 4"
| "example_enums RB_RX_MODTYP_AMSYNC_USB = 5"
| "example_enums RB_RX_MODTYP_AMSYNC_LSB = 6"
| "example_enums RB_RX_MODTYP_FM = 7"
| "example_enums RB_RX_MODTYP_PM = 8"

definition example_extern :: "unit rb_extern" where
  "example_extern =
     \<lparr>base_osc125mhz_realhz = (\<lambda>c. 125000000),
      calib_get_ADC_offset = (\<lambda>c ch. 0),
      calib_set_ADC_offset = (\<lambda>c ch v. c),
      get_compensation_factor = (\<lambda>f t. 1),
      math_pow = (\<lambda>x y. 1)\<rparr>"

definition example_cordic :: cordic where
  "example_cordic ofs gain iter = 0"

definition example_globals :: "mem \<Rightarrow> unit rb_globals" where
  "example_globals s =
     \<lparr>g_fpga_rb_reg_mem = s, g_rp_main_calib_params = (),
      tx_car_osc_qrg_old = 0, rx_car_osc_qrg_old = 0,
      src_con_pnt_old = 0, src_con_pnt2_old = 0,
      term_rfout1_old = 0, term_rfout2_old = 0\<rparr>"

text \<open>A parameter table \<^verbatim>\<open>pb\<close> with every value 0.\<close>

definition example_pb :: "rb_params_enum \<Rightarrow> double" where
  "example_pb i = 0"

text \<open>The stand-in for \<^verbatim>\<open>rb_update_param\<close> in the examples leaves the list alone.\<close>

definition example_update_param ::
  "rb_app_params_t list \<Rightarrow> string \<Rightarrow> double \<Rightarrow> rb_app_params_t list" where
  "example_update_param pn n v = pn"

text \<open>
  Frame conditions. \<open>writes_only W f\<close>: on mapped registers the statement \<open>f\<close> ends with
  mapped registers, and no register outside \<open>W\<close> has changed.
\<close>

definition writes_only :: "reg set \<Rightarrow> (mem \<Rightarrow> mem) \<Rightarrow> bool" where
  "writes_only W f \<longleftrightarrow> (\<forall>m. \<exists>m'. f (Mapped m) = Mapped m' \<and> (\<forall>r. r \<notin> W \<longrightarrow> m' r = m r))"


text \<open>The registers of the "RF Out x Gain settings" block of \<^verbatim>\<open>fpga_rb_set_ctrl\<close>.\<close>

definition rfout_regs :: "reg set" where
  "rfout_regs =
     {reg_rfout1_gain, reg_rfout1_ofs, reg_rfout2_gain, reg_rfout2_ofs,
      reg_src_con_pnt, reg_src_con_pnt2}"

text \<open>
  Arguments of \<^verbatim>\<open>fpga_rb_set_ctrl\<close> for the examples: running, modulation source RF
  input 1, USB on both paths, 7.1 MHz on both carriers, no sweep.
\<close>

definition example_args :: set_ctrl_args where
  "example_args =
     \<lparr>rb_run = 1, tx_modsrc = 1, tx_modtyp = 2, rx_modtyp = 2, src_con_pnt = 0,
      src_con_pnt2 = 0, rx_muxin_src = 1, tx_car_osc_qrg = 7100000, rx_car_osc_qrg = 7100000,
      tx_mod_osc_qrg = 1000, tx_muxin_gain = 80, rx_muxin_gain = 80, tx_qrg_sel = 0,
      rx_qrg_sel = 0, tx_amp_rf_gain = 200, tx_mod_osc_mag = 100, term_rfout1 = 0,
      term_rfout2 = 0, qrg_inc = 50\<rparr>"
section \<open>Housekeeping: the register map and the LED guard\<close>

lemma housekeeping_control_layout_eq:
  "housekeeping_control_layout =
     [(''id'', 0, 4), (''dna_part1'', 4, 4), (''dna_part2'', 8, 4), (''reserved_1'', 12, 4),
      (''ex_cd_p'', 16, 4), (''ex_cd_n'', 20, 4), (''ex_co_p'', 24, 4), (''ex_co_n'', 28, 4),
      (''ex_ci_p'', 32, 4), (''ex_ci_n'', 36, 4), (''reserved_2'', 40, 4),
      (''reserved_3'', 44, 4), (''led_control'', 48, 4)]"
  by (simp add: housekeeping_control_layout_def housekeeping_control_members_def)

text \<open>
  C7. The register map has exactly the 13 named 32-bit words, at offsets 0, 4, ..., 48.
  The first twelve lie within the window of \<^verbatim>\<open>HOUSEKEEPING_BASE_SIZE = 0x30\<close> bytes, but
  the thirteenth, \<^verbatim>\<open>led_control\<close>, occupies bytes 48..51 and so lies just past it: the
  structure is 52 bytes long and the window 48.
\<close>

theorem housekeeping_led_control_outside_window:
  "length housekeeping_control_layout = 13
   \<and> map fst housekeeping_control_layout =
       [''id'', ''dna_part1'', ''dna_part2'', ''reserved_1'', ''ex_cd_p'', ''ex_cd_n'',
        ''ex_co_p'', ''ex_co_n'', ''ex_ci_p'', ''ex_ci_n'', ''reserved_2'', ''reserved_3'',
        ''led_control'']
   \<and> list_all (\<lambda>m. snd (snd m) = 4) housekeeping_control_layout
   \<and> filter within_window housekeeping_control_layout = butlast housekeeping_control_layout
   \<and> last housekeeping_control_layout = (''led_control'', 48, 4)
   \<and> \<not> within_window (''led_control'', 48, 4)
   \<and> HOUSEKEEPING_BASE_SIZE = 48"
  by (simp add: housekeeping_control_layout_eq within_window_def HOUSEKEEPING_BASE_SIZE_def)

text \<open>
  C10. \<^verbatim>\<open>hk_SetLedBits\<close> takes the read-only branch exactly for the mask \<^verbatim>\<open>0x1\<close>, where it
  returns \<^verbatim>\<open>RP_EMRO\<close> and leaves the registers alone; for every other mask, also one that
  contains bit 0, it hands the LED register, the bits and \<^verbatim>\<open>LED_CONTROL_MASK\<close> to
  \<^verbatim>\<open>cmn_SetBits\<close> and returns what that returns. (The helper is assumed never to return
  \<^verbatim>\<open>RP_EMRO\<close> itself.)
\<close>

theorem hk_SetLedBits_guard:
  assumes "\<And>f b m. fst (cmn_SetBits f b m) \<noteq> RP_EMRO"
  shows "(fst (hk_SetLedBits cmn_SetBits RP_EMRO bits hk) = RP_EMRO \<longleftrightarrow> bits = 0x1)
    \<and> (bits = 0x1 \<longrightarrow> snd (hk_SetLedBits cmn_SetBits RP_EMRO bits hk) = hk)
    \<and> (bits \<noteq> 0x1 \<longrightarrow>
         hk_SetLedBits cmn_SetBits RP_EMRO bits hk =
           (fst (cmn_SetBits (led_control hk) bits 0xFF),
            hk\<lparr>led_control := snd (cmn_SetBits (led_control hk) bits 0xFF)\<rparr>))"
  using assms [of "led_control hk" bits LED_CONTROL_MASK]
  by (auto simp: hk_SetLedBits_def LED_CONTROL_MASK_def split: prod.splits)

text \<open>
  The guard at work on the mask \<^verbatim>\<open>0x3\<close>, with a helper that ors the masked bits into the
  register and returns 0: the call is not refused, and bit 0 (the read-only LED) is set.
\<close>

theorem hk_SetLedBits_guard_witness:
  "(\<forall>f b m. fst ((\<lambda>f b m. (0::int, f OR (b AND m))) f b m) \<noteq> (14::int))
   \<and> hk_SetLedBits (\<lambda>f b m. (0, f OR (b AND m))) 14 0x3
        \<lparr>id' = 0, dna_part1 = 0, dna_part2 = 0, reserved_1 = 0, ex_cd_p = 0, ex_cd_n = 0,
         ex_co_p = 0, ex_co_n = 0, ex_ci_p = 0, ex_ci_n = 0, reserved_2 = 0, reserved_3 = 0,
         led_control = 0\<rparr>
     = (0, \<lparr>id' = 0, dna_part1 = 0, dna_part2 = 0, reserved_1 = 0, ex_cd_p = 0, ex_cd_n = 0,
         ex_co_p = 0, ex_co_n = 0, ex_ci_p = 0, ex_ci_n = 0, reserved_2 = 0, reserved_3 = 0,
         led_control = 0x3\<rparr>)"
proof -
  have h: "\<And>f b m. fst ((\<lambda>(f::u32) b m. (0::int, f OR (b AND m))) f b m) \<noteq> (14::int)"
    by simp
  show ?thesis
    using hk_SetLedBits_guard [of "\<lambda>f b m. (0, f OR (b AND m))" 14 "0x3"
        "\<lparr>id' = 0, dna_part1 = 0, dna_part2 = 0, reserved_1 = 0, ex_cd_p = 0, ex_cd_n = 0,
          ex_co_p = 0, ex_co_n = 0, ex_ci_p = 0, ex_ci_n = 0, reserved_2 = 0, reserved_3 = 0,
          led_control = 0\<rparr>", OF h]
    by simp
qed


section \<open>Properties of the rounding\<close>

lemma rnd_even_error: "\<bar>of_int (rnd_even y) - y\<bar> \<le> 1 / 2"
proof -
  have "of_int \<lfloor>y\<rfloor> \<le> y" "y < of_int \<lfloor>y\<rfloor> + 1" by linarith+
  then show ?thesis
    by (auto simp: rnd_even_def Let_def)
qed

lemma bitlen_pow_bounds:
  assumes "0 < n"
  shows "(2::rat) powi (bitlen n - 1) \<le> of_int n" "of_int n < (2::rat) powi bitlen n"
proof -
  from assms have b: "1 \<le> bitlen n"
    using bitlen_eq_zero_iff [of n] bitlen_nonneg [of n] by linarith
  have "(2::int) ^ nat (bitlen n - 1) \<le> n" "n < 2 ^ nat (bitlen n)"
    using bitlen_bounds [OF assms] by simp_all
  then have "(of_int ((2::int) ^ nat (bitlen n - 1)) :: rat) \<le> of_int n"
    "(of_int n :: rat) < of_int (2 ^ nat (bitlen n))"
    by (simp_all only: of_int_le_iff of_int_less_iff)
  then show "(2::rat) powi (bitlen n - 1) \<le> of_int n" "of_int n < (2::rat) powi bitlen n"
    using b by (simp_all add: power_int_def)
qed

lemma ilog2_bounds:
  assumes "x \<noteq> 0"
  shows "2 powi ilog2 x \<le> \<bar>x\<bar>" "\<bar>x\<bar> < 2 powi (ilog2 x + 1)"
proof -
  obtain n d where q: "quotient_of \<bar>x\<bar> = (n, d)" by (cases "quotient_of \<bar>x\<bar>")
  then have d: "0 < d" and x: "\<bar>x\<bar> = of_int n / of_int d"
    using quotient_of_denom_pos [of "\<bar>x\<bar>" n d] quotient_of_div [of "\<bar>x\<bar>" n d] by auto
  from assms have "0 < \<bar>x\<bar>" by simp
  with x d have n: "0 < n" by (simp add: zero_less_divide_iff)
  define k where "k = bitlen n - bitlen d"
  have dd: "(0::rat) < of_int d" using d by simp
  have lo: "(2::rat) powi (k - 1) \<le> \<bar>x\<bar>"
  proof -
    have "k - 1 = (bitlen n - 1) - bitlen d" by (simp add: k_def)
    then have "(2::rat) powi (k - 1) = 2 powi (bitlen n - 1) / 2 powi bitlen d"
      by (simp only: power_int_diff [of "2::rat", simplified])
    also have "\<dots> \<le> of_int n / 2 powi bitlen d"
      using bitlen_pow_bounds(1) [OF n] by (simp add: divide_right_mono)
    also have "\<dots> \<le> of_int n / of_int d"
      using bitlen_pow_bounds(2) [OF d] n dd by (intro divide_left_mono) (auto intro: mult_pos_pos)
    finally show ?thesis by (simp add: x)
  qed
  have hi: "\<bar>x\<bar> < (2::rat) powi (k + 1)"
  proof -
    have "of_int n / of_int d < (2::rat) powi bitlen n / of_int d"
      using bitlen_pow_bounds(2) [OF n] dd by (simp add: divide_strict_right_mono)
    also have "\<dots> \<le> 2 powi bitlen n / 2 powi (bitlen d - 1)"
      using bitlen_pow_bounds(1) [OF d] dd by (intro divide_left_mono) (auto intro: mult_pos_pos)
    also have "\<dots> = 2 powi (k + 1)"
    proof -
      have "k + 1 = bitlen n - (bitlen d - 1)" by (simp add: k_def)
      then show ?thesis by (simp only: power_int_diff [of "2::rat", simplified])
    qed
    finally show ?thesis by (simp add: x)
  qed
  have e: "ilog2 x = (if 2 powi k \<le> \<bar>x\<bar> then k else k - 1)"
    by (simp add: ilog2_def q k_def Let_def)
  show "2 powi ilog2 x \<le> \<bar>x\<bar>" using lo by (simp add: e)
  show "\<bar>x\<bar> < 2 powi (ilog2 x + 1)" using hi by (auto simp: e not_le)
qed

lemma rnd_error: "\<bar>rnd x - x\<bar> \<le> \<bar>x\<bar> / 2 ^ 53"
proof (cases "x = 0")
  case True
  then show ?thesis by (simp add: rnd_def)
next
  case False
  define u :: rat where "u = 2 powi (ilog2 x - 52)"
  have u: "0 < u" by (simp add: u_def)
  have r: "rnd x = of_int (rnd_even (x / u)) * u"
    using False by (simp add: rnd_def u_def Let_def)
  have "rnd x - x = (of_int (rnd_even (x / u)) - x / u) * u"
    using u by (simp add: r field_simps)
  then have "\<bar>rnd x - x\<bar> = \<bar>of_int (rnd_even (x / u)) - x / u\<bar> * u"
    using u by (simp add: abs_mult)
  also have "\<dots> \<le> 1 / 2 * u"
    using rnd_even_error [of "x / u"] u by (intro mult_right_mono) auto
  also have "u = 2 powi ilog2 x / 2 ^ 52"
    by (simp add: u_def power_int_diff)
  also have "1 / 2 * (2 powi ilog2 x / 2 ^ 52) \<le> 1 / 2 * (\<bar>x\<bar> / 2 ^ 52)"
    using ilog2_bounds(1) [OF False] by (simp add: divide_right_mono)
  finally show ?thesis by simp
qed

lemma rnd_error_le:
  assumes "\<bar>x\<bar> \<le> M"
  shows "\<bar>rnd x - x\<bar> \<le> M / 2 ^ 53"
  using rnd_error [of x] assms by (simp add: field_simps)

lemma rnd_even_of_int: "rnd_even (of_int k) = k"
  by (simp add: rnd_even_def)

lemma rnd_exact:
  assumes "\<bar>m\<bar> < 2 ^ 53"
  shows "rnd (of_int m * 2 powi e) = of_int m * 2 powi e"
proof (cases "m = 0")
  case True
  then show ?thesis by (simp add: rnd_def)
next
  case False
  define x :: rat where "x = of_int m * 2 powi e"
  have x0: "x \<noteq> 0" using False by (simp add: x_def)
  have "\<bar>x\<bar> = of_int \<bar>m\<bar> * 2 powi e"
    by (simp add: x_def abs_mult)
  also have "\<dots> < 2 ^ 53 * 2 powi e"
  proof -
    have "(of_int \<bar>m\<bar> :: rat) < of_int (2 ^ 53)"
      using assms by (simp only: of_int_less_iff)
    then show ?thesis by (simp add: mult_strict_right_mono)
  qed
  also have "\<dots> = 2 powi (53 + e)"
    by (simp add: power_int_add)
  finally have "2 powi ilog2 x < (2::rat) powi (53 + e)"
    using ilog2_bounds(1) [OF x0] by simp
  then have "ilog2 x < 53 + e"
    using power_int_increasing [of "53 + e" "ilog2 x" "2::rat"] by (cases "ilog2 x < 53 + e") auto
  then have "0 \<le> e - (ilog2 x - 52)" by simp
  then obtain d :: nat where d: "e - (ilog2 x - 52) = int d"
    using nonneg_int_cases by blast
  define u :: rat where "u = 2 powi (ilog2 x - 52)"
  have u: "0 < u" by (simp add: u_def)
  have "x / u = of_int m * (2 powi e / 2 powi (ilog2 x - 52))"
    by (simp add: x_def u_def)
  also have "2 powi e / 2 powi (ilog2 x - 52) = (2::rat) powi (e - (ilog2 x - 52))"
    by (simp only: power_int_diff [of "2::rat", simplified])
  also have "\<dots> = 2 ^ d" by (simp add: d)
  finally have xu: "x / u = of_int (m * 2 ^ d)" by simp
  have "rnd x = of_int (rnd_even (x / u)) * u"
    using x0 by (simp add: rnd_def u_def Let_def)
  also have "\<dots> = x / u * u" by (simp only: xu rnd_even_of_int)
  also have "\<dots> = x" using u by simp
  finally show ?thesis by (simp add: x_def)
qed

lemma rnd_of_int: "\<bar>m\<bar> < 2 ^ 53 \<Longrightarrow> rnd (of_int m) = of_int m"
  using rnd_exact [of m 0] by simp

lemma rnd_dyadic: "\<bar>m\<bar> < 2 ^ 53 \<Longrightarrow> rnd (of_int m / 2 ^ k) = of_int m / 2 ^ k"
  using rnd_exact [of m "- int k"] by (simp add: power_int_minus field_simps)


section \<open>Reading and writing mapped registers\<close>

lemma rd_wr: "rd (wr r v (Mapped m)) r' = Some (if r' = r then v else m r')"
  by (simp add: rd_def wr_def)

lemma wr_Mapped: "wr r v (Mapped m) = Mapped (m(r := v))"
  by (simp add: wr_def)

lemma rd_Mapped: "rd (Mapped m) r = Some (m r)"
  by (simp add: rd_def)

lemma wr_not_Mapped: "wr r v Null = Fault" "wr r v Fault = Fault"
  by (simp_all add: wr_def)

lemma modify_Mapped: "modify r f (Mapped m) = Mapped (m(r := f (m r)))"
  by (simp add: modify_def)

lemma modify_not_Mapped: "modify r f Null = Fault" "modify r f Fault = Fault"
  by (simp_all add: modify_def)

lemma reading_Mapped: "reading r k (Mapped m) = k (m r) (Mapped m)"
  by (simp add: reading_def)

lemma reading_not_Mapped: "reading r k Null = Fault" "reading r k Fault = Fault"
  by (simp_all add: reading_def)


lemma seq_Fault: "list_all (\<lambda>f. f Fault = Fault) fs \<Longrightarrow> seq fs Fault = Fault"
  by (induction fs) simp_all


section \<open>The gain encoding\<close>

lemma rnd_numeral: "(numeral n :: int) < 2 ^ 53 \<Longrightarrow> rnd (numeral n) = numeral n"
  using rnd_of_int [of "numeral n"] by simp

lemma lin_bitfield:
  assumes "0 < g" "g < 80"
  shows "dadd (1 / 2) (ddiv (dmul (d_of_int g) (d_of_int 0xffff)) 80)
         = of_int (g * 13107 + 8) / 2 ^ 4"
proof -
  have g: "\<bar>g\<bar> < 2 ^ 53" "\<bar>g * 65535\<bar> < 2 ^ 53" "\<bar>g * 13107\<bar> < 2 ^ 53" "\<bar>g * 13107 + 8\<bar> < 2 ^ 53"
    using assms by simp_all
  have a: "d_of_int g = of_int g" "d_of_int 0xffff = 65535"
    using g(1) by (simp_all add: d_of_int_def rnd_of_int rnd_numeral)
  have "(of_int g * 65535 :: rat) = of_int (g * 65535)" by simp
  then have "dmul (d_of_int g) (d_of_int 0xffff) = rnd (of_int (g * 65535))"
    by (simp only: dmul_def a)
  also have "\<dots> = of_int (g * 65535)"
    using g(2) by (rule rnd_of_int)
  finally have b: "dmul (d_of_int g) (d_of_int 0xffff) = of_int (g * 65535)" .
  have "(of_int (g * 65535) / 80 :: rat) = of_int (g * 13107) / 2 ^ 4"
    by simp
  then have "ddiv (of_int (g * 65535)) 80 = rnd (of_int (g * 13107) / 2 ^ 4)"
    by (simp only: ddiv_def)
  also have "\<dots> = of_int (g * 13107) / 2 ^ 4"
    using g(3) by (rule rnd_dyadic)
  finally have c: "ddiv (of_int (g * 65535)) 80 = of_int (g * 13107) / 2 ^ 4" .
  have "(1 / 2 + of_int (g * 13107) / 2 ^ 4 :: rat) = of_int (g * 13107 + 8) / 2 ^ 4"
    by simp
  then have "dadd (1 / 2) (of_int (g * 13107) / 2 ^ 4) = rnd (of_int (g * 13107 + 8) / 2 ^ 4)"
    by (simp only: dadd_def)
  also have "\<dots> = of_int (g * 13107 + 8) / 2 ^ 4"
    using g(4) by (rule rnd_dyadic)
  finally show ?thesis by (simp only: b c)
qed

lemma lin_round:
  assumes "0 < g"
  shows "round_half_away (of_int g * 0xffff / 80) = (g * 13107 + 8) div 16"
proof -
  have "(of_int g * 0xffff / 80 + 1 / 2 :: rat) = of_int (g * 13107 + 8) / of_int 16"
    by (simp add: field_simps)
  then have "\<lfloor>(of_int g * 0xffff / 80 + 1 / 2 :: rat)\<rfloor> = (g * 13107 + 8) div 16"
    by (simp only: floor_divide_of_int_eq)
  then show ?thesis using assms by (simp add: round_half_away_def)
qed

lemma lin_d2u32:
  assumes "0 < g" "g < 80"
  shows "d2u32 (dadd (1 / 2) (ddiv (dmul (d_of_int g) (d_of_int 0xffff)) 80))
         = word_of_int (round_half_away (of_int g * 0xffff / 80))"
proof -
  have "\<lfloor>(of_int (g * 13107 + 8) / 2 ^ 4 :: rat)\<rfloor> = (g * 13107 + 8) div 16"
    using floor_divide_of_int_eq [of "g * 13107 + 8" 16, where ?'a = rat] by simp
  moreover have "(0::rat) \<le> of_int (g * 13107 + 8) / 2 ^ 4" using assms by simp
  ultimately have "dtrunc (of_int (g * 13107 + 8) / 2 ^ 4) = (g * 13107 + 8) div 16"
    by (simp only: dtrunc_def if_True)
  then show ?thesis
    by (simp only: d2u32_def lin_bitfield [OF assms] lin_round [OF assms(1)])
qed

lemma rx_boost_d2u32:
  assumes "80 \<le> g" "g \<le> 100"
  shows "d2u32 (dadd (1 / 2) (dmul (d_of_int (g - 80)) (ddiv 5 20)))
         = word_of_int (round_half_away (of_int (g - 80) * 5 / 20))"
proof -
  define n where "n = g - 80"
  have n: "0 \<le> n" "n \<le> 20" using assms by (simp_all add: n_def)
  then have b: "\<bar>n\<bar> < 2 ^ 53" "\<bar>n + 2\<bar> < 2 ^ 53" "\<bar>1::int\<bar> < 2 ^ 53" by simp_all
  have a: "d_of_int n = of_int n"
    using b(1) by (simp add: d_of_int_def rnd_of_int)
  have "(5 / 20 :: rat) = of_int 1 / 2 ^ 2" by simp
  then have "ddiv 5 20 = rnd (of_int 1 / 2 ^ 2)" by (simp only: ddiv_def)
  also have "\<dots> = of_int 1 / 2 ^ 2" using b(3) by (rule rnd_dyadic)
  finally have q: "ddiv 5 20 = of_int 1 / 2 ^ 2" .
  have "(of_int n * (of_int 1 / 2 ^ 2) :: rat) = of_int n / 2 ^ 2" by simp
  then have "dmul (of_int n) (of_int 1 / 2 ^ 2) = rnd (of_int n / 2 ^ 2)"
    by (simp only: dmul_def)
  also have "\<dots> = of_int n / 2 ^ 2" using b(1) by (rule rnd_dyadic)
  finally have c: "dmul (of_int n) (of_int 1 / 2 ^ 2) = of_int n / 2 ^ 2" .
  have "(1 / 2 + of_int n / 2 ^ 2 :: rat) = of_int (n + 2) / 2 ^ 2" by simp
  then have "dadd (1 / 2) (of_int n / 2 ^ 2) = rnd (of_int (n + 2) / 2 ^ 2)"
    by (simp only: dadd_def)
  also have "\<dots> = of_int (n + 2) / 2 ^ 2" using b(2) by (rule rnd_dyadic)
  finally have d: "dadd (1 / 2) (of_int n / 2 ^ 2) = of_int (n + 2) / 2 ^ 2" .
  have f: "\<lfloor>(of_int (n + 2) / 2 ^ 2 :: rat)\<rfloor> = (n + 2) div 4"
    using floor_divide_of_int_eq [of "n + 2" 4, where ?'a = rat] by simp
  have "(0::rat) \<le> of_int (n + 2) / 2 ^ 2" using n by simp
  with f have t: "dtrunc (of_int (n + 2) / 2 ^ 2) = (n + 2) div 4"
    by (simp only: dtrunc_def if_True)
  have "(of_int n * 5 / 20 + 1 / 2 :: rat) = of_int (n + 2) / of_int 4"
    by (simp add: field_simps)
  then have "\<lfloor>(of_int n * 5 / 20 + 1 / 2 :: rat)\<rfloor> = (n + 2) div 4"
    by (simp only: floor_divide_of_int_eq)
  then have r: "round_half_away (of_int n * 5 / 20) = (n + 2) div 4"
    using n by (simp add: round_half_away_def)
  show ?thesis
    unfolding n_def [symmetric] by (simp only: d2u32_def a q c d t r)
qed

lemma round_lin_bounds:
  assumes "0 < g" "g \<le> 80"
  shows "0 \<le> round_half_away (of_int g * 0xffff / 80)"
    "round_half_away (of_int g * 0xffff / 80) \<le> 0xffff"
proof -
  have "(g * 13107 + 8) div 16 \<le> (80 * 13107 + 8) div 16"
    using assms by (intro zdiv_mono1) simp_all
  moreover have "0 \<le> (g * 13107 + 8) div 16"
    using assms by (simp add: pos_imp_zdiv_nonneg_iff)
  ultimately show "0 \<le> round_half_away (of_int g * 0xffff / 80)"
    "round_half_away (of_int g * 0xffff / 80) \<le> 0xffff"
    unfolding lin_round [OF assms(1)] by simp_all
qed

lemma low16_word_of_int:
  assumes "0 \<le> k" "k \<le> 0xffff"
  shows "(0xffff :: u32) AND word_of_int k = word_of_int k" "drop_bit 16 (word_of_int k :: u32) = 0"
proof -
  have "take_bit 16 k = k" using assms by (simp add: take_bit_int_eq_self)
  then have w: "(word_of_int k :: u32) = take_bit 16 (word_of_int k)"
    by (metis take_bit_of_int) 
  have m: "(0xffff :: u32) = mask 16" by (simp add: mask_eq_exp_minus_1)
  show "(0xffff :: u32) AND word_of_int k = word_of_int k"
    by (subst (2) w, simp only: m take_bit_eq_mask and.commute)
  show "drop_bit 16 (word_of_int k :: u32) = 0"
    by (subst w, simp add: drop_bit_take_bit)
qed

lemma boost_field:
  assumes "0 \<le> b" "b \<le> 0xffff"
  shows "drop_bit 16 (push_bit 16 (word_of_int b :: u32) OR 0xffff) = word_of_int b"
    "take_bit 16 (push_bit 16 (word_of_int b :: u32) OR 0xffff) = 0xffff"
proof -
  have m: "(0xffff :: u32) = mask 16" by (simp add: mask_eq_exp_minus_1)
  have "take_bit 16 b = b" using assms by (simp add: take_bit_int_eq_self)
  then have w: "(word_of_int b :: u32) = take_bit 16 (word_of_int b)"
    by (metis take_bit_of_int)
  show "drop_bit 16 (push_bit 16 (word_of_int b :: u32) OR 0xffff) = word_of_int b"
    apply (subst (2) w)
    apply (rule bit_eqI)
    apply (auto simp add: m bit_simps)
    done
  show "take_bit 16 (push_bit 16 (word_of_int b :: u32) OR 0xffff) = 0xffff"
    apply (rule bit_eqI)
    apply (auto simp add: m bit_simps)
    done
qed


lemma round_tx_boost_bounds:
  assumes "80 \<le> g" "g \<le> 100"
  shows "0 \<le> round_half_away (of_int (g - 80) * 7 / 20)"
    "round_half_away (of_int (g - 80) * 7 / 20) \<le> 0xffff"
proof -
  have "(of_int (g - 80) * 7 / 20 + 1 / 2 :: rat) = of_int ((g - 80) * 7 + 10) / of_int 20"
    by (simp add: field_simps)
  then have "\<lfloor>(of_int (g - 80) * 7 / 20 + 1 / 2 :: rat)\<rfloor> = ((g - 80) * 7 + 10) div 20"
    by (simp only: floor_divide_of_int_eq)
  moreover have "(0::rat) \<le> of_int (g - 80) * 7 / 20" using assms by simp
  ultimately have r: "round_half_away (of_int (g - 80) * 7 / 20) = ((g - 80) * 7 + 10) div 20"
    by (simp only: round_half_away_def if_True)
  have "((g - 80) * 7 + 10) div 20 \<le> ((100 - 80) * 7 + 10) div 20"
    using assms by (intro zdiv_mono1) simp_all
  moreover have "0 \<le> ((g - 80) * 7 + 10) div 20"
    using assms by (simp add: pos_imp_zdiv_nonneg_iff)
  ultimately show "0 \<le> round_half_away (of_int (g - 80) * 7 / 20)"
    "round_half_away (of_int (g - 80) * 7 / 20) \<le> 0xffff"
    unfolding r by simp_all
qed

lemma round_rx_boost_bounds:
  assumes "80 \<le> g" "g \<le> 100"
  shows "0 \<le> round_half_away (of_int (g - 80) * 5 / 20)"
    "round_half_away (of_int (g - 80) * 5 / 20) \<le> 0xffff"
proof -
  have "(of_int (g - 80) * 5 / 20 + 1 / 2 :: rat) = of_int ((g - 80) * 5 + 10) / of_int 20"
    by (simp add: field_simps)
  then have "\<lfloor>(of_int (g - 80) * 5 / 20 + 1 / 2 :: rat)\<rfloor> = ((g - 80) * 5 + 10) div 20"
    by (simp only: floor_divide_of_int_eq)
  moreover have "(0::rat) \<le> of_int (g - 80) * 5 / 20" using assms by simp
  ultimately have r: "round_half_away (of_int (g - 80) * 5 / 20) = ((g - 80) * 5 + 10) div 20"
    by (simp only: round_half_away_def if_True)
  have "((g - 80) * 5 + 10) div 20 \<le> ((100 - 80) * 5 + 10) div 20"
    using assms by (intro zdiv_mono1) simp_all
  moreover have "0 \<le> ((g - 80) * 5 + 10) div 20"
    using assms by (simp add: pos_imp_zdiv_nonneg_iff)
  ultimately show "0 \<le> round_half_away (of_int (g - 80) * 5 / 20)"
    "round_half_away (of_int (g - 80) * 5 / 20) \<le> 0xffff"
    unfolding r by simp_all
qed

lemma tx_muxin_gain_reg:
  "rd (fpga_rb_set_tx_muxin_gain g ofs (Mapped m)) reg_tx_muxin_gain =
     Some (let g = (if 100 < g then 100 else g) in
           if g \<le> 0 then 0
           else if g < 80 then 0xffff AND d2u32 (dadd (1 / 2) (ddiv (dmul (d_of_int g) (d_of_int 0xffff)) 80))
           else push_bit 16 (d2u32 (dadd (1 / 2) (dmul (d_of_int (g - 80)) (ddiv 7 20)))) OR 0xffff)"
  by (simp add: fpga_rb_set_tx_muxin_gain_def Let_def wr_Mapped rd_Mapped)

lemma rx_muxin_gain_reg:
  "rd (fpga_rb_set_rx_muxin_gain g ofs (Mapped m)) reg_rx_muxin_gain =
     Some (let g = (if 100 < g then 100 else g) in
           if g \<le> 0 then 0
           else if g < 80 then 0xffff AND d2u32 (dadd (1 / 2) (ddiv (dmul (d_of_int g) (d_of_int 0xffff)) 80))
           else push_bit 16 (d2u32 (dadd (1 / 2) (dmul (d_of_int (g - 80)) (ddiv 5 20)))) OR 0xffff)"
  by (simp add: fpga_rb_set_rx_muxin_gain_def Let_def wr_Mapped rd_Mapped)

lemma round_half_away_0: "round_half_away 0 = 0"
  by (simp add: round_half_away_def floor_eq_iff)

lemma round_80: "round_half_away (of_int 80 * 0xffff / 80) = 0xffff"
  using lin_round [of 80] by simp

lemma tx_boost_all: "list_all tx_boost_agrees [0..20]"
  by code_simp

lemma tx_boost_d2u32:
  assumes "80 \<le> g" "g \<le> 100"
  shows "d2u32 (dadd (1 / 2) (dmul (d_of_int (g - 80)) (ddiv 7 20)))
         = word_of_int (round_half_away (of_int (g - 80) * 7 / 20))"
proof -
  have "g - 80 \<in> set [0..20]" using assms by simp
  with tx_boost_all have "tx_boost_agrees (g - 80)"
    by (simp only: list_all_iff)
  then show ?thesis by (simp only: tx_boost_agrees_def d2u32_def)
qed

lemma round_half_away_of_int: "round_half_away (of_int k) = k"
  by (simp add: round_half_away_def floor_eq_iff ceiling_eq_iff)

lemma round_half_away_numeral: "round_half_away (numeral n) = numeral n"
  using round_half_away_of_int [of "numeral n"] by simp

text \<open>
  C3 (amended). For a gain \<open>g > 0\<close> percent, \<^verbatim>\<open>fpga_rb_set_tx_muxin_gain\<close> and
  \<^verbatim>\<open>fpga_rb_set_rx_muxin_gain\<close> write, up to 80 percent, the linear encoding
  \<open>round (g * 0xffff / 80)\<close> with no booster bit set; from 80 to 100 percent the low 16
  bits \<open>0xffff\<close> and, in the bits above, the booster field \<open>round ((g - 80) * 7 / 20)\<close> on
  the TX path and \<open>round ((g - 80) * 5 / 20)\<close> on the RX path; and above 100 percent what
  they write for 100 percent.
\<close>

theorem muxin_gain_linear_then_booster:
  assumes "0 < g"
  shows
    "(g \<le> 80 \<longrightarrow>
        (\<exists>v. rd (fpga_rb_set_tx_muxin_gain g ofs (Mapped m)) reg_tx_muxin_gain = Some v
           \<and> v = word_of_int (round_half_away (of_int g * 0xffff / 80))
           \<and> drop_bit 16 v = 0)
      \<and> (\<exists>v. rd (fpga_rb_set_rx_muxin_gain g ofs (Mapped m)) reg_rx_muxin_gain = Some v
           \<and> v = word_of_int (round_half_away (of_int g * 0xffff / 80))
           \<and> drop_bit 16 v = 0))
   \<and> (80 < g \<and> g \<le> 100 \<longrightarrow>
        (\<exists>v. rd (fpga_rb_set_tx_muxin_gain g ofs (Mapped m)) reg_tx_muxin_gain = Some v
           \<and> take_bit 16 v = 0xffff
           \<and> drop_bit 16 v = word_of_int (round_half_away (of_int (g - 80) * 7 / 20)))
      \<and> (\<exists>v. rd (fpga_rb_set_rx_muxin_gain g ofs (Mapped m)) reg_rx_muxin_gain = Some v
           \<and> take_bit 16 v = 0xffff
           \<and> drop_bit 16 v = word_of_int (round_half_away (of_int (g - 80) * 5 / 20))))
   \<and> (100 < g \<longrightarrow>
        fpga_rb_set_tx_muxin_gain g ofs = fpga_rb_set_tx_muxin_gain 100 ofs
      \<and> fpga_rb_set_rx_muxin_gain g ofs = fpga_rb_set_rx_muxin_gain 100 ofs)"
proof (intro conjI impI)
  assume g: "g \<le> 80"
  let ?L = "round_half_away (of_int g * 0xffff / 80)"
  note b = round_lin_bounds [OF assms g]
  have *: "(if g < 80 then 0xffff AND d2u32 (dadd (1 / 2) (ddiv (dmul (d_of_int g) (d_of_int 0xffff)) 80))
           else push_bit 16 (d2u32 (dadd (1 / 2) (dmul (d_of_int (g - 80)) (ddiv k 20)))) OR 0xffff)
         = (word_of_int ?L :: u32)" if "k = 7 \<or> k = 5" for k
  proof (cases "g < 80")
    case True
    then show ?thesis
      using lin_d2u32 [OF assms True] low16_word_of_int(1) [OF b] by simp
  next
    case False
    with g have "g = 80" by simp
    moreover have "d2u32 (dadd (1 / 2) (dmul (d_of_int (80 - 80)) (ddiv k 20))) = 0"
      using that tx_boost_d2u32 [of 80] rx_boost_d2u32 [of 80] by (auto simp: round_half_away_0)
    ultimately show ?thesis by (simp add: round_half_away_numeral)
  qed
  show "\<exists>v. rd (fpga_rb_set_tx_muxin_gain g ofs (Mapped m)) reg_tx_muxin_gain = Some v
           \<and> v = word_of_int ?L \<and> drop_bit 16 v = 0"
    using assms g * [of 7] low16_word_of_int(2) [OF b] by (simp add: tx_muxin_gain_reg)
  show "\<exists>v. rd (fpga_rb_set_rx_muxin_gain g ofs (Mapped m)) reg_rx_muxin_gain = Some v
           \<and> v = word_of_int ?L \<and> drop_bit 16 v = 0"
    using assms g * [of 5] low16_word_of_int(2) [OF b] by (simp add: rx_muxin_gain_reg)
next
  assume g: "80 < g \<and> g \<le> 100"
  then have g': "80 \<le> g" "g \<le> 100" by simp_all
  show "\<exists>v. rd (fpga_rb_set_tx_muxin_gain g ofs (Mapped m)) reg_tx_muxin_gain = Some v
           \<and> take_bit 16 v = 0xffff
           \<and> drop_bit 16 v = word_of_int (round_half_away (of_int (g - 80) * 7 / 20))"
    using g boost_field [OF round_tx_boost_bounds [OF g']]
    by (simp add: tx_muxin_gain_reg tx_boost_d2u32 [OF g'])
  show "\<exists>v. rd (fpga_rb_set_rx_muxin_gain g ofs (Mapped m)) reg_rx_muxin_gain = Some v
           \<and> take_bit 16 v = 0xffff
           \<and> drop_bit 16 v = word_of_int (round_half_away (of_int (g - 80) * 5 / 20))"
    using g boost_field [OF round_rx_boost_bounds [OF g']]
    by (simp add: rx_muxin_gain_reg rx_boost_d2u32 [OF g'])
next
  assume "100 < g"
  then show "fpga_rb_set_tx_muxin_gain g ofs = fpga_rb_set_tx_muxin_gain 100 ofs"
    by (simp add: fpga_rb_set_tx_muxin_gain_def)
next
  assume "100 < g"
  then show "fpga_rb_set_rx_muxin_gain g ofs = fpga_rb_set_rx_muxin_gain 100 ofs"
    by (simp add: fpga_rb_set_rx_muxin_gain_def)
qed

text \<open>The theorem at 90 percent: the booster fields are 4 (TX) and 3 (RX).\<close>

theorem muxin_gain_linear_then_booster_witness:
  "(0::int) < 90
   \<and> (\<exists>v. rd (fpga_rb_set_tx_muxin_gain 90 0 (Mapped zero_regs)) reg_tx_muxin_gain = Some v
         \<and> take_bit 16 v = 0xffff \<and> drop_bit 16 v = 4)
   \<and> (\<exists>v. rd (fpga_rb_set_rx_muxin_gain 90 0 (Mapped zero_regs)) reg_rx_muxin_gain = Some v
         \<and> take_bit 16 v = 0xffff \<and> drop_bit 16 v = 3)"
proof -
  have r: "round_half_away (of_int (90 - 80) * 7 / 20) = 4"
    "round_half_away (of_int (90 - 80) * 5 / 20) = 3"
    by (simp_all add: round_half_away_def floor_eq_iff)
  have h: "(0::int) < 90" by simp
  show ?thesis
    using muxin_gain_linear_then_booster [OF h, of 0 zero_regs] unfolding r by simp
qed

text \<open>
  C3 as stated fails above 100 percent, where the gain is clamped: at 102 percent the
  booster field on the TX path is 7, while \<open>round ((102 - 80) * 7 / 20)\<close> is 8.
\<close>

theorem muxin_gain_booster_counterexample:
  "rd (fpga_rb_set_tx_muxin_gain 102 0 (Mapped zero_regs)) reg_tx_muxin_gain = Some 0x0007ffff
   \<and> drop_bit 16 (0x0007ffff :: u32) = 7
   \<and> round_half_away (of_int (102 - 80) * 7 / 20) = 8"
proof -
  have g: "(80::int) \<le> 100" "(100::int) \<le> 100" by simp_all
  have "round_half_away (of_int (100 - 80) * 7 / 20) = 7"
    by (simp add: round_half_away_numeral)
  then have "d2u32 (dadd (1 / 2) (dmul (d_of_int (100 - 80)) (ddiv 7 20))) = 7"
    using tx_boost_d2u32 [OF g] by simp
  then have "rd (fpga_rb_set_tx_muxin_gain 102 0 (Mapped zero_regs)) reg_tx_muxin_gain
      = Some 0x0007ffff"
    by (simp add: tx_muxin_gain_reg)
  moreover have "round_half_away (of_int (102 - 80) * 7 / 20) = 8"
    by (simp add: round_half_away_def floor_eq_iff)
  ultimately show ?thesis by simp
qed


section \<open>The frequency encoding\<close>

lemma dds_bits_lsb: "dds_bits 125000000 (- 1700) = (0x1BD471DE, 0xFFFFFFFF)"
  by code_simp

lemma tx_mod_osc_qrg_bits:
  "fpga_rb_set_tx_mod_osc_qrg__4mod_ssbweaver_am_fm_pm base f =
     seq [wr reg_tx_mod_osc_inc_lo (fst (dds_bits base f)),
          wr reg_tx_mod_osc_inc_hi (snd (dds_bits base f)),
          wr reg_tx_mod_osc_ofs_lo 0, wr reg_tx_mod_osc_ofs_hi 0]"
  by (simp add: fpga_rb_set_tx_mod_osc_qrg__4mod_ssbweaver_am_fm_pm_def dds_bits_def Let_def)

lemma tx_car_osc_qrg_bits:
  "fpga_rb_set_tx_car_osc_qrg__4mod_cw_ssb_am_pm base f =
     seq [wr reg_tx_car_osc_inc_lo (fst (dds_bits base f)),
          wr reg_tx_car_osc_inc_hi (snd (dds_bits base f)),
          wr reg_tx_car_osc_ofs_lo 0, wr reg_tx_car_osc_ofs_hi 0]"
  by (simp add: fpga_rb_set_tx_car_osc_qrg__4mod_cw_ssb_am_pm_def dds_bits_def Let_def)

lemma rx_car_osc_qrg_bits:
  "fpga_rb_set_rx_car_osc_qrg__4mod_ssb_am_fm_pm base f =
     seq [wr reg_rx_car_osc_inc_lo (fst (dds_bits base f)),
          wr reg_rx_car_osc_inc_hi (snd (dds_bits base f)),
          wr reg_rx_car_osc_ofs_lo 0, wr reg_rx_car_osc_ofs_hi 0]"
  by (simp add: fpga_rb_set_rx_car_osc_qrg__4mod_ssb_am_fm_pm_def dds_bits_def Let_def)

lemma inc_value_lsb: "inc_value (0x1BD471DE, 0xFFFFFFFF) = - 3828059682"
  by (simp add: inc_value_def)

lemma spec_dds_inc_lsb: "spec_dds_inc (- 1700) 125000000 = - 3828059683"
  by (simp add: spec_dds_inc_def round_half_away_def ceiling_eq_iff)

text \<open>
  C1, at the frequency -1700 Hz (which \<^verbatim>\<open>fpga_rb_set_ctrl\<close> passes for LSB) and a base
  oscillator of 125 MHz. The exact increment is \<open>-1700 / 125000000 * 2 ^ 48 =
  -3828059683.26...\<close>; rounded symmetrically it is \<open>-3828059683\<close>. The setters write the
  register pair \<open>0xFFFFFFFF:0x1BD471DE\<close>, which is \<open>-3828059682\<close>: for a negative
  increment \<^verbatim>\<open>qrg -= -0.5\<close> adds one half, and the conversion to \<^verbatim>\<open>int64_t\<close> then
  truncates towards zero.
\<close>

theorem dds_inc_negative_not_symmetric:
  "fpga_rb_set_tx_mod_osc_qrg__4mod_ssbweaver_am_fm_pm 125000000 (- 1700) (Mapped m) =
     Mapped (m(reg_tx_mod_osc_inc_lo := 0x1BD471DE, reg_tx_mod_osc_inc_hi := 0xFFFFFFFF,
               reg_tx_mod_osc_ofs_lo := 0, reg_tx_mod_osc_ofs_hi := 0))
   \<and> fpga_rb_set_tx_car_osc_qrg__4mod_cw_ssb_am_pm 125000000 (- 1700) (Mapped m) =
     Mapped (m(reg_tx_car_osc_inc_lo := 0x1BD471DE, reg_tx_car_osc_inc_hi := 0xFFFFFFFF,
               reg_tx_car_osc_ofs_lo := 0, reg_tx_car_osc_ofs_hi := 0))
   \<and> fpga_rb_set_rx_car_osc_qrg__4mod_ssb_am_fm_pm 125000000 (- 1700) (Mapped m) =
     Mapped (m(reg_rx_car_osc_inc_lo := 0x1BD471DE, reg_rx_car_osc_inc_hi := 0xFFFFFFFF,
               reg_rx_car_osc_ofs_lo := 0, reg_rx_car_osc_ofs_hi := 0))
   \<and> inc_value (0x1BD471DE, 0xFFFFFFFF) = - 3828059682
   \<and> spec_dds_inc (- 1700) 125000000 = - 3828059683"
  by (simp add: tx_mod_osc_qrg_bits tx_car_osc_qrg_bits rx_car_osc_qrg_bits dds_bits_lsb
      wr_Mapped inc_value_lsb spec_dds_inc_lsb)


section \<open>The calibration search\<close>

lemma test_rx_measurement_Mapped:
  "test_rx_measurement cordic ofs red (Mapped m) =
     (measured cordic ofs red,
      Mapped (m(reg_rx_muxin_ofs := word_of_int ofs,
                reg_rx_muxin_gain := drop_bit (nat red) 0x0000ffff)))"
  by (simp add: test_rx_measurement_def measured_def Let_def wr_Mapped)

lemma minimize_loop_step:
  "\<exists>m'. minimize_loop cordic (Suc j) (v, Mapped m)
         = minimize_loop cordic j (sar_step (measured cordic) v (Suc j), Mapped m')"
  by (auto simp add: test_rx_measurement_Mapped sar_step_def reduction_at_def Let_def
      set_bit_eq_or)

lemma minimize_loop_fold:
  "\<exists>m'. minimize_loop cordic n (v, Mapped m)
         = (foldl (sar_step (measured cordic)) v (rev [1..<Suc n]), Mapped m')"
proof (induction n arbitrary: v m)
  case 0
  show ?case by simp
next
  case (Suc n)
  obtain m1 where s: "minimize_loop cordic (Suc n) (v, Mapped m)
      = minimize_loop cordic n (sar_step (measured cordic) v (Suc n), Mapped m1)"
    using minimize_loop_step by blast
  obtain m2 where "minimize_loop cordic n (sar_step (measured cordic) v (Suc n), Mapped m1)
      = (foldl (sar_step (measured cordic)) (sar_step (measured cordic) v (Suc n)) (rev [1..<Suc n]),
         Mapped m2)"
    using Suc.IH by blast
  with s show ?case by (auto simp del: minimize_loop.simps)
qed

lemma rev_upt_15: "rev [1..<Suc 15] = [15, 14, 13, 12, 11, 10, 9, 8, 7, 6, 5, 4, 3, 2, 1]"
  by code_simp

lemma sint_shifted: "sint (word_of_int (uint (w :: u16) - 0x8000) :: u16) = uint w - 0x8000"
proof -
  have "0 \<le> uint w" "uint w < 2 ^ 16"
    using uint_lt2p [of w] by simp_all
  then have b: "- (2 ^ 15) \<le> uint w - 0x8000" "uint w - 0x8000 < 2 ^ 15" by simp_all
  have "sint (word_of_int (uint w - 0x8000) :: u16)
      = signed_take_bit (LENGTH(16) - 1) (uint w - 0x8000)"
    by (rule sint_sbintrunc')
  also have "\<dots> = uint w - 0x8000"
    using b by (simp add: signed_take_bit_int_eq_self)
  finally show ?thesis .
qed

lemma sint_shifted': "sint (w - 32768 :: u16) = uint w - 32768"
proof -
  have "(word_of_int (uint w - 0x8000) :: u16) = w - 32768" by simp
  then show ?thesis using sint_shifted [of w] by simp
qed

text \<open>
  C2. On mapped registers, and for every hardware response \<open>cordic\<close>, the offset that
  \<^verbatim>\<open>rp_minimize_noise\<close> returns is the result of the successive approximation
  \<open>sar_search\<close> on the measurement function \<open>measured cordic\<close>: 15 steps for the bits 15
  down to 1, each comparing the two candidates and setting bit \<open>i\<close> exactly when the high
  candidate measures strictly smaller, then the decision on bit 0, then the shift by
  \<open>0x8000\<close>. The result lies in the range of \<^verbatim>\<open>int16_t\<close> and depends on nothing but the
  measurement function; in particular not on the register contents at the start.
\<close>

theorem rp_minimize_noise_is_successive_approximation:
  "fst (rp_minimize_noise cordic (Mapped m)) = sar_search (measured cordic)
   \<and> - 0x8000 \<le> sar_search (measured cordic) \<and> sar_search (measured cordic) \<le> 0x7fff
   \<and> (\<exists>m'. snd (rp_minimize_noise cordic (Mapped m)) = Mapped m')"
proof -
  define F where
    "F = foldl (sar_step (measured cordic)) 0 [15, 14, 13, 12, 11, 10, 9, 8, 7, 6, 5, 4, 3, 2, 1]"
  define W where
    "W = (if measured cordic (uint (F OR 1) - 0x8000) 0 < measured cordic (uint F - 0x8000) 0
          then F OR 1 else F)"
  obtain m' where l: "minimize_loop cordic 15 (0, Mapped m) = (F, Mapped m')"
    using minimize_loop_fold [of cordic 15 0 m] unfolding rev_upt_15 F_def by blast
  have s: "sar_search (measured cordic) = uint W - 0x8000"
    by (simp only: sar_search_def F_def W_def Let_def)
  have r: "- 0x8000 \<le> uint W - 0x8000 \<and> uint W - 0x8000 \<le> 0x7fff"
    using uint_lt2p [of W] by simp
  have "rp_minimize_noise cordic (Mapped m) =
      (sint (word_of_int (uint W - 0x8000) :: u16),
       Mapped (m'(reg_rx_muxin_ofs := word_of_int (uint (F OR 1) - 0x8000),
                  reg_rx_muxin_gain := drop_bit (nat 0) 0x0000ffff)))"
    by (simp add: rp_minimize_noise_def l test_rx_measurement_Mapped W_def Let_def)
  then show ?thesis
    using r by (simp add: s sint_shifted')
qed


section \<open>Error returns\<close>

lemma version_digits_eq:
  "version_digits v n = (if \<exists>k<n. 0x9 < (drop_bit (4 * k) v AND 0xf) then - 3 else v)"
proof (induction n)
  case 0
  show ?case by simp
next
  case (Suc n)
  then show ?case by (auto simp: less_Suc_eq)
qed

text \<open>
  C5 (amended). The failures of \<^verbatim>\<open>fpga_rb_update_all_params\<close> and of
  \<^verbatim>\<open>fpga_rb_get_fpga_params\<close> are reported by the return value and nothing else is
  done: -1 when the register pointer, \<^verbatim>\<open>pb\<close> or \<^verbatim>\<open>p_pn\<close> is null, -2 when \<^verbatim>\<open>*p_pn\<close> is
  null. \<^verbatim>\<open>fpga_get_version\<close> returns -1 for a null register pointer, -2 for a version
  outside \<open>0x12010101 .. 0x29123299\<close>, -3 for a version with a hexadecimal digit above 9,
  and the version otherwise.
\<close>

theorem failures_return_sentinels:
  "(g_fpga_rb_reg_mem G = Null \<or> (\<exists>m. g_fpga_rb_reg_mem G = Mapped m) \<and> (pb = None \<or> p_pn = None)
      \<longrightarrow> fpga_rb_update_all_params E X cordic pb p_pn G = (Some (- 1), p_pn, G)
        \<and> fpga_rb_get_fpga_params E X upd pb p_pn G = (Some (- 1), p_pn))
   \<and> ((\<exists>m. g_fpga_rb_reg_mem G = Mapped m) \<and> pb \<noteq> None \<and> p_pn = Some None
      \<longrightarrow> fpga_rb_update_all_params E X cordic pb p_pn G = (Some (- 2), p_pn, G)
        \<and> fpga_rb_get_fpga_params E X upd pb p_pn G = (Some (- 2), p_pn))
   \<and> fpga_get_version Null = Some (- 1)
   \<and> fpga_get_version (Mapped m) =
       Some (if m reg_version < 0x12010101 \<or> 0x29123299 < m reg_version then - 2
             else if \<exists>k<8. 0x9 < (drop_bit (4 * k) (m reg_version) AND 0xf) then - 3
             else m reg_version)"
  by (auto simp: fpga_rb_update_all_params_def fpga_rb_get_fpga_params_def fpga_get_version_def
      version_digits_eq Let_def split: mem.splits option.splits)

text \<open>
  C5 as stated fails for \<^verbatim>\<open>fpga_get_version\<close>: the version \<open>0x1201010A\<close> is in range but
  has the digit \<open>A\<close>, and the function returns the third sentinel -3.
\<close>

theorem fpga_get_version_third_sentinel_counterexample:
  "fpga_get_version (Mapped (zero_regs(reg_version := 0x1201010A))) = Some (- 3)
   \<and> (- 3 :: u32) \<noteq> - 1 \<and> (- 3 :: u32) \<noteq> - 2 \<and> (- 3 :: u32) \<noteq> 0x1201010A"
proof -
  have "version_digits 0x1201010A 8 = - 3" by code_simp
  then show ?thesis by (simp add: fpga_get_version_def)
qed

text \<open>The theorem on null pointers, on a null list, and on a valid version.\<close>

theorem failures_return_sentinels_witness:
  "fpga_rb_update_all_params example_enums example_extern example_cordic None None
       (example_globals Null) = (Some (- 1), None, example_globals Null)
   \<and> fpga_rb_update_all_params example_enums example_extern example_cordic (Some example_pb) (Some None)
       (example_globals (Mapped zero_regs)) = (Some (- 2), Some None, example_globals (Mapped zero_regs))
   \<and> fpga_get_version (Mapped (zero_regs(reg_version := 0x16012001))) = Some 0x16012001"
proof -
  have 1: "g_fpga_rb_reg_mem (example_globals Null) = Null"
    and 2: "\<exists>m. g_fpga_rb_reg_mem (example_globals (Mapped zero_regs)) = Mapped m"
    by (simp_all add: example_globals_def)
  have "version_digits 0x16012001 8 = 0x16012001" by code_simp
  then have 3: "\<not> (\<exists>k<8. 0x9 < (drop_bit (4 * k) (0x16012001 :: u32) AND 0xf))"
    unfolding version_digits_eq by (simp split: if_splits)
  show ?thesis
    using failures_return_sentinels [of "example_globals Null" None None example_enums
        example_extern example_cordic example_update_param "zero_regs(reg_version := 0x16012001)"]
      failures_return_sentinels [of "example_globals (Mapped zero_regs)" "Some example_pb"
        "Some None" example_enums example_extern example_cordic example_update_param zero_regs]
      1 2 3
    by simp
qed


section \<open>The null register pointer\<close>

text \<open>
  C4 (amended). The entry points \<^verbatim>\<open>fpga_rb_enable\<close>, \<^verbatim>\<open>fpga_rb_reset\<close>,
  \<^verbatim>\<open>fpga_get_version\<close>, \<^verbatim>\<open>fpga_rb_update_all_params\<close> and \<^verbatim>\<open>fpga_rb_get_fpga_params\<close>
  test the register pointer first: when it is null they return without a register access
  (the state stays \<open>Null\<close>, it does not become \<open>Fault\<close>) and change nothing.
\<close>

theorem null_pointer_checked_at_entry_points:
  "fpga_rb_enable enable Null = Null
   \<and> fpga_rb_reset Null = Null
   \<and> fpga_get_version Null = Some (- 1)
   \<and> (g_fpga_rb_reg_mem G = Null \<longrightarrow>
        fpga_rb_update_all_params E X cordic pb p_pn G = (Some (- 1), p_pn, G)
        \<and> fpga_rb_get_fpga_params E X upd pb p_pn G = (Some (- 1), p_pn))"
  by (simp add: fpga_rb_enable_def fpga_rb_reset_def fpga_get_version_def
      fpga_rb_update_all_params_def fpga_rb_get_fpga_params_def)

text \<open>The theorem on the globals of the examples, with a null register pointer.\<close>

theorem null_pointer_checked_at_entry_points_witness:
  "g_fpga_rb_reg_mem (example_globals Null) = Null
   \<and> fpga_rb_enable 1 Null = Null
   \<and> fpga_rb_update_all_params example_enums example_extern example_cordic (Some example_pb)
        (Some (Some [])) (example_globals Null)
       = (Some (- 1), Some (Some []), example_globals Null)"
proof -
  have h: "g_fpga_rb_reg_mem (example_globals Null) = Null"
    by (simp add: example_globals_def)
  show ?thesis
    using null_pointer_checked_at_entry_points [of 1 "example_globals Null" example_enums
        example_extern example_cordic "Some example_pb" "Some (Some [])" example_update_param] h
    by simp
qed

text \<open>
  C4 as stated fails: the setters and getters behind the entry points have no test of
  their own. Called with a null register pointer, \<^verbatim>\<open>fpga_rb_set_tx_muxin_gain\<close> and
  \<^verbatim>\<open>prepare_rx_measurement\<close> write through it, and \<^verbatim>\<open>fpga_rb_get_tx_car_osc_qrg\<close> reads
  through it.
\<close>

theorem setters_dereference_null_counterexample:
  "fpga_rb_set_tx_muxin_gain 50 0 Null = Fault
   \<and> prepare_rx_measurement 0x20 Null = Fault
   \<and> fpga_rb_get_tx_car_osc_qrg 125000000 Null = None"
  by (simp add: fpga_rb_set_tx_muxin_gain_def prepare_rx_measurement_def wr_not_Mapped
      fpga_rb_get_tx_car_osc_qrg_def)


section \<open>Which registers a statement writes\<close>

named_theorems wo_intros

lemma wo_wr [wo_intros]: "r \<in> W \<Longrightarrow> writes_only W (wr r v)"
  by (simp add: writes_only_def wr_Mapped)

lemma wo_modify [wo_intros]: "r \<in> W \<Longrightarrow> writes_only W (modify r g)"
  by (simp add: writes_only_def modify_Mapped)

lemma wo_skip [wo_intros]: "writes_only W skip"
  by (simp add: writes_only_def skip_def)

lemma wo_reading [wo_intros]: "(\<And>v. writes_only W (k v)) \<Longrightarrow> writes_only W (reading r k)"
  by (simp add: writes_only_def reading_Mapped)

lemma wo_seq_Nil [wo_intros]: "writes_only W (seq [])"
  by (simp add: writes_only_def)

lemma wo_seq_Cons [wo_intros]:
  assumes "writes_only W f" "writes_only W (seq fs)"
  shows "writes_only W (seq (f # fs))"
  unfolding writes_only_def
proof
  fix m
  obtain m1 where 1: "f (Mapped m) = Mapped m1" "\<forall>r. r \<notin> W \<longrightarrow> m1 r = m r"
    using assms(1) unfolding writes_only_def by blast
  obtain m2 where 2: "seq fs (Mapped m1) = Mapped m2" "\<forall>r. r \<notin> W \<longrightarrow> m2 r = m1 r"
    using assms(2) unfolding writes_only_def by blast
  from 1 2 show "\<exists>m'. seq (f # fs) (Mapped m) = Mapped m' \<and> (\<forall>r. r \<notin> W \<longrightarrow> m' r = m r)"
    by simp
qed

lemma wo_if [wo_intros]:
  "writes_only W f \<Longrightarrow> writes_only W g \<Longrightarrow> writes_only W (if c then f else g)"
  by simp

lemma wo_switch_Nil [wo_intros]: "writes_only W d \<Longrightarrow> writes_only W (switch x [] d)"
  by simp

lemma wo_switch_Cons [wo_intros]:
  "writes_only W b \<Longrightarrow> writes_only W (switch x cs d) \<Longrightarrow> writes_only W (switch x ((l, b) # cs) d)"
  by simp

lemma wo_mono: "writes_only W f \<Longrightarrow> W \<subseteq> W' \<Longrightarrow> writes_only W' f"
  unfolding writes_only_def by blast

lemma wo_tx_modtyp [wo_intros]:
  "reg_pwr_ctrl \<in> W
   \<Longrightarrow> writes_only W (fpga_rb_set_tx_modtyp t)"
  unfolding fpga_rb_set_tx_modtyp_def Let_def by (intro wo_intros)

lemma wo_tx_muxin_gain [wo_intros]:
  "reg_tx_muxin_gain \<in> W \<Longrightarrow> reg_tx_muxin_ofs \<in> W
   \<Longrightarrow> writes_only W (fpga_rb_set_tx_muxin_gain g ofs)"
  unfolding fpga_rb_set_tx_muxin_gain_def Let_def by (intro wo_intros)

lemma wo_tx_mod_osc_qrg__4mod_ssbweaver_am_fm_pm [wo_intros]:
  "reg_tx_mod_osc_inc_lo \<in> W \<Longrightarrow> reg_tx_mod_osc_inc_hi \<in> W \<Longrightarrow> reg_tx_mod_osc_ofs_lo \<in> W \<Longrightarrow> reg_tx_mod_osc_ofs_hi \<in> W
   \<Longrightarrow> writes_only W (fpga_rb_set_tx_mod_osc_qrg__4mod_ssbweaver_am_fm_pm base f)"
  unfolding fpga_rb_set_tx_mod_osc_qrg__4mod_ssbweaver_am_fm_pm_def Let_def by (intro wo_intros)

lemma wo_tx_mod_qmix_gain_ofs__4mod_cw_ssbweaver_am [wo_intros]:
  "reg_tx_mod_qmix_gain \<in> W \<Longrightarrow> reg_tx_mod_qmix_ofs_lo \<in> W \<Longrightarrow> reg_tx_mod_qmix_ofs_hi \<in> W
   \<Longrightarrow> writes_only W (fpga_rb_set_tx_mod_qmix_gain_ofs__4mod_cw_ssbweaver_am grade isOffset)"
  unfolding fpga_rb_set_tx_mod_qmix_gain_ofs__4mod_cw_ssbweaver_am_def Let_def by (intro wo_intros)

lemma wo_tx_mod_qmix_gain_ofs__4mod_fm [wo_intros]:
  "reg_tx_mod_qmix_gain \<in> W \<Longrightarrow> reg_tx_mod_qmix_ofs_lo \<in> W \<Longrightarrow> reg_tx_mod_qmix_ofs_hi \<in> W
   \<Longrightarrow> writes_only W (fpga_rb_set_tx_mod_qmix_gain_ofs__4mod_fm base f mag)"
  unfolding fpga_rb_set_tx_mod_qmix_gain_ofs__4mod_fm_def Let_def by (intro wo_intros)

lemma wo_tx_mod_qmix_gain_ofs__4mod_pm [wo_intros]:
  "reg_tx_mod_qmix_gain \<in> W \<Longrightarrow> reg_tx_mod_qmix_ofs_lo \<in> W \<Longrightarrow> reg_tx_mod_qmix_ofs_hi \<in> W
   \<Longrightarrow> writes_only W (fpga_rb_set_tx_mod_qmix_gain_ofs__4mod_pm f mag)"
  unfolding fpga_rb_set_tx_mod_qmix_gain_ofs__4mod_pm_def Let_def by (intro wo_intros)

lemma wo_tx_car_osc_qrg__4mod_cw_ssb_am_pm [wo_intros]:
  "reg_tx_car_osc_inc_lo \<in> W \<Longrightarrow> reg_tx_car_osc_inc_hi \<in> W \<Longrightarrow> reg_tx_car_osc_ofs_lo \<in> W \<Longrightarrow> reg_tx_car_osc_ofs_hi \<in> W
   \<Longrightarrow> writes_only W (fpga_rb_set_tx_car_osc_qrg__4mod_cw_ssb_am_pm base f)"
  unfolding fpga_rb_set_tx_car_osc_qrg__4mod_cw_ssb_am_pm_def Let_def by (intro wo_intros)

lemma wo_tx_car_osc_qrg_inc__4mod_cw_ssb_am_pm [wo_intros]:
  "reg_tx_car_osc_inc_scnr_lo \<in> W \<Longrightarrow> reg_tx_car_osc_inc_scnr_hi \<in> W
   \<Longrightarrow> writes_only W (fpga_rb_set_tx_car_osc_qrg_inc__4mod_cw_ssb_am_pm pow base inc)"
  unfolding fpga_rb_set_tx_car_osc_qrg_inc__4mod_cw_ssb_am_pm_def Let_def by (intro wo_intros)

lemma wo_tx_amp_rf_gain_ofs__4mod_all [wo_intros]:
  "reg_tx_amp_rf_gain \<in> W \<Longrightarrow> reg_tx_amp_rf_ofs \<in> W
   \<Longrightarrow> writes_only W (fpga_rb_set_tx_amp_rf_gain_ofs__4mod_all g ofs)"
  unfolding fpga_rb_set_tx_amp_rf_gain_ofs__4mod_all_def Let_def by (intro wo_intros)

lemma wo_rx_modtyp [wo_intros]:
  "reg_pwr_ctrl \<in> W
   \<Longrightarrow> writes_only W (fpga_rb_set_rx_modtyp t)"
  unfolding fpga_rb_set_rx_modtyp_def Let_def by (intro wo_intros)

lemma wo_rx_muxin_gain [wo_intros]:
  "reg_rx_muxin_gain \<in> W \<Longrightarrow> reg_rx_muxin_ofs \<in> W
   \<Longrightarrow> writes_only W (fpga_rb_set_rx_muxin_gain g ofs)"
  unfolding fpga_rb_set_rx_muxin_gain_def Let_def by (intro wo_intros)

lemma wo_rx_car_osc_qrg__4mod_ssb_am_fm_pm [wo_intros]:
  "reg_rx_car_osc_inc_lo \<in> W \<Longrightarrow> reg_rx_car_osc_inc_hi \<in> W \<Longrightarrow> reg_rx_car_osc_ofs_lo \<in> W \<Longrightarrow> reg_rx_car_osc_ofs_hi \<in> W
   \<Longrightarrow> writes_only W (fpga_rb_set_rx_car_osc_qrg__4mod_ssb_am_fm_pm base f)"
  unfolding fpga_rb_set_rx_car_osc_qrg__4mod_ssb_am_fm_pm_def Let_def by (intro wo_intros)

lemma wo_rx_car_osc_qrg_inc__4mod_ssb_am_fm_pm [wo_intros]:
  "reg_rx_car_osc_inc_scnr_lo \<in> W \<Longrightarrow> reg_rx_car_osc_inc_scnr_hi \<in> W
   \<Longrightarrow> writes_only W (fpga_rb_set_rx_car_osc_qrg_inc__4mod_ssb_am_fm_pm pow base inc)"
  unfolding fpga_rb_set_rx_car_osc_qrg_inc__4mod_ssb_am_fm_pm_def Let_def by (intro wo_intros)

lemma wo_rx_mod_osc_qrg__4mod_ssbweaver_am [wo_intros]:
  "reg_rx_mod_osc_inc_lo \<in> W \<Longrightarrow> reg_rx_mod_osc_inc_hi \<in> W \<Longrightarrow> reg_rx_mod_osc_ofs_lo \<in> W \<Longrightarrow> reg_rx_mod_osc_ofs_hi \<in> W
   \<Longrightarrow> writes_only W (fpga_rb_set_rx_mod_osc_qrg__4mod_ssbweaver_am base f)"
  unfolding fpga_rb_set_rx_mod_osc_qrg__4mod_ssbweaver_am_def Let_def by (intro wo_intros)

lemma wo_rx_calc_afc_weaver__4mod_am_fm_pm [wo_intros]:
  "reg_rx_car_calc_weaver_inc_lo \<in> W \<Longrightarrow> reg_rx_car_calc_weaver_inc_hi \<in> W
   \<Longrightarrow> writes_only W (fpga_rb_set_rx_calc_afc_weaver__4mod_am_fm_pm base f)"
  unfolding fpga_rb_set_rx_calc_afc_weaver__4mod_am_fm_pm_def Let_def by (intro wo_intros)

lemma wo_rx_amenv_filtvar [wo_intros]:
  "reg_rx_amenv_filtvar \<in> W
   \<Longrightarrow> writes_only W (fpga_rb_set_rx_amenv_filtvar v)"
  unfolding fpga_rb_set_rx_amenv_filtvar_def Let_def by (intro wo_intros)

lemma wo_rx_mod_ssb_am_gain__4mod_ssb_am [wo_intros]:
  "reg_rx_mod_ssb_am_gain \<in> W
   \<Longrightarrow> writes_only W (fpga_rb_set_rx_mod_ssb_am_gain__4mod_ssb_am g)"
  unfolding fpga_rb_set_rx_mod_ssb_am_gain__4mod_ssb_am_def Let_def by (intro wo_intros)

lemma wo_rx_mod_amenv_gain__4mod_amenv [wo_intros]:
  "reg_rx_mod_amenv_gain \<in> W
   \<Longrightarrow> writes_only W (fpga_rb_set_rx_mod_amenv_gain__4mod_amenv g)"
  unfolding fpga_rb_set_rx_mod_amenv_gain__4mod_amenv_def Let_def by (intro wo_intros)

lemma wo_rx_mod_fm_gain__4mod_fm [wo_intros]:
  "reg_rx_mod_fm_gain \<in> W
   \<Longrightarrow> writes_only W (fpga_rb_set_rx_mod_fm_gain__4mod_fm g)"
  unfolding fpga_rb_set_rx_mod_fm_gain__4mod_fm_def Let_def by (intro wo_intros)

lemma wo_rx_mod_pm_gain__4mod_pm [wo_intros]:
  "reg_rx_mod_pm_gain \<in> W
   \<Longrightarrow> writes_only W (fpga_rb_set_rx_mod_pm_gain__4mod_pm g)"
  unfolding fpga_rb_set_rx_mod_pm_gain__4mod_pm_def Let_def by (intro wo_intros)

lemma wo_rfout1_gain_ofs [wo_intros]:
  "reg_rfout1_gain \<in> W \<Longrightarrow> reg_rfout1_ofs \<in> W
   \<Longrightarrow> writes_only W (fpga_rb_set_rfout1_gain_ofs g ofs)"
  unfolding fpga_rb_set_rfout1_gain_ofs_def Let_def by (intro wo_intros)

lemma wo_rfout2_gain_ofs [wo_intros]:
  "reg_rfout2_gain \<in> W \<Longrightarrow> reg_rfout2_ofs \<in> W
   \<Longrightarrow> writes_only W (fpga_rb_set_rfout2_gain_ofs g ofs)"
  unfolding fpga_rb_set_rfout2_gain_ofs_def Let_def by (intro wo_intros)

lemma wo_tx_mod_resync [wo_intros]:
  "reg_ctrl \<in> W
   \<Longrightarrow> writes_only W (tx_mod_resync)"
  unfolding tx_mod_resync_def Let_def by (intro wo_intros)

lemma wo_set_ctrl_tx_modsrc:
  assumes "{reg_ctrl, reg_tx_muxin_gain, reg_tx_muxin_ofs, reg_tx_muxin_src, reg_tx_car_osc_inc_lo,
      reg_tx_car_osc_inc_hi, reg_tx_car_osc_ofs_lo, reg_tx_car_osc_ofs_hi,
      reg_tx_car_osc_inc_scnr_lo, reg_tx_car_osc_inc_scnr_hi, reg_tx_mod_qmix_gain,
      reg_tx_mod_qmix_ofs_lo, reg_tx_mod_qmix_ofs_hi} \<subseteq> W"
  shows "writes_only W (set_ctrl_tx_modsrc E pow base adc a inc)"
proof -
  have w: "reg_ctrl \<in> W" "reg_tx_muxin_gain \<in> W" "reg_tx_muxin_ofs \<in> W" "reg_tx_muxin_src \<in> W" "reg_tx_car_osc_inc_lo \<in> W" "reg_tx_car_osc_inc_hi \<in> W" "reg_tx_car_osc_ofs_lo \<in> W" "reg_tx_car_osc_ofs_hi \<in> W" "reg_tx_car_osc_inc_scnr_lo \<in> W" "reg_tx_car_osc_inc_scnr_hi \<in> W" "reg_tx_mod_qmix_gain \<in> W" "reg_tx_mod_qmix_ofs_lo \<in> W" "reg_tx_mod_qmix_ofs_hi \<in> W"
    using assms by simp_all
  show ?thesis
    unfolding set_ctrl_tx_modsrc_def Let_def by (intro wo_intros w)
qed

lemma wo_set_ctrl_tx_modtyp:
  assumes "{reg_ctrl, reg_tx_amp_rf_gain, reg_tx_amp_rf_ofs, reg_tx_car_osc_inc_lo,
      reg_tx_car_osc_inc_hi, reg_tx_car_osc_ofs_lo, reg_tx_car_osc_ofs_hi,
      reg_tx_car_osc_inc_scnr_lo, reg_tx_car_osc_inc_scnr_hi, reg_tx_mod_osc_inc_lo,
      reg_tx_mod_osc_inc_hi, reg_tx_mod_osc_ofs_lo, reg_tx_mod_osc_ofs_hi,
      reg_tx_mod_qmix_gain, reg_tx_mod_qmix_ofs_lo, reg_tx_mod_qmix_ofs_hi} \<subseteq> W"
  shows "writes_only W (set_ctrl_tx_modtyp E pow base a inc)"
proof -
  have w: "reg_ctrl \<in> W" "reg_tx_amp_rf_gain \<in> W" "reg_tx_amp_rf_ofs \<in> W" "reg_tx_car_osc_inc_lo \<in> W" "reg_tx_car_osc_inc_hi \<in> W" "reg_tx_car_osc_ofs_lo \<in> W" "reg_tx_car_osc_ofs_hi \<in> W" "reg_tx_car_osc_inc_scnr_lo \<in> W" "reg_tx_car_osc_inc_scnr_hi \<in> W" "reg_tx_mod_osc_inc_lo \<in> W" "reg_tx_mod_osc_inc_hi \<in> W" "reg_tx_mod_osc_ofs_lo \<in> W" "reg_tx_mod_osc_ofs_hi \<in> W" "reg_tx_mod_qmix_gain \<in> W" "reg_tx_mod_qmix_ofs_lo \<in> W" "reg_tx_mod_qmix_ofs_hi \<in> W"
    using assms by simp_all
  show ?thesis
    unfolding set_ctrl_tx_modtyp_def Let_def by (intro wo_intros w)
qed

lemma wo_set_ctrl_rx_muxin_src:
  assumes "{reg_ctrl, reg_rx_muxin_gain, reg_rx_muxin_ofs, reg_rx_muxin_src} \<subseteq> W"
  shows "writes_only W (set_ctrl_rx_muxin_src E adc a)"
proof -
  have w: "reg_ctrl \<in> W" "reg_rx_muxin_gain \<in> W" "reg_rx_muxin_ofs \<in> W" "reg_rx_muxin_src \<in> W"
    using assms by simp_all
  show ?thesis
    unfolding set_ctrl_rx_muxin_src_def Let_def by (intro wo_intros w)
qed

lemma wo_set_ctrl_rx_modtyp:
  assumes "{reg_ctrl, reg_rx_car_osc_inc_lo, reg_rx_car_osc_inc_hi, reg_rx_car_osc_ofs_lo,
      reg_rx_car_osc_ofs_hi, reg_rx_car_osc_inc_scnr_lo, reg_rx_car_osc_inc_scnr_hi,
      reg_rx_mod_osc_inc_lo, reg_rx_mod_osc_inc_hi, reg_rx_mod_osc_ofs_lo,
      reg_rx_mod_osc_ofs_hi, reg_rx_car_calc_weaver_inc_lo,
      reg_rx_car_calc_weaver_inc_hi, reg_rx_amenv_filtvar} \<subseteq> W"
  shows "writes_only W (set_ctrl_rx_modtyp E pow base a inc)"
proof -
  have w: "reg_ctrl \<in> W" "reg_rx_car_osc_inc_lo \<in> W" "reg_rx_car_osc_inc_hi \<in> W" "reg_rx_car_osc_ofs_lo \<in> W" "reg_rx_car_osc_ofs_hi \<in> W" "reg_rx_car_osc_inc_scnr_lo \<in> W" "reg_rx_car_osc_inc_scnr_hi \<in> W" "reg_rx_mod_osc_inc_lo \<in> W" "reg_rx_mod_osc_inc_hi \<in> W" "reg_rx_mod_osc_ofs_lo \<in> W" "reg_rx_mod_osc_ofs_hi \<in> W" "reg_rx_car_calc_weaver_inc_lo \<in> W" "reg_rx_car_calc_weaver_inc_hi \<in> W" "reg_rx_amenv_filtvar \<in> W"
    using assms by simp_all
  show ?thesis
    unfolding set_ctrl_rx_modtyp_def Let_def by (intro wo_intros w)
qed


section \<open>The cache of fpga_rb_set_ctrl\<close>

lemma wo_set_ctrl_run: "writes_only (- rfout_regs) (set_ctrl_run E pow base adc a txinc rxinc)"
  unfolding set_ctrl_run_def
  by (intro wo_intros wo_set_ctrl_tx_modsrc wo_set_ctrl_tx_modtyp wo_set_ctrl_rx_muxin_src
      wo_set_ctrl_rx_modtyp) (simp_all add: rfout_regs_def)

lemma wo_set_ctrl_stop: "writes_only (- rfout_regs) (set_ctrl_stop pow base)"
  unfolding set_ctrl_stop_def
  by (intro wo_intros) (simp_all add: rfout_regs_def)

lemma set_ctrl_unchanged:
  assumes "\<not> rfout_changed a G"
  shows "fpga_rb_set_ctrl E X a G =
     on_regs (if rb_run a \<noteq> 0
              then set_ctrl_run E (math_pow X) (base_osc125mhz_realhz X (g_rp_main_calib_params G))
                     (calib_get_ADC_offset X (g_rp_main_calib_params G)) a
                     (if tx_qrg_sel a \<noteq> 0 then qrg_inc a else 50)
                     (if rx_qrg_sel a \<noteq> 0 then qrg_inc a else 50)
              else set_ctrl_stop (math_pow X) (base_osc125mhz_realhz X (g_rp_main_calib_params G))) G"
  using assms by (simp add: fpga_rb_set_ctrl_def Let_def)

lemma set_ctrl_changed:
  assumes "rfout_changed a G"
  shows "fpga_rb_set_ctrl E X a G =
     on_regs (if rb_run a \<noteq> 0
              then set_ctrl_run E (math_pow X) (base_osc125mhz_realhz X (g_rp_main_calib_params G))
                     (calib_get_ADC_offset X (g_rp_main_calib_params G)) a
                     (if tx_qrg_sel a \<noteq> 0 then qrg_inc a else 50)
                     (if rx_qrg_sel a \<noteq> 0 then qrg_inc a else 50)
              else set_ctrl_stop (math_pow X) (base_osc125mhz_realhz X (g_rp_main_calib_params G)))
       (set_ctrl_rfout X a G)"
proof -
  have "g_rp_main_calib_params (set_ctrl_rfout X a G) = g_rp_main_calib_params G"
    by (simp add: set_ctrl_rfout_def on_regs_def Let_def)
  then show ?thesis
    using assms by (simp add: fpga_rb_set_ctrl_def Let_def)
qed

lemma set_ctrl_rfout_olds:
  "tx_car_osc_qrg_old (set_ctrl_rfout X a G) = tx_car_osc_qrg a"
  "rx_car_osc_qrg_old (set_ctrl_rfout X a G) = rx_car_osc_qrg a"
  "src_con_pnt_old (set_ctrl_rfout X a G) = word_of_int (src_con_pnt a)"
  "src_con_pnt2_old (set_ctrl_rfout X a G) = src_con_pnt2_old G"
  "term_rfout1_old (set_ctrl_rfout X a G) = term_rfout1 a"
  "term_rfout2_old (set_ctrl_rfout X a G) = term_rfout2 a"
  by (simp_all add: set_ctrl_rfout_def on_regs_def Let_def)

lemma on_regs_olds:
  "tx_car_osc_qrg_old (on_regs f G) = tx_car_osc_qrg_old G"
  "rx_car_osc_qrg_old (on_regs f G) = rx_car_osc_qrg_old G"
  "src_con_pnt_old (on_regs f G) = src_con_pnt_old G"
  "src_con_pnt2_old (on_regs f G) = src_con_pnt2_old G"
  "term_rfout1_old (on_regs f G) = term_rfout1_old G"
  "term_rfout2_old (on_regs f G) = term_rfout2_old G"
  "g_rp_main_calib_params (on_regs f G) = g_rp_main_calib_params G"
  "g_fpga_rb_reg_mem (on_regs f G) = f (g_fpga_rb_reg_mem G)"
  by (simp_all add: on_regs_def)

text \<open>
  C6. What \<^verbatim>\<open>fpga_rb_set_ctrl\<close> does with its cache. When one of the six parameters
  differs from its cached value, five of the cached values are set to the parameters; but
  \<^verbatim>\<open>src_con_pnt2_old\<close> keeps its value in every call: no statement assigns to it. When none
  differs, the cache is left alone and, on mapped registers, the gain and offset registers
  of both RF outputs and the registers \<^verbatim>\<open>src_con_pnt\<close> and \<^verbatim>\<open>src_con_pnt2\<close> keep their
  contents.
\<close>

theorem set_ctrl_rfout_cache:
  "src_con_pnt2_old (fpga_rb_set_ctrl E X a G) = src_con_pnt2_old G
   \<and> (rfout_changed a G \<longrightarrow>
        tx_car_osc_qrg_old (fpga_rb_set_ctrl E X a G) = tx_car_osc_qrg a
        \<and> rx_car_osc_qrg_old (fpga_rb_set_ctrl E X a G) = rx_car_osc_qrg a
        \<and> src_con_pnt_old (fpga_rb_set_ctrl E X a G) = word_of_int (src_con_pnt a)
        \<and> term_rfout1_old (fpga_rb_set_ctrl E X a G) = term_rfout1 a
        \<and> term_rfout2_old (fpga_rb_set_ctrl E X a G) = term_rfout2 a)
   \<and> (\<not> rfout_changed a G \<longrightarrow>
        tx_car_osc_qrg_old (fpga_rb_set_ctrl E X a G) = tx_car_osc_qrg_old G
        \<and> rx_car_osc_qrg_old (fpga_rb_set_ctrl E X a G) = rx_car_osc_qrg_old G
        \<and> src_con_pnt_old (fpga_rb_set_ctrl E X a G) = src_con_pnt_old G
        \<and> term_rfout1_old (fpga_rb_set_ctrl E X a G) = term_rfout1_old G
        \<and> term_rfout2_old (fpga_rb_set_ctrl E X a G) = term_rfout2_old G
        \<and> (\<forall>m. g_fpga_rb_reg_mem G = Mapped m \<longrightarrow>
              (\<exists>m'. g_fpga_rb_reg_mem (fpga_rb_set_ctrl E X a G) = Mapped m'
                    \<and> (\<forall>r\<in>rfout_regs. m' r = m r))))"
proof (intro conjI impI allI)
  show "src_con_pnt2_old (fpga_rb_set_ctrl E X a G) = src_con_pnt2_old G"
    by (cases "rfout_changed a G")
      (simp_all add: set_ctrl_changed set_ctrl_unchanged on_regs_olds set_ctrl_rfout_olds)
next
  fix m
  assume u: "\<not> rfout_changed a G" and m: "g_fpga_rb_reg_mem G = Mapped m"
  let ?f = "if rb_run a \<noteq> 0
              then set_ctrl_run E (math_pow X) (base_osc125mhz_realhz X (g_rp_main_calib_params G))
                     (calib_get_ADC_offset X (g_rp_main_calib_params G)) a
                     (if tx_qrg_sel a \<noteq> 0 then qrg_inc a else 50)
                     (if rx_qrg_sel a \<noteq> 0 then qrg_inc a else 50)
              else set_ctrl_stop (math_pow X) (base_osc125mhz_realhz X (g_rp_main_calib_params G))"
  have "writes_only (- rfout_regs) ?f"
    by (intro wo_if wo_set_ctrl_run wo_set_ctrl_stop)
  then obtain m' where "?f (Mapped m) = Mapped m'" "\<forall>r. r \<notin> - rfout_regs \<longrightarrow> m' r = m r"
    unfolding writes_only_def by blast
  then show "\<exists>m'. g_fpga_rb_reg_mem (fpga_rb_set_ctrl E X a G) = Mapped m'
      \<and> (\<forall>r\<in>rfout_regs. m' r = m r)"
    using m by (simp only: set_ctrl_unchanged [OF u] on_regs_olds) auto
qed (simp_all add: set_ctrl_changed set_ctrl_unchanged on_regs_olds set_ctrl_rfout_olds)

text \<open>
  A call with \<^verbatim>\<open>src_con_pnt2 = 1\<close> on the initial cache takes the block, and afterwards
  \<^verbatim>\<open>src_con_pnt2_old\<close> is still 0: the same call again takes the block again.
\<close>

theorem set_ctrl_rfout_cache_witness:
  "rfout_changed (example_args\<lparr>src_con_pnt2 := 1\<rparr>) (example_globals (Mapped zero_regs))
   \<and> src_con_pnt2_old (fpga_rb_set_ctrl example_enums example_extern
        (example_args\<lparr>src_con_pnt2 := 1\<rparr>) (example_globals (Mapped zero_regs))) = 0
   \<and> rfout_changed (example_args\<lparr>src_con_pnt2 := 1\<rparr>)
        (fpga_rb_set_ctrl example_enums example_extern
          (example_args\<lparr>src_con_pnt2 := 1\<rparr>) (example_globals (Mapped zero_regs)))"
proof -
  have c: "rfout_changed (example_args\<lparr>src_con_pnt2 := 1\<rparr>) (example_globals (Mapped zero_regs))"
    by (simp add: rfout_changed_def example_args_def example_globals_def)
  have o: "src_con_pnt2_old (example_globals (Mapped zero_regs)) = 0"
    by (simp add: example_globals_def)
  have a: "src_con_pnt2 (example_args\<lparr>src_con_pnt2 := 1\<rparr>) = 1" by simp
  show ?thesis
    using set_ctrl_rfout_cache [of example_enums example_extern
        "example_args\<lparr>src_con_pnt2 := 1\<rparr>" "example_globals (Mapped zero_regs)"] c
    unfolding o by (simp add: rfout_changed_def [of _ "fpga_rb_set_ctrl _ _ _ _"])
qed


section \<open>Writing a frequency and reading it back\<close>

lemma split_join_64:
  "(ucast (ucast (w AND 0xffffffff) :: u32) :: u64)
     OR push_bit 32 (ucast (ucast (signed_drop_bit 32 w) :: u32)) = (w :: u64)"
proof -
  have m: "(0xffffffff :: u64) = mask 32" by (simp add: mask_eq_exp_minus_1)
  show ?thesis
    unfolding m
  proof (rule bit_eqI)
    fix n
    assume "possible_bit TYPE(u64) n"
    then have n: "n < 64" by (simp add: possible_bit_def)
    show "bit ((ucast (ucast (w AND mask 32) :: u32) :: u64) OR
               push_bit 32 (ucast (ucast (signed_drop_bit 32 w) :: u32))) n = bit w n"
    proof (cases "n < 32")
      case True
      then show ?thesis by (auto simp add: bit_simps)
    next
      case False
      then have "32 + (n - 32) = n" by simp
      with False n show ?thesis by (auto simp add: bit_simps)
    qed
  qed
qed

lemma inc_value_split: "inc_value (ucast (w AND 0xffffffff), ucast (signed_drop_bit 32 w)) = sint (w :: u64)"
  by (simp only: inc_value_def prod.case split_join_64)

lemma sint_word_of_int_64:
  assumes "- (2 ^ 63) \<le> b" "b < 2 ^ 63"
  shows "sint (word_of_int b :: u64) = b"
proof -
  have "sint (word_of_int b :: u64) = signed_take_bit (LENGTH(64) - 1) b"
    by (rule sint_sbintrunc')
  also have "\<dots> = b" using assms by (simp add: signed_take_bit_int_eq_self)
  finally show ?thesis .
qed

lemma dtrunc_error: "\<bar>of_int (dtrunc x) - x\<bar> < 1"
  unfolding dtrunc_def by (cases "0 \<le> x") (simp_all, linarith+)

lemma abs_bound: "\<bar>a - b\<bar> \<le> e \<Longrightarrow> \<bar>b\<bar> \<le> m \<Longrightarrow> \<bar>a\<bar> \<le> e + (m :: rat)"
  by linarith

lemma abs_chain: "\<bar>a - b\<bar> \<le> e \<Longrightarrow> \<bar>b - c\<bar> \<le> d \<Longrightarrow> \<bar>a - c\<bar> \<le> e + (d :: rat)"
  by linarith

lemma abs_half: "\<bar>a\<bar> \<le> m \<Longrightarrow> \<bar>a + 1 / 2\<bar> \<le> m + 1 / (2 :: rat)"
  by linarith

lemma abs_shift: "\<bar>a - (b + h)\<bar> \<le> e \<Longrightarrow> \<bar>b - c\<bar> \<le> d \<Longrightarrow> \<bar>a - (c + h)\<bar> \<le> e + (d :: rat)"
  by linarith

lemma abs_unshift: "\<bar>a - (b + 1 / 2)\<bar> \<le> e \<Longrightarrow> \<bar>a - b\<bar> \<le> e + 1 / (2 :: rat)"
  by linarith

lemma abs_scale: "0 \<le> c \<Longrightarrow> \<bar>c * a - c * b\<bar> = c * \<bar>a - (b :: rat)\<bar>"
  by (simp only: right_diff_distrib [symmetric] abs_mult abs_of_nonneg)

lemma dds_round_error:
  fixes B f :: rat
  assumes B: "0 < B" and f: "\<bar>f\<bar> \<le> B / 2"
  defines "Q \<equiv> f / B * 2 ^ 48"
  defines "x2 \<equiv> dmul (2 ^ 48) (ddiv f B)"
  defines "x3 \<equiv> (if 0 < x2 then dadd x2 (1 / 2)
                  else if x2 < 0 then dsub x2 (- (1 / 2)) else x2)"
  shows "\<bar>of_int (dtrunc x3) - Q\<bar> < 13 / 8" and "\<bar>of_int (dtrunc x3) :: rat\<bar> < 2 ^ 47 + 2"
proof -
  define x1 where "x1 = rnd (f / B)"
  have q: "\<bar>f / B\<bar> \<le> 1 / 2"
    using B f by (simp add: field_simps)
  have e1: "\<bar>x1 - f / B\<bar> \<le> 1 / 2 / 2 ^ 53"
    unfolding x1_def by (rule rnd_error_le [OF q])
  have m1: "\<bar>x1\<bar> \<le> 1 / 2 / 2 ^ 53 + 1 / 2"
    by (rule abs_bound [OF e1 q])
  have "\<bar>2 ^ 48 * x1\<bar> = 2 ^ 48 * \<bar>x1\<bar>"
    by (simp add: abs_mult)
  also have "\<dots> \<le> 2 ^ 48 * (1 / 2 / 2 ^ 53 + 1 / 2)"
    by (rule mult_left_mono [OF m1]) simp
  also have "\<dots> \<le> 2 ^ 47 + 1 / 64" by simp
  finally have a1: "\<bar>2 ^ 48 * x1\<bar> \<le> 2 ^ 47 + 1 / 64" .
  have x2: "x2 = rnd (2 ^ 48 * x1)"
    by (simp add: x2_def dmul_def ddiv_def x1_def)
  have e2: "\<bar>x2 - 2 ^ 48 * x1\<bar> \<le> (2 ^ 47 + 1 / 64) / 2 ^ 53"
    unfolding x2 by (rule rnd_error_le [OF a1])
  have Q: "Q = 2 ^ 48 * (f / B)" by (simp add: Q_def)
  have "\<bar>2 ^ 48 * x1 - Q\<bar> = 2 ^ 48 * \<bar>x1 - f / B\<bar>"
    unfolding Q by (rule abs_scale) simp
  also have "\<dots> \<le> 2 ^ 48 * (1 / 2 / 2 ^ 53)"
    by (rule mult_left_mono [OF e1]) simp
  finally have s: "\<bar>2 ^ 48 * x1 - Q\<bar> \<le> 2 ^ 48 * (1 / 2 / 2 ^ 53)" .
  have "\<bar>x2 - Q\<bar> \<le> (2 ^ 47 + 1 / 64) / 2 ^ 53 + 2 ^ 48 * (1 / 2 / 2 ^ 53)"
    by (rule abs_chain [OF e2 s])
  also have "\<dots> \<le> 1 / 16" by simp
  finally have d2: "\<bar>x2 - Q\<bar> \<le> 1 / 16" .
  have "\<bar>Q\<bar> = 2 ^ 48 * \<bar>f / B\<bar>"
    unfolding Q by (simp add: abs_mult del: abs_divide)
  also have "\<dots> \<le> 2 ^ 48 * (1 / 2)"
    by (rule mult_left_mono [OF q]) simp
  also have "\<dots> = 2 ^ 47" by simp
  finally have aQ: "\<bar>Q\<bar> \<le> 2 ^ 47" .
  have "\<bar>x2 + 1 / 2\<bar> \<le> 1 / 16 + 2 ^ 47 + 1 / 2"
    by (rule abs_half [OF abs_bound [OF d2 aQ]])
  also have "\<dots> \<le> 2 ^ 47 + 1" by simp
  finally have a2: "\<bar>x2 + 1 / 2\<bar> \<le> 2 ^ 47 + 1" .
  have "\<bar>rnd (x2 + 1 / 2) - (x2 + 1 / 2)\<bar> \<le> (2 ^ 47 + 1) / 2 ^ 53"
    by (rule rnd_error_le [OF a2])
  then have "\<bar>rnd (x2 + 1 / 2) - x2\<bar> \<le> (2 ^ 47 + 1) / 2 ^ 53 + 1 / 2"
    by (rule abs_unshift)
  also have "\<dots> \<le> 1 / 2 + 1 / 32" by simp
  finally have r: "\<bar>rnd (x2 + 1 / 2) - x2\<bar> \<le> 1 / 2 + 1 / 32" .
  have d3: "\<bar>x3 - x2\<bar> \<le> 1 / 2 + 1 / 32"
    using r by (simp add: x3_def dadd_def dsub_def)
  have t: "\<bar>of_int (dtrunc x3) - x3\<bar> < 1" by (rule dtrunc_error)
  show *: "\<bar>of_int (dtrunc x3) - Q\<bar> < 13 / 8"
    using t d3 d2 by linarith
  show "\<bar>of_int (dtrunc x3) :: rat\<bar> < 2 ^ 47 + 2"
    using * aQ by linarith
qed

lemma readback_exact:
  fixes B :: rat
  assumes B: "0 < B" "B \<le> 2 ^ 27" and n: "\<bar>of_int n\<bar> \<le> B / 2"
    and b: "\<bar>of_int b - of_int n / B * 2 ^ 48\<bar> < 13 / 8"
  shows "dfloor (dadd (dmul B (ddiv (d_of_int b) (2 ^ 48))) (1 / 2)) = of_int n"
proof -
  define q where "q = of_int n / B"
  have q: "\<bar>q\<bar> \<le> 1 / 2"
    using B n by (simp add: q_def field_simps)
  have nq: "of_int n = B * q" using B by (simp add: q_def)
  have b': "\<bar>of_int b - q * 2 ^ 48\<bar> \<le> 13 / 8" using b by (simp add: q_def)
  have "\<bar>q * 2 ^ 48\<bar> = 2 ^ 48 * \<bar>q\<bar>"
    by (simp add: abs_mult)
  also have "\<dots> \<le> 2 ^ 48 * (1 / 2)"
    by (rule mult_left_mono [OF q]) simp
  finally have aq: "\<bar>q * 2 ^ 48\<bar> \<le> 2 ^ 48 * (1 / 2)" .
  have "\<bar>of_int b :: rat\<bar> \<le> 13 / 8 + 2 ^ 48 * (1 / 2)"
    by (rule abs_bound [OF b' aq])
  also have "\<dots> \<le> 2 ^ 47 + 2" by simp
  finally have ab: "\<bar>of_int b :: rat\<bar> \<le> 2 ^ 47 + 2" .
  define y0 where "y0 = d_of_int b"
  have e0: "\<bar>y0 - of_int b\<bar> \<le> (2 ^ 47 + 2) / 2 ^ 53"
    unfolding y0_def d_of_int_def by (rule rnd_error_le [OF ab])
  have m0: "\<bar>y0\<bar> \<le> (2 ^ 47 + 2) / 2 ^ 53 + (2 ^ 47 + 2)"
    by (rule abs_bound [OF e0 ab])
  have "\<bar>y0 / 2 ^ 48\<bar> = \<bar>y0\<bar> / 2 ^ 48" by simp
  also have "\<dots> \<le> ((2 ^ 47 + 2) / 2 ^ 53 + (2 ^ 47 + 2)) / 2 ^ 48"
    by (rule divide_right_mono [OF m0]) simp
  also have "\<dots> \<le> 1" by simp
  finally have a0: "\<bar>y0 / 2 ^ 48\<bar> \<le> 1" .
  define y1 where "y1 = ddiv y0 (2 ^ 48)"
  have e1: "\<bar>y1 - y0 / 2 ^ 48\<bar> \<le> 1 / 2 ^ 53"
    unfolding y1_def ddiv_def by (rule rnd_error_le [OF a0])
  have c0: "\<bar>y0 - q * 2 ^ 48\<bar> \<le> (2 ^ 47 + 2) / 2 ^ 53 + 13 / 8"
    by (rule abs_chain [OF e0 b'])
  have "y0 / 2 ^ 48 - q = (y0 - q * 2 ^ 48) / 2 ^ 48"
    by (simp add: field_simps)
  then have "\<bar>y0 / 2 ^ 48 - q\<bar> = \<bar>y0 - q * 2 ^ 48\<bar> / 2 ^ 48"
    by (simp only: abs_divide) simp
  also have "\<dots> \<le> ((2 ^ 47 + 2) / 2 ^ 53 + 13 / 8) / 2 ^ 48"
    by (rule divide_right_mono [OF c0]) simp
  finally have s: "\<bar>y0 / 2 ^ 48 - q\<bar> \<le> ((2 ^ 47 + 2) / 2 ^ 53 + 13 / 8) / 2 ^ 48" .
  have "\<bar>y1 - q\<bar> \<le> 1 / 2 ^ 53 + ((2 ^ 47 + 2) / 2 ^ 53 + 13 / 8) / 2 ^ 48"
    by (rule abs_chain [OF e1 s])
  also have "\<dots> \<le> 1 / 2 ^ 46" by simp
  finally have d: "\<bar>y1 - q\<bar> \<le> 1 / 2 ^ 46" .
  have "\<bar>B * y1 - of_int n\<bar> = B * \<bar>y1 - q\<bar>"
    unfolding nq using B by (intro abs_scale) simp
  also have "\<dots> \<le> 2 ^ 27 * (1 / 2 ^ 46)"
    using B d by (intro mult_mono) simp_all
  also have "\<dots> = 1 / 2 ^ 19" by simp
  finally have p: "\<bar>B * y1 - of_int n\<bar> \<le> 1 / 2 ^ 19" .
  have "B / 2 \<le> 2 ^ 26" using B by simp
  with n have an: "\<bar>of_int n :: rat\<bar> \<le> 2 ^ 26" by (rule order_trans)
  have "\<bar>B * y1\<bar> \<le> 1 / 2 ^ 19 + 2 ^ 26"
    by (rule abs_bound [OF p an])
  also have "\<dots> \<le> 2 ^ 26 + 1" by simp
  finally have a2: "\<bar>B * y1\<bar> \<le> 2 ^ 26 + 1" .
  define y2 where "y2 = dmul B y1"
  have e2: "\<bar>y2 - B * y1\<bar> \<le> (2 ^ 26 + 1) / 2 ^ 53"
    unfolding y2_def dmul_def by (rule rnd_error_le [OF a2])
  have "\<bar>y2 - of_int n\<bar> \<le> (2 ^ 26 + 1) / 2 ^ 53 + 1 / 2 ^ 19"
    by (rule abs_chain [OF e2 p])
  also have "\<dots> \<le> 1 / 2 ^ 18" by simp
  finally have d2: "\<bar>y2 - of_int n\<bar> \<le> 1 / 2 ^ 18" .
  have "\<bar>y2 + 1 / 2\<bar> \<le> 1 / 2 ^ 18 + 2 ^ 26 + 1 / 2"
    by (rule abs_half [OF abs_bound [OF d2 an]])
  also have "\<dots> \<le> 2 ^ 26 + 1" by simp
  finally have a3: "\<bar>y2 + 1 / 2\<bar> \<le> 2 ^ 26 + 1" .
  define y3 where "y3 = dadd y2 (1 / 2)"
  have e3: "\<bar>y3 - (y2 + 1 / 2)\<bar> \<le> (2 ^ 26 + 1) / 2 ^ 53"
    unfolding y3_def dadd_def by (rule rnd_error_le [OF a3])
  have "\<bar>y3 - (of_int n + 1 / 2)\<bar> \<le> (2 ^ 26 + 1) / 2 ^ 53 + 1 / 2 ^ 18"
    by (rule abs_shift [OF e3 d2])
  also have "\<dots> \<le> 1 / 4" by simp
  finally have "\<bar>y3 - (of_int n + 1 / 2)\<bar> \<le> 1 / 4" .
  then have "of_int n \<le> y3" "y3 < of_int n + 1" by linarith+
  then have "\<lfloor>y3\<rfloor> = n" by (rule floor_unique)
  then show ?thesis
    by (simp add: dfloor_def y3_def y2_def y1_def y0_def)
qed

lemma dds_roundtrip:
  fixes B :: rat
  assumes B: "0 < B" "B \<le> 2 ^ 27" and n: "\<bar>of_int n\<bar> \<le> B / 2"
  shows "dfloor (dadd (dmul B (ddiv (d_of_int (inc_value (dds_bits B (of_int n)))) (2 ^ 48)))
           (1 / 2)) = of_int n"
proof -
  define x2 where "x2 = dmul (2 ^ 48) (ddiv (of_int n) B)"
  define x3 where "x3 = (if 0 < x2 then dadd x2 (1 / 2)
                         else if x2 < 0 then dsub x2 (- (1 / 2)) else x2)"
  have e: "\<bar>of_int (dtrunc x3) - of_int n / B * 2 ^ 48\<bar> < 13 / 8"
    and a: "\<bar>of_int (dtrunc x3) :: rat\<bar> < 2 ^ 47 + 2"
    unfolding x3_def x2_def by (rule dds_round_error [OF B(1) n])+
  have "\<bar>of_int (dtrunc x3) :: rat\<bar> < of_int (2 ^ 63)"
    using a by simp
  then have "\<bar>dtrunc x3\<bar> < 2 ^ 63"
    by (simp only: of_int_abs [symmetric] of_int_less_iff)
  then have s: "sint (word_of_int (dtrunc x3) :: u64) = dtrunc x3"
    by (intro sint_word_of_int_64) simp_all
  have "inc_value (dds_bits B (of_int n)) = dtrunc x3"
    by (simp only: dds_bits_def Let_def inc_value_split d2i64_def s
        x3_def [symmetric] x2_def [symmetric])
  then show ?thesis
    by (simp only: readback_exact [OF B n e])
qed

lemma fpga_rb_get_tx_car_osc_qrg_Mapped:
  "fpga_rb_get_tx_car_osc_qrg base (Mapped m) =
     Some (dfloor (dadd (dmul base (ddiv (d_of_int
       (inc_value (m reg_tx_car_osc_inc_lo, m reg_tx_car_osc_inc_hi))) (2 ^ 48))) (1 / 2)))"
  by (simp add: fpga_rb_get_tx_car_osc_qrg_def inc_value_def Let_def)

lemma fpga_rb_get_rx_car_osc_qrg_Mapped:
  "fpga_rb_get_rx_car_osc_qrg base (Mapped m) =
     Some (dfloor (dadd (dmul base (ddiv (d_of_int
       (inc_value (m reg_rx_car_osc_inc_lo, m reg_rx_car_osc_inc_hi))) (2 ^ 48))) (1 / 2)))"
  by (simp add: fpga_rb_get_rx_car_osc_qrg_def inc_value_def Let_def)

lemma tx_car_osc_qrg_Mapped:
  "fpga_rb_set_tx_car_osc_qrg__4mod_cw_ssb_am_pm base f (Mapped m) =
     Mapped (m(reg_tx_car_osc_inc_lo := fst (dds_bits base f),
               reg_tx_car_osc_inc_hi := snd (dds_bits base f),
               reg_tx_car_osc_ofs_lo := 0, reg_tx_car_osc_ofs_hi := 0))"
  by (simp add: tx_car_osc_qrg_bits wr_Mapped)

lemma rx_car_osc_qrg_Mapped:
  "fpga_rb_set_rx_car_osc_qrg__4mod_ssb_am_fm_pm base f (Mapped m) =
     Mapped (m(reg_rx_car_osc_inc_lo := fst (dds_bits base f),
               reg_rx_car_osc_inc_hi := snd (dds_bits base f),
               reg_rx_car_osc_ofs_lo := 0, reg_rx_car_osc_ofs_hi := 0))"
  by (simp add: rx_car_osc_qrg_bits wr_Mapped)


subsection \<open>The carrier frequency survives the registers\<close>

text \<open>
  C8. With the base oscillator at 125 MHz and mapped registers, every integer frequency
  \<open>f\<close> of at most 62.5 MHz in magnitude that
  \<^verbatim>\<open>fpga_rb_set_tx_car_osc_qrg__4mod_cw_ssb_am_pm\<close> writes is what
  \<^verbatim>\<open>fpga_rb_get_tx_car_osc_qrg\<close> reads back, exactly; and the same holds for the
  RX carrier oscillator. The four roundings of the way in and the four of the way back
  add up to less than a quarter of a hertz before the final \<^verbatim>\<open>floor\<close>.
\<close>

theorem car_osc_qrg_set_get_roundtrip:
  assumes "\<bar>f\<bar> \<le> 62500000"
  shows "fpga_rb_get_tx_car_osc_qrg 125000000
           (fpga_rb_set_tx_car_osc_qrg__4mod_cw_ssb_am_pm 125000000 (of_int f) (Mapped m))
         = Some (of_int f)
       \<and> fpga_rb_get_rx_car_osc_qrg 125000000
           (fpga_rb_set_rx_car_osc_qrg__4mod_ssb_am_fm_pm 125000000 (of_int f) (Mapped m))
         = Some (of_int f)"
proof -
  have "\<bar>of_int f :: rat\<bar> \<le> of_int 62500000"
    using assms by (simp only: of_int_abs [symmetric] of_int_le_iff)
  then have f: "\<bar>of_int f :: rat\<bar> \<le> 125000000 / 2" by simp
  have r: "dfloor (dadd (dmul 125000000 (ddiv (d_of_int (inc_value
             (dds_bits 125000000 (of_int f)))) (2 ^ 48))) (1 / 2)) = of_int f"
    by (rule dds_roundtrip [OF _ _ f]) simp_all
  show ?thesis
    by (simp add: tx_car_osc_qrg_Mapped rx_car_osc_qrg_Mapped
        fpga_rb_get_tx_car_osc_qrg_Mapped fpga_rb_get_rx_car_osc_qrg_Mapped r
        del: power_numeral)
qed

text \<open>The round trip at \<open>f = - 7100000\<close> on zeroed registers.\<close>

theorem car_osc_qrg_set_get_roundtrip_witness:
  "\<bar>- 7100000 :: int\<bar> \<le> 62500000
   \<and> fpga_rb_get_tx_car_osc_qrg 125000000
        (fpga_rb_set_tx_car_osc_qrg__4mod_cw_ssb_am_pm 125000000 (- 7100000) (Mapped zero_regs))
      = Some (- 7100000)
   \<and> fpga_rb_get_rx_car_osc_qrg 125000000
        (fpga_rb_set_rx_car_osc_qrg__4mod_ssb_am_fm_pm 125000000 (- 7100000) (Mapped zero_regs))
      = Some (- 7100000)"
  using car_osc_qrg_set_get_roundtrip [of "- 7100000" zero_regs] by simp


section \<open>The carrier registers after fpga_rb_set_ctrl\<close>




















subsection \<open>What fpga_rb_get_ctrl reports after fpga_rb_set_ctrl\<close>




end
